theory Spec2Isabelle
  imports Complex_Main "HOL-Library.Sublist" "HOL-Library.Char_ord" "HOL-Library.List_Lexorder"
begin

section \<open>Python values shared by the models\<close>

text \<open>
  An exception is represented by its text \<open>str(e)\<close>: every handler of the modelled code
  catches \<open>Exception\<close> and uses nothing but that text.  A computation that may raise has
  the type \<open>exn + 'a\<close>, with \<open>Inl\<close> for the raised exception.

  Strings are lists of characters.  \<open>str.lower\<close> and \<open>str.strip\<close> are modelled on
  ASCII: the letters A to Z are folded, the ASCII white space characters are stripped.
  Python floats are modelled as reals.
\<close>

type_synonym exn = string

definition is_space :: "char \<Rightarrow> bool" where
  "is_space c = (c \<in> set [CHR '' '', CHR 0x09, CHR 0x0A, CHR 0x0B, CHR 0x0C, CHR 0x0D,
                           CHR 0x1C, CHR 0x1D, CHR 0x1E, CHR 0x1F])"

definition py_strip :: "string \<Rightarrow> string" where
  "py_strip s = rev (dropWhile is_space (rev (dropWhile is_space s)))"

definition lower_char :: "char \<Rightarrow> char" where
  "lower_char c =
     (case map_of (zip ''ABCDEFGHIJKLMNOPQRSTUVWXYZ'' ''abcdefghijklmnopqrstuvwxyz'') c of
        None \<Rightarrow> c
      | Some l \<Rightarrow> l)"

definition py_lower :: "string \<Rightarrow> string" where
  "py_lower s = map lower_char s"

text \<open>\<open>d.get(key, '')\<close> on a field that may be absent from the dict.\<close>

definition get_or_empty :: "string option \<Rightarrow> string" where
  "get_or_empty v = (case v of None \<Rightarrow> [] | Some s \<Rightarrow> s)"

section \<open>The classifier: \<open>utils/email_triage_manager.py\<close>\<close>

text \<open>
  The email dict, with the keys the code reads; \<open>None\<close> is an absent key.  The last
  two fields are the keys \<open>classification\<close> and \<open>classification_confidence\<close> that
  \<open>process_email\<close> adds.
\<close>

record email_data =
  sender :: "string option"
  subject :: "string option"
  body :: "string option"
  email_id :: "string option"
  stored_classification :: "string option"
  stored_confidence :: "real option"

text \<open>
  A ChromaDB collection as the classifier uses it: \<open>count()\<close> and
  \<open>query(query_texts=[text], n_results=k)\<close>, each of which may raise.  The result of a
  query is the value of \<open>results['distances']\<close>: \<open>None\<close>, or a list with one list of
  distances per query text.
\<close>

record collection =
  count_of :: "exn + nat"
  query_distances :: "string \<Rightarrow> nat \<Rightarrow> exn + real list list option"

text \<open>\<open>self.collections\<close>: the three pools, in the insertion order of the dict.\<close>

record collections =
  ignore_pool :: collection
  notify_pool :: collection
  respond_pool :: collection

text \<open>The configuration attribute read with \<open>getattr(self.cfg, ..., 0.37)\<close>.\<close>

record triage_config =
  classification_confidence_threshold :: "real option"

text \<open>
  The chat completion service as \<open>_classify_with_llm\<close> uses it: the prompt is sent as the
  only message, the call raises or returns \<open>choices[0].message.content\<close>, which may be
  \<open>None\<close>.
\<close>

type_synonym completion = "string \<Rightarrow> exn + string option"

text \<open>
  \<open>EmailRulesManager.get_rules\<close> (\<open>utils/email_rules_manager.py\<close>).  The relational store
  is a capability: the parameter is the outcome of the query for a rule type (it raises,
  finds no row, or finds the content of the latest version).
\<close>

type_synonym rules_store = "string \<Rightarrow> exn + string option"

definition get_default_rules :: "string \<Rightarrow> string" where
  "get_default_rules rule_type =
     (if rule_type = ''ignore_rules'' then
        ''Spam, promotional emails, mass announcements, no action needed''
      else if rule_type = ''notify_rules'' then
        ''Important information that user should know but doesn't need a response (e.g., system notifications, status updates)''
      else if rule_type = ''respond_rules'' then
        ''Emails that need a direct response (e.g., questions, meeting requests, action items)''
      else if rule_type = ''agent_instructions'' then
        ''Use these tools when appropriate to help manage tasks efficiently. Generate professional, courteous email responses.''
      else [])"

definition get_rules :: "rules_store \<Rightarrow> string \<Rightarrow> exn + string" where
  "get_rules store rule_type =
     (case store rule_type of
        Inl e \<Rightarrow> Inl e
      | Inr (Some rule_content) \<Rightarrow> Inr rule_content
      | Inr None \<Rightarrow> Inr (get_default_rules rule_type))"

definition labels :: "string list" where
  "labels = [''ignore'', ''notify'', ''respond'']"

definition format_email :: "email_data \<Rightarrow> string" where
  "format_email email =
     ''From: '' @ get_or_empty (sender email) @ ''\<newline>Subject: '' @ get_or_empty (subject email)
       @ ''\<newline>Body: '' @ get_or_empty (body email)"

definition classification_prompt :: "string \<Rightarrow> string \<Rightarrow> string \<Rightarrow> email_data \<Rightarrow> string" where
  "classification_prompt ignore_rules notify_rules respond_rules email =
     ''Classify this email into one category based on the following rules:\<newline>\<newline>IGNORE rules: ''
       @ ignore_rules @ ''\<newline>\<newline>NOTIFY rules: '' @ notify_rules
       @ ''\<newline>\<newline>RESPOND rules: '' @ respond_rules
       @ ''\<newline>\<newline>Email:\<newline>From: '' @ get_or_empty (sender email)
       @ ''\<newline>Subject: '' @ get_or_empty (subject email)
       @ ''\<newline>Body: '' @ take 500 (get_or_empty (body email))
       @ ''\<newline>\<newline>Respond with ONLY one word: ignore, notify, or respond''"

text \<open>
  \<open>_classify_with_llm\<close>.  The rules are loaded before the \<open>try\<close>, so an exception of the
  rules store propagates; everything after it is inside the \<open>try\<close>, whose handler
  returns \<open>'respond'\<close>.  A \<open>None\<close> content raises at \<open>.strip()\<close>, inside the \<open>try\<close>.
\<close>

definition classify_with_llm :: "rules_store option \<Rightarrow> completion \<Rightarrow> email_data \<Rightarrow> exn + string" where
  "classify_with_llm rules_manager llm email =
     (let rules =
        (case rules_manager of
           Some store \<Rightarrow>
             (case get_rules store ''ignore_rules'' of Inl e \<Rightarrow> Inl e
              | Inr ignore_rules \<Rightarrow>
             (case get_rules store ''notify_rules'' of Inl e \<Rightarrow> Inl e
              | Inr notify_rules \<Rightarrow>
             (case get_rules store ''respond_rules'' of Inl e \<Rightarrow> Inl e
              | Inr respond_rules \<Rightarrow> Inr (ignore_rules, notify_rules, respond_rules))))
         | None \<Rightarrow>
             Inr (get_default_rules ''ignore_rules'', get_default_rules ''notify_rules'',
                  get_default_rules ''respond_rules''))
      in case rules of
           Inl e \<Rightarrow> Inl e
         | Inr (ignore_rules, notify_rules, respond_rules) \<Rightarrow>
             (case llm (classification_prompt ignore_rules notify_rules respond_rules email) of
                Inl e \<Rightarrow> Inr ''respond''
              | Inr None \<Rightarrow> Inr ''respond''
              | Inr (Some content) \<Rightarrow>
                  (let classification = py_lower (py_strip content)
                   in if classification \<in> set labels then Inr classification
                      else Inr ''respond'')))"

text \<open>
  The score of one pool: the body of the \<open>for\<close> loop of \<open>classify_email\<close>, whose
  \<open>try\<close> turns every exception into the score 0.0.
\<close>

definition category_score :: "collection \<Rightarrow> string \<Rightarrow> real" where
  "category_score c email_text =
     (case count_of c of
        Inl e \<Rightarrow> 0
      | Inr n \<Rightarrow>
          if n = 0 then 0
          else (case query_distances c email_text (min 3 n) of
                  Inl e \<Rightarrow> 0
                | Inr None \<Rightarrow> 0
                | Inr (Some []) \<Rightarrow> 0
                | Inr (Some (ds # _)) \<Rightarrow>
                    if length ds > 0
                    then sum_list (map (\<lambda>d. 1 - d) ds) / real (length ds)
                    else 0))"

text \<open>
  \<open>max(category_scores, key=category_scores.get)\<close>: the first key, in the order of the
  dict, whose value is maximal.
\<close>

fun max_by_value :: "(string \<times> real) list \<Rightarrow> exn + (string \<times> real)" where
  "max_by_value [] = Inl ''max() arg is an empty sequence''"
| "max_by_value (x # xs) = Inr (foldl (\<lambda>best y. if snd best < snd y then y else best) x xs)"

text \<open>
  \<open>classify_email\<close>, with the \<open>return\<close> statement that produced the result: line 129
  (no examples), line 143 (invalid fallback label, best pool kept), line 144 (fallback
  label with the similarity score) and line 147 (best pool).
\<close>

datatype return_site = No_examples | Invalid_llm_kept_best | Llm_low_confidence | Best_category

definition category_scores :: "collections \<Rightarrow> email_data \<Rightarrow> (string \<times> real) list" where
  "category_scores cols email =
     [(''ignore'', category_score (ignore_pool cols) (format_email email)),
      (''notify'', category_score (notify_pool cols) (format_email email)),
      (''respond'', category_score (respond_pool cols) (format_email email))]"

definition confidence_threshold :: "triage_config \<Rightarrow> real" where
  "confidence_threshold cfg =
     (case classification_confidence_threshold cfg of None \<Rightarrow> 37 / 100 | Some t \<Rightarrow> t)"

definition classify_email_at ::
  "triage_config \<Rightarrow> collections \<Rightarrow> rules_store option \<Rightarrow> completion \<Rightarrow> email_data
     \<Rightarrow> exn + (return_site \<times> string \<times> real)" where
  "classify_email_at cfg cols rules_manager llm email =
     (if list_all (\<lambda>(category, score). score = 0) (category_scores cols email) then
        (case classify_with_llm rules_manager llm email of
           Inl e \<Rightarrow> Inl e
         | Inr llm_classification \<Rightarrow> Inr (No_examples, llm_classification, 1 / 2))
      else
        (case max_by_value (category_scores cols email) of
           Inl e \<Rightarrow> Inl e
         | Inr (best_category, best_score) \<Rightarrow>
             if best_score < confidence_threshold cfg then
               (case classify_with_llm rules_manager llm email of
                  Inl e \<Rightarrow> Inl e
                | Inr llm_classification \<Rightarrow>
                    if llm_classification \<notin> set labels
                    then Inr (Invalid_llm_kept_best, best_category, best_score)
                    else Inr (Llm_low_confidence, llm_classification, best_score))
             else Inr (Best_category, best_category, best_score)))"

definition classify_email ::
  "triage_config \<Rightarrow> collections \<Rightarrow> rules_store option \<Rightarrow> completion \<Rightarrow> email_data
     \<Rightarrow> exn + (string \<times> real)" where
  "classify_email cfg cols rules_manager llm email =
     (case classify_email_at cfg cols rules_manager llm email of
        Inl e \<Rightarrow> Inl e
      | Inr (site, classification, confidence) \<Rightarrow> Inr (classification, confidence))"

text \<open>
  Step 1 of \<open>process_email\<close> (\<open>utils/email_agent_v4.py\<close>, lines 179 to 198): the
  classification and confidence stored in the email after the \<open>try\<close>.
\<close>

definition process_email_classification ::
  "triage_config \<Rightarrow> collections \<Rightarrow> rules_store option \<Rightarrow> completion \<Rightarrow> email_data
     \<Rightarrow> string \<times> real" where
  "process_email_classification cfg cols rules_manager llm email =
     (case classify_email cfg cols rules_manager llm email of
        Inl e \<Rightarrow> (''respond'', 1 / 2)
      | Inr (classification, confidence) \<Rightarrow>
          if classification \<notin> set labels then (''respond'', 1 / 2)
          else (classification, confidence))"

section \<open>Tools and tool execution: \<open>utils/email_tools.py\<close>, \<open>execute_function_call\<close>\<close>

text \<open>
  The arguments of a tool call are the value decoded by \<open>json.loads\<close>.  Numbers are
  integers here.  An object keeps its items in order.
\<close>

datatype json =
  JNull | JBool bool | JInt int | JStr string | JList "json list" | JObj "(string \<times> json) list"

type_synonym kwargs = "(string \<times> json) list"

definition success_marker :: string where
  "success_marker = ''Function call successful.''"

definition failure_marker :: string where
  "failure_marker = ''Function call failed.''"

text \<open>
  \<open>len(v)\<close> on a decoded value: strings, lists and dicts have a length, anything else
  raises \<open>TypeError\<close>.
\<close>

definition py_len :: "json \<Rightarrow> exn + nat" where
  "py_len v =
     (case v of
        JStr s \<Rightarrow> Inr (length s)
      | JList xs \<Rightarrow> Inr (length xs)
      | JObj items \<Rightarrow> Inr (length items)
      | _ \<Rightarrow> Inl ''object has no len()'')"

text \<open>
  The call \<open>f(**function_args)\<close> of a method whose parameters are all required: a key
  that is no parameter, or a parameter without a key, raises \<open>TypeError\<close> (the
  interpreter's message is abbreviated); otherwise the values are bound in the order of
  the parameters.
\<close>

fun lookup_all :: "string list \<Rightarrow> kwargs \<Rightarrow> json list option" where
  "lookup_all [] args = Some []"
| "lookup_all (p # ps) args =
     (case map_of args p of
        None \<Rightarrow> None
      | Some v \<Rightarrow> (case lookup_all ps args of None \<Rightarrow> None | Some vs \<Rightarrow> Some (v # vs)))"

definition bind_kwargs :: "string \<Rightarrow> string list \<Rightarrow> kwargs \<Rightarrow> exn + json list" where
  "bind_kwargs qualname params args =
     (case filter (\<lambda>k. k \<notin> set params) (map fst args) of
        k # _ \<Rightarrow> Inl (qualname @ ''() got an unexpected keyword argument '' @ k)
      | [] \<Rightarrow>
          (case lookup_all params args of
             None \<Rightarrow> Inl (qualname @ ''() missing required positional arguments'')
           | Some vs \<Rightarrow> Inr vs))"

text \<open>
  The three tools of \<open>EmailTools\<close>.  The parameter \<open>fmt\<close> is the text an f-string gives
  for a value (\<open>str(v)\<close>).
\<close>

definition write_email_tool :: "(json \<Rightarrow> string) \<Rightarrow> json \<Rightarrow> json \<Rightarrow> json \<Rightarrow> string \<times> string" where
  "write_email_tool fmt to subject_line content =
     (let email_text = ''To: '' @ fmt to @ ''\<newline>Subject: '' @ fmt subject_line @ ''\<newline>\<newline>'' @ fmt content
      in (success_marker, ''Email prepared:\<newline>'' @ email_text))"

definition schedule_meeting_tool ::
  "(json \<Rightarrow> string) \<Rightarrow> json \<Rightarrow> json \<Rightarrow> json \<Rightarrow> json \<Rightarrow> exn + (string \<times> string)" where
  "schedule_meeting_tool fmt attendees subject_line duration_minutes preferred_day =
     (case py_len attendees of
        Inl e \<Rightarrow> Inl e
      | Inr n \<Rightarrow>
          Inr (success_marker,
               ''Meeting '' @ [CHR 0x27] @ fmt subject_line @ [CHR 0x27] @ '' scheduled for ''
                 @ fmt preferred_day @ '' with '' @ fmt (JInt (int n)) @ '' attendees for ''
                 @ fmt duration_minutes @ '' minutes''))"

definition check_calendar_availability_tool :: "(json \<Rightarrow> string) \<Rightarrow> json \<Rightarrow> string \<times> string" where
  "check_calendar_availability_tool fmt day =
     (success_marker, ''Available times on '' @ fmt day @ '': 9:00 AM, 2:00 PM, 4:00 PM'')"

text \<open>The three calls \<open>self.email_tools.f(**function_args)\<close>.\<close>

definition call_write_email_tool :: "(json \<Rightarrow> string) \<Rightarrow> kwargs \<Rightarrow> exn + (string \<times> string)" where
  "call_write_email_tool fmt args =
     (case bind_kwargs ''EmailTools.write_email_tool'' [''to'', ''subject'', ''content''] args of
        Inr [to, subject_line, content] \<Rightarrow> Inr (write_email_tool fmt to subject_line content)
      | Inr _ \<Rightarrow> Inl ''EmailTools.write_email_tool() missing required positional arguments''
      | Inl e \<Rightarrow> Inl e)"

definition call_schedule_meeting_tool :: "(json \<Rightarrow> string) \<Rightarrow> kwargs \<Rightarrow> exn + (string \<times> string)" where
  "call_schedule_meeting_tool fmt args =
     (case bind_kwargs ''EmailTools.schedule_meeting_tool''
             [''attendees'', ''subject'', ''duration_minutes'', ''preferred_day''] args of
        Inr [attendees, subject_line, duration_minutes, preferred_day] \<Rightarrow>
          schedule_meeting_tool fmt attendees subject_line duration_minutes preferred_day
      | Inr _ \<Rightarrow> Inl ''EmailTools.schedule_meeting_tool() missing required positional arguments''
      | Inl e \<Rightarrow> Inl e)"

definition call_check_calendar_availability_tool ::
  "(json \<Rightarrow> string) \<Rightarrow> kwargs \<Rightarrow> exn + (string \<times> string)" where
  "call_check_calendar_availability_tool fmt args =
     (case bind_kwargs ''EmailTools.check_calendar_availability_tool'' [''day''] args of
        Inr [day] \<Rightarrow> Inr (check_calendar_availability_tool fmt day)
      | Inr _ \<Rightarrow> Inl ''EmailTools.check_calendar_availability_tool() missing required positional arguments''
      | Inl e \<Rightarrow> Inl e)"

text \<open>
  The two tools whose classes are outside the sources read here
  (\<open>VectorDBManager.search_vector_db\<close>, called with \<open>**function_args\<close>, and
  \<open>UserManager.add_user_info_to_database\<close>, called with the dict): each raises or
  returns a pair.
\<close>

record external_tools =
  search_vector_db :: "kwargs \<Rightarrow> exn + (string \<times> string)"
  add_user_info_to_database :: "kwargs \<Rightarrow> exn + (string \<times> string)"

text \<open>
  Modelled from the spec: what the two tools outside the sources return.  "Every tool
  returns (status, detail) where status is the success marker or the failure marker."
\<close>

definition tool_contract :: "(kwargs \<Rightarrow> exn + (string \<times> string)) \<Rightarrow> bool" where
  "tool_contract tool =
     (\<forall>args status detail. tool args = Inr (status, detail) \<longrightarrow>
        status = success_marker \<or> status = failure_marker)"

text \<open>
  \<open>execute_function_call\<close>.  Each branch has its own \<open>try\<close>; the outer \<open>try\<close> wraps
  the whole dispatch.
\<close>

definition execute_function_call ::
  "(json \<Rightarrow> string) \<Rightarrow> external_tools \<Rightarrow> string \<Rightarrow> kwargs \<Rightarrow> exn + (string \<times> string)" where
  "execute_function_call fmt tools function_name function_args =
     (case
        (if function_name = ''search_vector_db'' then
           (case search_vector_db tools function_args of
              Inr r \<Rightarrow> Inr r
            | Inl e \<Rightarrow> Inr (failure_marker, ''Error searching VectorDB: '' @ e))
         else if function_name = ''add_user_info_to_database'' then
           (case add_user_info_to_database tools function_args of
              Inr r \<Rightarrow> Inr r
            | Inl e \<Rightarrow> Inr (failure_marker, ''Error updating user info: '' @ e))
         else if function_name = ''write_email_tool'' then
           (case call_write_email_tool fmt function_args of
              Inr r \<Rightarrow> Inr r
            | Inl e \<Rightarrow> Inr (failure_marker, ''Error writing email: '' @ e))
         else if function_name = ''schedule_meeting_tool'' then
           (case call_schedule_meeting_tool fmt function_args of
              Inr r \<Rightarrow> Inr r
            | Inl e \<Rightarrow> Inr (failure_marker, ''Error scheduling meeting: '' @ e))
         else if function_name = ''check_calendar_availability_tool'' then
           (case call_check_calendar_availability_tool fmt function_args of
              Inr r \<Rightarrow> Inr r
            | Inl e \<Rightarrow> Inr (failure_marker, ''Error checking calendar: '' @ e))
         else Inr (failure_marker, ''Unknown function: '' @ function_name))
      of
        Inr r \<Rightarrow> Inr r
      | Inl e \<Rightarrow>
          Inr (failure_marker, ''Unexpected error executing function '' @ function_name @ '': '' @ e))"

text \<open>
  The tool behind a function name, for stating what \<open>execute_function_call\<close> does when
  the tool raises; \<open>None\<close> for a name that is no tool.
\<close>

definition underlying_tool ::
  "(json \<Rightarrow> string) \<Rightarrow> external_tools \<Rightarrow> string \<Rightarrow> (kwargs \<Rightarrow> exn + (string \<times> string)) option" where
  "underlying_tool fmt tools function_name =
     (if function_name = ''search_vector_db'' then Some (search_vector_db tools)
      else if function_name = ''add_user_info_to_database'' then Some (add_user_info_to_database tools)
      else if function_name = ''write_email_tool'' then Some (call_write_email_tool fmt)
      else if function_name = ''schedule_meeting_tool'' then Some (call_schedule_meeting_tool fmt)
      else if function_name = ''check_calendar_availability_tool'' then
        Some (call_check_calendar_availability_tool fmt)
      else None)"

section \<open>Memory deduplication: \<open>_deduplicate_memory\<close>\<close>

text \<open>
  \<open>s.split(sep)\<close> for a non-empty separator: the pieces between the occurrences of
  \<open>sep\<close>, found from left to right without overlap.  (Python raises on an empty
  separator; the code only splits on literals.)
\<close>

fun py_split_aux :: "string \<Rightarrow> string \<Rightarrow> string \<Rightarrow> string list" where
  "py_split_aux sep acc [] = [rev acc]"
| "py_split_aux sep acc (x # xs) =
     (if sep \<noteq> [] \<and> prefix sep (x # xs)
      then rev acc # py_split_aux sep [] (drop (length sep) (x # xs))
      else py_split_aux sep (x # acc) xs)"

definition py_split :: "string \<Rightarrow> string \<Rightarrow> string list" where
  "py_split sep s = py_split_aux sep [] s"

text \<open>\<open>sub in s\<close> on strings.\<close>

fun py_in :: "string \<Rightarrow> string \<Rightarrow> bool" where
  "py_in sub [] = (sub = [])"
| "py_in sub (x # xs) = (prefix sub (x # xs) \<or> py_in sub xs)"

text \<open>\<open>sep.join(xs)\<close>.\<close>

fun py_join :: "string \<Rightarrow> string list \<Rightarrow> string" where
  "py_join sep [] = []"
| "py_join sep [x] = x"
| "py_join sep (x # y # ys) = x @ sep @ py_join sep (y # ys)"

text \<open>
  \<open>line.split(marker)[1].split('\n')[0].strip()\<close>; \<open>None\<close> when the index 1 is out of
  range, which the \<open>try\<close> around it swallows.
\<close>

definition field_after :: "string \<Rightarrow> string \<Rightarrow> string option" where
  "field_after marker line =
     (case py_split marker line of
        _ # piece # _ \<Rightarrow>
          (case py_split ''\<newline>'' piece of first # _ \<Rightarrow> Some (py_strip first) | [] \<Rightarrow> None)
      | _ \<Rightarrow> None)"

text \<open>The truth value of a variable that is \<open>None\<close> or a string.\<close>

definition truthy :: "string option \<Rightarrow> bool" where
  "truthy v = (case v of None \<Rightarrow> False | Some s \<Rightarrow> s \<noteq> [])"

text \<open>
  The scan of the SQL history: the two sets (as lists; only membership is used) and
  the last subject and sender seen.
\<close>

record sql_scan =
  sql_identifiers :: "string list"
  sql_subject_sender_pairs :: "(string \<times> string) list"
  current_subject :: "string option"
  current_sender :: "string option"

definition scan_subject :: "string \<Rightarrow> sql_scan \<Rightarrow> sql_scan" where
  "scan_subject line st =
     (if py_in ''subject:'' (py_lower line) then
        (case field_after ''Subject:'' line of
           None \<Rightarrow> st
         | Some subj \<Rightarrow>
             if subj \<noteq> [] then
               st\<lparr>sql_identifiers := (''subject:'' @ py_lower subj) # sql_identifiers st,
                  current_subject := Some (py_lower subj)\<rparr>
             else st)
      else st)"

definition scan_sender :: "string \<Rightarrow> sql_scan \<Rightarrow> sql_scan" where
  "scan_sender line st =
     (if py_in ''from:'' (py_lower line) then
        (case field_after ''From:'' line of
           None \<Rightarrow> st
         | Some sndr \<Rightarrow>
             if sndr \<noteq> [] then
               (let st1 = st\<lparr>sql_identifiers := (''sender:'' @ py_lower sndr) # sql_identifiers st,
                              current_sender := Some (py_lower sndr)\<rparr>
                in case current_subject st1 of
                     Some cs \<Rightarrow>
                       if cs \<noteq> [] then
                         st1\<lparr>sql_subject_sender_pairs :=
                               (cs, py_lower sndr) # sql_subject_sender_pairs st1\<rparr>
                       else st1
                   | None \<Rightarrow> st1)
             else st)
      else st)"

definition scan_email_prefix :: "string \<Rightarrow> sql_scan \<Rightarrow> sql_scan" where
  "scan_email_prefix line st =
     (case current_subject st of
        Some cs \<Rightarrow>
          if py_in ''email:'' (py_lower line) \<and> cs \<noteq> [] then
            st\<lparr>sql_identifiers := (''email_subject:'' @ cs) # sql_identifiers st\<rparr>
          else st
      | None \<Rightarrow> st)"

definition scan_line :: "sql_scan \<Rightarrow> string \<Rightarrow> sql_scan" where
  "scan_line st line = scan_email_prefix line (scan_sender line (scan_subject line st))"

definition scan_sql_history :: "string \<Rightarrow> sql_scan" where
  "scan_sql_history sql_history =
     foldl scan_line
       \<lparr>sql_identifiers = [], sql_subject_sender_pairs = [],
        current_subject = None, current_sender = None\<rparr>
       (py_split ''\<newline>'' sql_history)"

text \<open>
  The subject and sender of a VectorDB section: the last line with each marker wins;
  a failed extraction leaves the variable as it was.
\<close>

definition section_line :: "string option \<times> string option \<Rightarrow> string \<Rightarrow> string option \<times> string option" where
  "section_line st line =
     (let subj = (if py_in ''subject:'' (py_lower line) then
                    (case field_after ''Subject:'' line of
                       None \<Rightarrow> fst st | Some v \<Rightarrow> Some (py_lower v))
                  else fst st);
          sndr = (if py_in ''from:'' (py_lower line) then
                    (case field_after ''From:'' line of
                       None \<Rightarrow> snd st | Some v \<Rightarrow> Some (py_lower v))
                  else snd st)
      in (subj, sndr))"

definition section_fields :: "string \<Rightarrow> string option \<times> string option" where
  "section_fields section = foldl section_line (None, None) (py_split ''\<newline>'' section)"

definition identifier_matches :: "string \<Rightarrow> string \<Rightarrow> bool" where
  "identifier_matches section_lower identifier =
     (identifier \<noteq> [] \<and>
      (case py_split '':'' identifier of
         _ # identifier_value # _ \<Rightarrow> py_in identifier_value section_lower
       | _ \<Rightarrow> False))"

definition is_duplicate :: "sql_scan \<Rightarrow> string \<Rightarrow> bool" where
  "is_duplicate scan section =
     (let section_lower = py_lower section;
          (section_subject, section_sender) = section_fields section
      in list_ex (identifier_matches section_lower) (sql_identifiers scan)
         \<or> (truthy section_subject \<and> truthy section_sender \<and>
             (case (section_subject, section_sender) of
                (Some s, Some f) \<Rightarrow> (s, f) \<in> set (sql_subject_sender_pairs scan)
              | _ \<Rightarrow> False))
         \<or> (truthy (current_subject scan) \<and> truthy (current_sender scan) \<and>
             (case (current_subject scan, current_sender scan) of
                (Some s, Some f) \<Rightarrow> py_in s section_lower \<and> py_in f section_lower
              | _ \<Rightarrow> False)))"

definition filtered_sections :: "sql_scan \<Rightarrow> string \<Rightarrow> string list" where
  "filtered_sections scan vectordb_memory =
     map (\<lambda>section. ''Relevant Past Email'' @ section)
       (filter (\<lambda>section. py_strip section \<noteq> [] \<and> \<not> is_duplicate scan section)
          (py_split ''Relevant Past Email'' vectordb_memory))"

definition deduplicate_memory :: "string \<Rightarrow> string \<Rightarrow> string \<times> string" where
  "deduplicate_memory sql_history vectordb_memory =
     (if vectordb_memory = [] \<or> py_strip vectordb_memory = [] then (sql_history, [])
      else if sql_history = [] \<or> py_strip sql_history = [] then ([], vectordb_memory)
      else
        (let kept = filtered_sections (scan_sql_history sql_history) vectordb_memory
         in if kept \<noteq> [] then (sql_history, py_join ''\<newline>'' kept)
            else (sql_history, [])))"

text \<open>
  An invariant of the scan of the SQL history, which reads the history line by line: no
  identifier and neither remembered field contains a line break.
\<close>

definition newline_free_scan :: "sql_scan \<Rightarrow> bool" where
  "newline_free_scan st =
     (list_all (\<lambda>i. CHR 0x0A \<notin> set i) (sql_identifiers st)
      \<and> (case current_subject st of None \<Rightarrow> True | Some v \<Rightarrow> CHR 0x0A \<notin> set v)
      \<and> (case current_sender st of None \<Rightarrow> True | Some v \<Rightarrow> CHR 0x0A \<notin> set v))"

section \<open>Token budget: \<open>_check_token_limit\<close> and \<open>_summarize_memory\<close>\<close>

text \<open>
  \<open>Utils.count_number_of_tokens\<close> is outside the sources read here; it is a parameter
  that raises or returns a count.  Its argument is \<open>None\<close> when the code passes
  \<open>None\<close>.
\<close>

type_synonym token_counter = "string option \<Rightarrow> exn + nat"

definition check_token_limit :: "token_counter \<Rightarrow> string \<Rightarrow> nat \<Rightarrow> bool" where
  "check_token_limit count_number_of_tokens text max_tokens =
     (case count_number_of_tokens (Some text) of
        Inr token_count \<Rightarrow> token_count > max_tokens
      | Inl e \<Rightarrow> length text > max_tokens * 4)"

text \<open>The decimal text of a natural number, as an f-string prints it.\<close>

fun str_nat :: "nat \<Rightarrow> string" where
  "str_nat n =
     (if n < 10 then [''0123456789'' ! n]
      else str_nat (n div 10) @ [''0123456789'' ! (n mod 10)])"

definition summary_prompt :: "nat \<Rightarrow> string \<Rightarrow> string" where
  "summary_prompt target_tokens memory_part =
     ''Summarize the following email memory to reduce token count while keeping the most important context and key information:\<newline>\<newline>''
       @ memory_part
       @ ''\<newline>\<newline>Provide a concise summary focusing on:\<newline>- Key topics and subjects discussed\<newline>- Important decisions or agreements\<newline>- Action items or follow-ups\<newline>- Critical details that might be needed for future responses\<newline>\<newline>Keep the summary under ''
       @ str_nat target_tokens @ '' tokens while preserving essential context.''"

text \<open>
  The handler of \<open>_summarize_memory\<close>: above 2000 characters the first 40 percent and
  the last 40 percent are kept around a marker.  \<open>int(n * 0.4)\<close> and \<open>int(n * 0.6)\<close>
  are \<open>2 * n div 5\<close> and \<open>3 * n div 5\<close> (the floating point products round to these
  for every length a string can have).
\<close>

definition truncation_marker :: string where
  "truncation_marker = ''\<newline>\<newline>[... truncated middle section ...]\<newline>\<newline>''"

definition truncate_memory :: "string \<Rightarrow> string" where
  "truncate_memory memory_text =
     (if length memory_text > 2000 then
        (let first_part = take (2 * length memory_text div 5) memory_text;
             last_part = drop (3 * length memory_text div 5) memory_text
         in first_part @ truncation_marker @ last_part)
      else memory_text)"

text \<open>
  \<open>_summarize_memory\<close>, with the \<open>return\<close> statement that produced the result.  The
  summary model is called with the prompt and \<open>max_tokens\<close>; it raises or returns the
  content of its reply, which is returned as it is (\<open>None\<close> included) once the token
  counter has accepted it for the log line.
\<close>

datatype summary_site = Empty_memory | Model_summary | Truncation_fallback

type_synonym summary_model = "string \<Rightarrow> nat \<Rightarrow> exn + string option"

definition summarize_memory_at ::
  "token_counter \<Rightarrow> summary_model \<Rightarrow> nat \<Rightarrow> string \<Rightarrow> summary_site \<times> string option" where
  "summarize_memory_at count_number_of_tokens llm max_tokens memory_text =
     (if memory_text = [] then (Empty_memory, Some [])
      else
        (case count_number_of_tokens (Some memory_text) of
           Inl e \<Rightarrow> (Truncation_fallback, Some (truncate_memory memory_text))
         | Inr token_count \<Rightarrow>
             (let target_tokens = max_tokens div 2;
                  chars_to_include = min (length memory_text) (target_tokens * 4)
              in case llm (summary_prompt target_tokens (take chars_to_include memory_text))
                        target_tokens of
                   Inl e \<Rightarrow> (Truncation_fallback, Some (truncate_memory memory_text))
                 | Inr summarized \<Rightarrow>
                     (case count_number_of_tokens summarized of
                        Inl e \<Rightarrow> (Truncation_fallback, Some (truncate_memory memory_text))
                      | Inr n \<Rightarrow> (Model_summary, summarized)))))"

definition summarize_memory ::
  "token_counter \<Rightarrow> summary_model \<Rightarrow> nat \<Rightarrow> string \<Rightarrow> string option" where
  "summarize_memory count_number_of_tokens llm max_tokens memory_text =
     snd (summarize_memory_at count_number_of_tokens llm max_tokens memory_text)"

section \<open>Session history: \<open>utils/email_history_manager.py\<close>\<close>

text \<open>
  The relational store is a capability, modelled from the schema of
  \<open>prepare_sqldb.py\<close> and from the text of the queries.  A row of \<open>email_history\<close>
  and a row of \<open>summary\<close>, with the timestamp the store gave it:
\<close>

record email_history_row =
  row_user_id :: nat
  row_email_id :: string
  row_sender :: string
  row_subject :: string
  row_email_body :: string
  row_response_text :: string
  row_session_id :: string
  row_classification :: "string option"
  row_classification_confidence :: "real option"
  row_timestamp :: nat

record summary_row =
  summary_user_id :: nat
  summary_session_id :: string
  summary_text :: string
  summary_timestamp :: nat

text \<open>
  The database: the two tables in insertion order, the value of \<open>CURRENT_TIMESTAMP\<close>,
  and the faults of the store: the head of \<open>db_faults\<close> says whether the next
  \<open>execute_query\<close> raises (an empty list: no fault).
\<close>

record database =
  email_history_table :: "email_history_row list"
  summary_table :: "summary_row list"
  current_timestamp :: nat
  db_faults :: "exn option list"

definition next_fault :: "database \<Rightarrow> exn option \<times> database" where
  "next_fault d =
     (case db_faults d of
        [] \<Rightarrow> (None, d)
      | f # fs \<Rightarrow> (f, d\<lparr>db_faults := fs\<rparr>))"

text \<open>
  \<open>INSERT INTO email_history\<close>: \<open>email_id\<close> is \<open>UNIQUE\<close>, \<open>response_text\<close> is
  \<open>NOT NULL\<close>.
\<close>

definition insert_email_history ::
  "database \<Rightarrow> nat \<Rightarrow> email_data \<Rightarrow> string option \<Rightarrow> string \<Rightarrow> (exn + unit) \<times> database" where
  "insert_email_history d uid email response_text session =
     (case next_fault d of
        (Some e, d1) \<Rightarrow> (Inl e, d1)
      | (None, d1) \<Rightarrow>
          (case response_text of
             None \<Rightarrow> (Inl ''NOT NULL constraint failed: email_history.response_text'', d1)
           | Some response \<Rightarrow>
               if get_or_empty (email_id email) \<in> row_email_id ` set (email_history_table d1)
               then (Inl ''UNIQUE constraint failed: email_history.email_id'', d1)
               else (Inr (),
                     d1\<lparr>email_history_table := email_history_table d1 @
                          [\<lparr>row_user_id = uid,
                            row_email_id = get_or_empty (email_id email),
                            row_sender = get_or_empty (sender email),
                            row_subject = get_or_empty (subject email),
                            row_email_body = get_or_empty (body email),
                            row_response_text = response,
                            row_session_id = session,
                            row_classification = stored_classification email,
                            row_classification_confidence = stored_confidence email,
                            row_timestamp = current_timestamp d1\<rparr>]\<rparr>)))"

text \<open>
  \<open>ORDER BY timestamp DESC\<close>: the rows by descending timestamp.  \<open>CURRENT_TIMESTAMP\<close>
  has a resolution of one second, so timestamps can be equal; sqlite returns rows with
  equal timestamps in the order of their rowid, which is the order of insertion.  The
  sort is stable, so it keeps that order.
\<close>

definition order_by_timestamp_desc :: "('a \<Rightarrow> nat) \<Rightarrow> 'a list \<Rightarrow> 'a list" where
  "order_by_timestamp_desc timestamp_of rows = sort_key (\<lambda>r. - int (timestamp_of r)) rows"

text \<open>
  \<open>SELECT email_body, response_text FROM email_history WHERE session_id = ? ORDER BY
  timestamp DESC LIMIT ?\<close>.
\<close>

definition select_latest_pairs ::
  "database \<Rightarrow> string \<Rightarrow> nat \<Rightarrow> (exn + (string \<times> string) list) \<times> database" where
  "select_latest_pairs d session limit =
     (case next_fault d of
        (Some e, d1) \<Rightarrow> (Inl e, d1)
      | (None, d1) \<Rightarrow>
          (Inr (map (\<lambda>r. (row_email_body r, row_response_text r))
                  (take limit (order_by_timestamp_desc row_timestamp
                     (filter (\<lambda>r. row_session_id r = session) (email_history_table d1))))),
           d1))"

text \<open>
  \<open>SELECT summary_text FROM summary WHERE session_id = ? ORDER BY timestamp DESC
  LIMIT 1\<close>, fetched with \<open>fetch_one\<close>.
\<close>

definition select_latest_summary ::
  "database \<Rightarrow> string \<Rightarrow> (exn + string option) \<times> database" where
  "select_latest_summary d session =
     (case next_fault d of
        (Some e, d1) \<Rightarrow> (Inl e, d1)
      | (None, d1) \<Rightarrow>
          (case order_by_timestamp_desc summary_timestamp
                  (filter (\<lambda>r. summary_session_id r = session) (summary_table d1)) of
             [] \<Rightarrow> (Inr None, d1)
           | r # _ \<Rightarrow> (Inr (Some (summary_text r)), d1)))"

definition insert_summary ::
  "database \<Rightarrow> nat \<Rightarrow> string \<Rightarrow> string \<Rightarrow> (exn + unit) \<times> database" where
  "insert_summary d uid session text_value =
     (case next_fault d of
        (Some e, d1) \<Rightarrow> (Inl e, d1)
      | (None, d1) \<Rightarrow>
          (Inr (),
           d1\<lparr>summary_table := summary_table d1 @
                [\<lparr>summary_user_id = uid, summary_session_id = session,
                  summary_text = text_value, summary_timestamp = current_timestamp d1\<rparr>]\<rparr>))"

text \<open>
  An entry of the in-memory window \<open>self.email_history\<close>: \<open>{"email": ...}\<close>,
  \<open>{"response": ...}\<close>, or a dict that \<open>summarize_email_history\<close> took from the model.
\<close>

datatype history_item = Email_item email_data | Response_item "string option" | Summarized_item json

text \<open>The fields of an \<open>EmailHistoryManager\<close>, with the database it writes to.\<close>

record email_history_manager =
  hm_user_id :: "nat option"
  hm_session_id :: string
  hm_max_tokens :: nat
  hm_email_history :: "history_item list"
  hm_pairs_since_last_summary :: nat
  hm_db :: database

text \<open>
  What the manager calls outside the sources read here: the token count of
  \<open>str(self.email_history)\<close>, the summary model on the prompt of
  \<open>summarize_email_history\<close> (a function of the entries it prints), \<open>json.loads\<close>, and the
  summary model on the prompt of \<open>generate_the_new_summary\<close>.
\<close>

record history_env =
  he_count_history_tokens :: "history_item list \<Rightarrow> exn + nat"
  he_history_model :: "history_item list \<Rightarrow> exn + string option"
  he_json_loads :: "string \<Rightarrow> exn + json"
  he_summary_model :: "string \<Rightarrow> exn + string option"

definition save_to_db ::
  "email_history_manager \<Rightarrow> email_data \<Rightarrow> string option \<Rightarrow> (exn + unit) \<times> email_history_manager" where
  "save_to_db hm email response_text =
     (case hm_user_id hm of
        None \<Rightarrow> (Inr (), hm)
      | Some uid \<Rightarrow>
          if uid = 0 then (Inr (), hm)
          else (case insert_email_history (hm_db hm) uid email response_text (hm_session_id hm) of
                  (r, d) \<Rightarrow> (r, hm\<lparr>hm_db := d\<rparr>)))"

definition get_latest_email_pairs ::
  "email_history_manager \<Rightarrow> nat \<Rightarrow> (exn + (string \<times> string) list) \<times> email_history_manager" where
  "get_latest_email_pairs hm num_pairs =
     (case select_latest_pairs (hm_db hm) (hm_session_id hm) (num_pairs * 2) of
        (Inl e, d) \<Rightarrow> (Inl e, hm\<lparr>hm_db := d\<rparr>)
      | (Inr rows, d) \<Rightarrow> (Inr (rev rows), hm\<lparr>hm_db := d\<rparr>))"

definition get_latest_summary ::
  "email_history_manager \<Rightarrow> (exn + string option) \<times> email_history_manager" where
  "get_latest_summary hm =
     (case select_latest_summary (hm_db hm) (hm_session_id hm) of
        (r, d) \<Rightarrow> (r, hm\<lparr>hm_db := d\<rparr>))"

definition save_summary_to_db ::
  "email_history_manager \<Rightarrow> string \<Rightarrow> (exn + unit) \<times> email_history_manager" where
  "save_summary_to_db hm text_value =
     (case hm_user_id hm of
        None \<Rightarrow> (Inr (), hm)
      | Some uid \<Rightarrow>
          if uid = 0 \<or> text_value = [] then (Inr (), hm)
          else (case insert_summary (hm_db hm) uid (hm_session_id hm) text_value of
                  (r, d) \<Rightarrow> (r, hm\<lparr>hm_db := d\<rparr>)))"

text \<open>The prompt of \<open>generate_the_new_summary\<close>.\<close>

definition new_summary_prompt :: "(string \<times> string) list \<Rightarrow> string option \<Rightarrow> string" where
  "new_summary_prompt pairs previous_summary =
     ''Summarize the following email conversations:\<newline>\<newline>''
       @ (case previous_summary of
            None \<Rightarrow> []
          | Some prev \<Rightarrow>
              if prev \<noteq> [] then ''Previous summary:\<newline>'' @ prev @ ''\<newline>\<newline>'' else [])
       @ concat (map (\<lambda>(email_body, response).
                   ''Email: '' @ email_body @ ''\<newline>Response: '' @ response @ ''\<newline>\<newline>'') pairs)
       @ ''Provide a concise summary while keeping important details.''"

definition generate_the_new_summary ::
  "history_env \<Rightarrow> (string \<times> string) list \<Rightarrow> string option \<Rightarrow> string option" where
  "generate_the_new_summary env pairs previous_summary =
     (if pairs = [] then None
      else (case he_summary_model env (new_summary_prompt pairs previous_summary) of
              Inl e \<Rightarrow> None
            | Inr reply \<Rightarrow> reply))"

definition update_email_summary ::
  "history_env \<Rightarrow> email_history_manager \<Rightarrow> nat \<Rightarrow> (exn + unit) \<times> email_history_manager" where
  "update_email_summary env hm max_history_pairs =
     (if hm_pairs_since_last_summary hm < max_history_pairs then (Inr (), hm)
      else
        (case get_latest_email_pairs hm max_history_pairs of
           (Inl e, hm1) \<Rightarrow> (Inl e, hm1)
         | (Inr pairs, hm1) \<Rightarrow>
             (case get_latest_summary hm1 of
                (Inl e, hm2) \<Rightarrow> (Inl e, hm2)
              | (Inr previous_summary, hm2) \<Rightarrow>
                  if length pairs \<le> max_history_pairs then (Inr (), hm2)
                  else
                    (case generate_the_new_summary env pairs previous_summary of
                       None \<Rightarrow> (Inr (), hm2)
                     | Some new_text \<Rightarrow>
                         if new_text = [] then (Inr (), hm2)
                         else
                           (case save_summary_to_db hm2 new_text of
                              (Inl e, hm3) \<Rightarrow> (Inl e, hm3)
                            | (Inr u, hm3) \<Rightarrow>
                                (Inr (), hm3\<lparr>hm_pairs_since_last_summary := 0\<rparr>))))))"

text \<open>
  \<open>summarize_email_history\<close>: everything after the first test is inside a \<open>try\<close> whose
  handler only prints.
\<close>

definition valid_pair :: "json \<Rightarrow> bool" where
  "valid_pair p =
     (case p of
        JObj items \<Rightarrow> map_of items ''email'' \<noteq> None \<and> map_of items ''response'' \<noteq> None
      | _ \<Rightarrow> False)"

definition summarize_email_history :: "history_env \<Rightarrow> email_history_manager \<Rightarrow> email_history_manager" where
  "summarize_email_history env hm =
     (let history = hm_email_history hm;
          pairs_to_summarize = take (length history - 2) history
      in if pairs_to_summarize = [] then hm
         else
           (case he_history_model env pairs_to_summarize of
              Inl e \<Rightarrow> hm
            | Inr None \<Rightarrow> hm
            | Inr (Some reply) \<Rightarrow>
                (case he_json_loads env reply of
                   Inl e \<Rightarrow> hm
                 | Inr parsed \<Rightarrow>
                     (let summarized_pairs =
                            (case parsed of JObj items \<Rightarrow> JList [JObj items] | other \<Rightarrow> other)
                      in case summarized_pairs of
                           JList ps \<Rightarrow>
                             if list_all valid_pair ps then
                               hm\<lparr>hm_email_history :=
                                    map Summarized_item ps @ drop (length history - 2) history\<rparr>
                             else hm
                         | _ \<Rightarrow> hm))))"

text \<open>\<open>self.email_history[-max_history_pairs * 2:]\<close>, taken when the window is too long.\<close>

definition trim_history :: "history_item list \<Rightarrow> nat \<Rightarrow> history_item list" where
  "trim_history history max_history_pairs =
     (if length history > max_history_pairs * 2 then
        (if max_history_pairs * 2 = 0 then history
         else drop (length history - max_history_pairs * 2) history)
      else history)"

definition add_to_history ::
  "history_env \<Rightarrow> email_history_manager \<Rightarrow> email_data \<Rightarrow> string option \<Rightarrow> nat
     \<Rightarrow> (exn + unit) \<times> email_history_manager" where
  "add_to_history env hm email response_text max_history_pairs =
     (let hm1 = hm\<lparr>hm_email_history :=
                    trim_history (hm_email_history hm @ [Email_item email, Response_item response_text])
                      max_history_pairs\<rparr>
      in case save_to_db hm1 email response_text of
           (Inl e, hm2) \<Rightarrow> (Inl e, hm2)
         | (Inr u, hm2) \<Rightarrow>
             (let hm3 = hm2\<lparr>hm_pairs_since_last_summary := hm_pairs_since_last_summary hm2 + 1\<rparr>
              in case he_count_history_tokens env (hm_email_history hm3) of
                   Inl e \<Rightarrow> (Inl e, hm3)
                 | Inr email_history_token_count \<Rightarrow>
                     if email_history_token_count > hm_max_tokens hm3 then
                       (let hm4 = summarize_email_history env hm3
                        in case he_count_history_tokens env (hm_email_history hm4) of
                             Inl e \<Rightarrow> (Inl e, hm4)
                           | Inr n \<Rightarrow> (Inr (), hm4))
                     else (Inr (), hm3)))"

section \<open>The generation loop: \<open>_generate_response\<close>\<close>

text \<open>
  The reply of the chat model: \<open>choices[0].message.content\<close> and
  \<open>choices[0].message.function_call\<close> (the name and the JSON text of the arguments).
\<close>

datatype chat_message =
  Message (msg_content: "string option") (msg_function_call: "(string \<times> string) option")

text \<open>
  The value of \<open>function_call_result_section\<close>: empty, the text for an executed call,
  the text for a failed call (each with the name, the arguments, the state and the
  result it prints), or the note of the loop detection with the name it prints.
\<close>

datatype result_section =
  No_section
| Function_executed string kwargs string string
| Function_attempted string kwargs string string
| Loop_detected_note string

text \<open>
  The system prompt is a fixed template around its arguments
  (\<open>prepare_system_prompt_for_email_agent\<close>); a request to the chat model is represented
  by the arguments that change during a generation, and by whether the functions are
  offered.  The user information, the previous summary and the agent instructions, which
  are read from the stores inside their own \<open>try\<close> blocks and only fill the template,
  are left out.
\<close>

record chat_request =
  req_section :: result_section
  req_history :: "string option"
  req_vectordb_memory :: "string option"
  req_functions :: bool

text \<open>What a generation does to the outside, in order: the requests, the tool calls and the lines it prints about persistence and loop detection.\<close>

datatype event =
  Chat_request chat_request
| Tool_executed string kwargs
| Sql_saved
| Sql_error exn
| Vector_saved
| Vector_error exn
| Warning_sql_not_saved
| Warning_vector_not_saved
| Warning_not_fully_saved
| Loop_detected string

text \<open>
  The state outside the loop: the history manager with its database, the vector store
  (a capability, of any type) and the events so far.
\<close>

record 'v world =
  w_manager :: email_history_manager
  w_vector_db :: 'v
  w_trace :: "event list"

text \<open>
  What the agent calls outside the sources read here, and its configuration:
  \<open>str\<close> on a decoded value, the two external tools, the token counter (on a text and on
  the prompt of a request), the summary model of \<open>_summarize_memory\<close>, the environment of
  the history manager, \<open>str(self.email_history)\<close>, the query of the long-term collection
  (\<open>None\<close>: no collection; the result is \<open>results['documents']\<close>), the two calls that
  write the vector store, and \<open>cfg.max_tokens\<close>, \<open>cfg.max_prompt_tokens\<close> (optional,
  12000 by default) and \<open>cfg.max_history_pairs\<close>.
\<close>

record 'v agent_env =
  env_str :: "json \<Rightarrow> string"
  env_tools :: external_tools
  env_count_tokens :: token_counter
  env_count_prompt_tokens :: "chat_request \<Rightarrow> exn + nat"
  env_summary_model :: summary_model
  env_history :: history_env
  env_repr_history :: "history_item list \<Rightarrow> string"
  env_vector_collection :: "(string \<Rightarrow> nat \<Rightarrow> exn + string list list option) option"
  env_update_vector_db :: "string \<Rightarrow> 'v \<Rightarrow> exn + 'v"
  env_refresh_vector_db_client :: "'v \<Rightarrow> exn + 'v"
  env_max_tokens :: nat
  env_max_prompt_tokens :: "nat option"
  env_max_history_pairs :: nat

text \<open>The local variables of \<open>_generate_response\<close>; \<open>None\<close> is an unbound variable.\<close>

record loop_state =
  function_call_result_section :: result_section
  function_call_state :: "string option"
  email_state :: string
  function_call_count :: nat
  function_call_history :: "(string \<times> kwargs) list"
  function_name :: "string option"
  function_args :: "json option"
  function_call_result :: string
  combined_history :: "string option"
  filtered_vectordb_memory :: string

text \<open>
  The value the function returns, by the \<open>return\<close> statement that produced it: the
  content of the reply (line 678), the content of the tool-free completion (line 726,
  possibly \<open>None\<close>), \<open>"Error: Failed to generate response. ..."\<close> (line 630),
  \<open>"Error: Failed to generate fallback response. ..."\<close> (line 729),
  \<open>"Warning: No valid assistant response. Please try again."\<close> (line 770),
  \<open>"Error in while loop: ..."\<close> (line 775), \<open>"Error: ..."\<close> (line 780) and
  \<open>"Error: Response generation completed without generating a response. Please try
  again."\<close> (line 783).
\<close>

datatype outcome =
  Final_answer string
| Fallback_answer "string option"
| Llm_error exn
| Fallback_error exn
| No_valid_response
| While_loop_error exn
| Outer_error exn
| No_response_generated

text \<open>
  The head of the loop body: the result section for the state of the last function
  call.  Reading an unbound variable, or \<open>.items()\<close> of a value that is no dict, raises
  into the handler of the loop.
\<close>

definition section_arguments :: "loop_state \<Rightarrow> exn + (string \<times> kwargs)" where
  "section_arguments ls =
     (case function_name ls of
        None \<Rightarrow> Inl ''cannot access local variable function_name''
      | Some fname \<Rightarrow>
          (case function_args ls of
             None \<Rightarrow> Inl ''cannot access local variable function_args''
           | Some (JObj items) \<Rightarrow> Inr (fname, items)
           | Some other \<Rightarrow> Inl ''object has no attribute items''))"

definition loop_top :: "loop_state \<Rightarrow> exn + loop_state" where
  "loop_top ls =
     (if function_call_state ls = Some success_marker then
        (case section_arguments ls of
           Inl e \<Rightarrow> Inl e
         | Inr (fname, items) \<Rightarrow>
             Inr (ls\<lparr>email_state := ''finished'',
                     function_call_result_section :=
                       Function_executed fname items success_marker (function_call_result ls)\<rparr>))
      else if function_call_state ls = Some failure_marker then
        (case section_arguments ls of
           Inl e \<Rightarrow> Inl e
         | Inr (fname, items) \<Rightarrow>
             Inr (ls\<lparr>function_call_result_section :=
                       Function_attempted fname items failure_marker (function_call_result ls)\<rparr>))
      else Inr ls)"

definition build_request :: "loop_state \<Rightarrow> chat_request" where
  "build_request ls =
     \<lparr>req_section = function_call_result_section ls,
      req_history = combined_history ls,
      req_vectordb_memory =
        (if filtered_vectordb_memory ls = [] then None else Some (filtered_vectordb_memory ls)),
      req_functions = True\<rparr>"

text \<open>\<open>_summarize_memory\<close> on a variable that may be \<open>None\<close>.\<close>

definition summarize_variable :: "'v agent_env \<Rightarrow> string option \<Rightarrow> string option" where
  "summarize_variable env memory_text =
     (case memory_text of
        None \<Rightarrow> Some []
      | Some t \<Rightarrow> summarize_memory (env_count_tokens env) (env_summary_model env) (env_max_tokens env) t)"

text \<open>
  The check of the final prompt, inside its own \<open>try\<close>.  The test
  \<open>history_tokens > max_prompt_tokens * 0.6\<close> is \<open>5 * history_tokens > 3 *
  max_prompt_tokens\<close>.
\<close>

definition prompt_guard :: "'v agent_env \<Rightarrow> loop_state \<Rightarrow> loop_state \<times> chat_request" where
  "prompt_guard env ls =
     (let request = build_request ls;
          max_prompt_tokens = (case env_max_prompt_tokens env of None \<Rightarrow> 12000 | Some n \<Rightarrow> n)
      in case env_count_prompt_tokens env request of
           Inl e \<Rightarrow> (ls, request)
         | Inr total_prompt_tokens \<Rightarrow>
             if total_prompt_tokens > max_prompt_tokens then
               (case env_count_tokens env (combined_history ls) of
                  Inl e \<Rightarrow> (ls, request)
                | Inr history_tokens \<Rightarrow>
                    if 5 * history_tokens > 3 * max_prompt_tokens then
                      (let summarized = summarize_variable env (combined_history ls)
                       in (ls\<lparr>combined_history := summarized\<rparr>,
                           request\<lparr>req_history := summarized, req_vectordb_memory := None\<rparr>))
                    else (ls, request))
             else (ls, request))"

text \<open>
  The branch of a requested function call while the state is not finished.  The
  signature \<open>(function_name, str(sorted(function_args.items())))\<close> is represented by the
  name and the sorted items (the keys of a dict are distinct, so the items are sorted by
  key).
\<close>

definition request_function ::
  "'v agent_env \<Rightarrow> string \<Rightarrow> string \<Rightarrow> loop_state \<Rightarrow> 'v world \<Rightarrow> loop_state \<times> 'v world" where
  "request_function env fname arguments ls w =
     (let ls1 = ls\<lparr>function_call_count := function_call_count ls + 1,
                    function_name := Some fname\<rparr>
      in case he_json_loads (env_history env) arguments of
           Inl e \<Rightarrow>
             (ls1\<lparr>function_call_state := Some failure_marker,
                  function_call_result := ''Invalid function arguments: '' @ e\<rparr>, w)
         | Inr (JObj items) \<Rightarrow>
             (let ls2 = ls1\<lparr>function_args := Some (JObj items)\<rparr>;
                  function_call_signature = (fname, sort_key fst items)
              in if function_call_signature \<in> set (function_call_history ls2) then
                   (ls2\<lparr>function_call_result_section := Loop_detected_note fname,
                        email_state := ''finished''\<rparr>,
                    w\<lparr>w_trace := w_trace w @ [Loop_detected fname]\<rparr>)
                 else
                   (let ls3 = ls2\<lparr>function_call_history :=
                                    function_call_history ls2 @ [function_call_signature]\<rparr>;
                        w1 = w\<lparr>w_trace := w_trace w @ [Tool_executed fname items]\<rparr>
                    in case execute_function_call (env_str env) (env_tools env) fname items of
                         Inl e \<Rightarrow>
                           (ls3\<lparr>function_call_state := Some failure_marker,
                                function_call_result := e\<rparr>, w1)
                       | Inr (status, detail) \<Rightarrow>
                           (ls3\<lparr>function_call_state := Some status,
                                function_call_result := detail\<rparr>, w1)))
         | Inr other \<Rightarrow>
             (ls1\<lparr>function_args := Some other,
                  function_call_state := Some failure_marker,
                  function_call_result := ''object has no attribute items''\<rparr>, w))"

text \<open>The two writes of a final answer, each inside its own \<open>try\<close>.\<close>

definition save_to_sql ::
  "'v agent_env \<Rightarrow> email_history_manager \<Rightarrow> email_data \<Rightarrow> string
     \<Rightarrow> exn option \<times> email_history_manager" where
  "save_to_sql env hm email response =
     (case add_to_history (env_history env) hm email (Some response) (env_max_history_pairs env) of
        (Inl e, hm1) \<Rightarrow> (Some e, hm1)
      | (Inr u, hm1) \<Rightarrow>
          (case update_email_summary (env_history env) hm1 (env_max_history_pairs env) of
             (Inl e, hm2) \<Rightarrow> (Some e, hm2)
           | (Inr u2, hm2) \<Rightarrow> (None, hm2)))"

definition save_to_vector :: "'v agent_env \<Rightarrow> 'v \<Rightarrow> string \<Rightarrow> exn option \<times> 'v" where
  "save_to_vector env v msg_pair =
     (case env_update_vector_db env msg_pair v of
        Inl e \<Rightarrow> (Some e, v)
      | Inr v1 \<Rightarrow>
          (case env_refresh_vector_db_client env v1 of
             Inl e \<Rightarrow> (Some e, v1)
           | Inr v2 \<Rightarrow> (None, v2)))"

definition persist_answer ::
  "'v agent_env \<Rightarrow> email_data \<Rightarrow> string \<Rightarrow> string \<Rightarrow> 'v world \<Rightarrow> 'v world" where
  "persist_answer env email user_message assistant_response w =
     (case save_to_sql env (w_manager w) email assistant_response of
        (sql_error, hm1) \<Rightarrow>
          (case save_to_vector env (w_vector_db w)
                  (''email: '' @ user_message @ '', response: '' @ assistant_response) of
             (vector_error, v1) \<Rightarrow>
               w\<lparr>w_manager := hm1, w_vector_db := v1,
                 w_trace := w_trace w
                   @ [case sql_error of None \<Rightarrow> Sql_saved | Some e \<Rightarrow> Sql_error e]
                   @ [case vector_error of None \<Rightarrow> Vector_saved | Some e \<Rightarrow> Vector_error e]
                   @ (if sql_error \<noteq> None then [Warning_sql_not_saved] else [])
                   @ (if vector_error \<noteq> None then [Warning_vector_not_saved] else [])\<rparr>))"

text \<open>
  The writes of the tool-free completion: \<open>add_to_history\<close> without the summary update;
  the content may be \<open>None\<close>, which the f-string prints as \<open>None\<close>.
\<close>

definition persist_fallback ::
  "'v agent_env \<Rightarrow> email_data \<Rightarrow> string \<Rightarrow> string option \<Rightarrow> 'v world \<Rightarrow> 'v world" where
  "persist_fallback env email user_message assistant_response w =
     (case add_to_history (env_history env) (w_manager w) email assistant_response
             (env_max_history_pairs env) of
        (sql_result, hm1) \<Rightarrow>
          (case save_to_vector env (w_vector_db w)
                  (''email: '' @ user_message @ '', response: ''
                     @ (case assistant_response of None \<Rightarrow> ''None'' | Some r \<Rightarrow> r)) of
             (vector_error, v1) \<Rightarrow>
               w\<lparr>w_manager := hm1, w_vector_db := v1,
                 w_trace := w_trace w
                   @ [case sql_result of Inr u \<Rightarrow> Sql_saved | Inl e \<Rightarrow> Sql_error e]
                   @ [case vector_error of None \<Rightarrow> Vector_saved | Some e \<Rightarrow> Vector_error e]
                   @ (if isl sql_result \<or> vector_error \<noteq> None then [Warning_not_fully_saved]
                      else [])\<rparr>))"

text \<open>
  The \<open>while\<close> loop.  The chat model is given by the replies it makes, in order (a
  reply is an exception or a message); \<open>None\<close> means that the loop asks for a reply
  beyond the given ones.
\<close>

fun generate_loop ::
  "'v agent_env \<Rightarrow> (exn + chat_message) list \<Rightarrow> email_data \<Rightarrow> string \<Rightarrow> loop_state \<Rightarrow> 'v world
     \<Rightarrow> (outcome \<times> 'v world) option" where
  "generate_loop env [] email user_message ls w =
     (if email_state ls = ''finished'' then Some (No_response_generated, w)
      else (case loop_top ls of
              Inl e \<Rightarrow> Some (While_loop_error e, w)
            | Inr ls1 \<Rightarrow> None))"
| "generate_loop env (reply # replies) email user_message ls w =
     (if email_state ls = ''finished'' then Some (No_response_generated, w)
      else
        (case loop_top ls of
           Inl e \<Rightarrow> Some (While_loop_error e, w)
         | Inr ls1 \<Rightarrow>
             (case prompt_guard env ls1 of
                (ls2, request) \<Rightarrow>
                  (let w1 = w\<lparr>w_trace := w_trace w @ [Chat_request request]\<rparr>
                   in case reply of
                        Inl e \<Rightarrow> Some (Llm_error e, w1)
                      | Inr msg \<Rightarrow>
                          if truthy (msg_content msg) then
                            Some (Final_answer (get_or_empty (msg_content msg)),
                                  persist_answer env email user_message
                                    (get_or_empty (msg_content msg)) w1)
                          else
                            (case msg_function_call msg of
                               None \<Rightarrow> Some (No_valid_response, w1)
                             | Some (fname, arguments) \<Rightarrow>
                                 if email_state ls2 = ''finished'' then
                                   (case replies of
                                      [] \<Rightarrow> None
                                    | fallback_response # later \<Rightarrow>
                                        (let w2 = w1\<lparr>w_trace := w_trace w1 @
                                                    [Chat_request (request\<lparr>req_functions := False\<rparr>)]\<rparr>
                                         in case fallback_response of
                                              Inl e \<Rightarrow> Some (Fallback_error e, w2)
                                            | Inr msg2 \<Rightarrow>
                                                Some (Fallback_answer (msg_content msg2),
                                                      persist_fallback env email user_message
                                                        (msg_content msg2) w2)))
                                 else
                                   (case request_function env fname arguments ls2 w1 of
                                      (ls3, w2) \<Rightarrow>
                                        generate_loop env replies email user_message ls3 w2))))))"

text \<open>\<open>user_message\<close>: a missing key raises \<open>KeyError\<close> into the outer handler.\<close>

definition format_user_message :: "email_data \<Rightarrow> exn + string" where
  "format_user_message email =
     (case sender email of
        None \<Rightarrow> Inl ''sender''
      | Some from_value \<Rightarrow>
          (case subject email of
             None \<Rightarrow> Inl ''subject''
           | Some subject_value \<Rightarrow>
               (case body email of
                  None \<Rightarrow> Inl ''body''
                | Some body_value \<Rightarrow>
                    Inr (''From: '' @ from_value @ ''\<newline>Subject: '' @ subject_value
                           @ ''\<newline>\<newline>'' @ body_value))))"

text \<open>\<open>_load_memory_from_vectordb\<close>: every failure gives the empty string.\<close>

definition load_memory_from_vectordb :: "'v agent_env \<Rightarrow> email_data \<Rightarrow> nat \<Rightarrow> string" where
  "load_memory_from_vectordb env email max_results =
     (let email_query = ''From: '' @ get_or_empty (sender email) @ ''\<newline>Subject: ''
                          @ get_or_empty (subject email) @ ''\<newline>Body: ''
                          @ take 200 (get_or_empty (body email))
      in case env_vector_collection env of
           None \<Rightarrow> []
         | Some query \<Rightarrow>
             (case query email_query max_results of
                Inl e \<Rightarrow> []
              | Inr None \<Rightarrow> []
              | Inr (Some []) \<Rightarrow> []
              | Inr (Some (docs # _)) \<Rightarrow>
                  py_join ''\<newline>''
                    (map (\<lambda>(i, doc). ''Relevant Past Email '' @ str_nat (i + 1) @ '':\<newline>''
                                        @ doc @ ''\<newline>'')
                       (filter (\<lambda>(i, doc). doc \<noteq> [] \<and> py_strip doc \<noteq> [])
                          (enumerate 0 docs)))))"

text \<open>
  Steps 1 to 4 of \<open>_generate_response\<close>: the history of the session as text, the
  memory of the long-term store, the deduplication, and the token limit, which
  summarizes the long-term memory and deduplicates again.
\<close>

definition assemble_memory ::
  "'v agent_env \<Rightarrow> email_history_manager \<Rightarrow> email_data \<Rightarrow> (string \<times> string) \<times> email_history_manager" where
  "assemble_memory env hm email =
     (case get_latest_summary hm of
        (summary_result, hm1) \<Rightarrow>
          (let history_text =
                 (case summary_result of
                    Inl e \<Rightarrow> []
                  | Inr previous_summary \<Rightarrow>
                      if hm_email_history hm = [] then []
                      else env_repr_history env (hm_email_history hm));
               vectordb_memory = load_memory_from_vectordb env email 5;
               deduplicated = deduplicate_memory history_text vectordb_memory
           in if check_token_limit (env_count_tokens env) (fst deduplicated) (env_max_tokens env) then
                (case summarize_variable env (Some vectordb_memory) of
                   None \<Rightarrow> ((history_text, []), hm1)
                 | Some summarized \<Rightarrow> (deduplicate_memory history_text summarized, hm1))
              else (deduplicated, hm1)))"

definition initial_loop_state :: "string \<Rightarrow> string \<Rightarrow> loop_state" where
  "initial_loop_state history_text memory_text =
     \<lparr>function_call_result_section = No_section,
      function_call_state = None,
      email_state = ''thinking'',
      function_call_count = 0,
      function_call_history = [],
      function_name = None,
      function_args = None,
      function_call_result = [],
      combined_history = Some history_text,
      filtered_vectordb_memory = memory_text\<rparr>"

definition generate_response ::
  "'v agent_env \<Rightarrow> (exn + chat_message) list \<Rightarrow> email_data \<Rightarrow> 'v world \<Rightarrow> (outcome \<times> 'v world) option" where
  "generate_response env replies email w =
     (case assemble_memory env (w_manager w) email of
        ((history_text, memory_text), hm1) \<Rightarrow>
          (case format_user_message email of
             Inl e \<Rightarrow> Some (Outer_error e, w\<lparr>w_manager := hm1\<rparr>)
           | Inr user_message \<Rightarrow>
               generate_loop env replies email user_message
                 (initial_loop_state history_text memory_text) (w\<lparr>w_manager := hm1\<rparr>)))"

section \<open>Properties of the classifier\<close>

lemma classify_with_llm_label:
  "classify_with_llm rm llm email = Inr l \<Longrightarrow> l \<in> set labels"
  by (auto simp: classify_with_llm_def labels_def Let_def
           split: option.splits sum.splits prod.splits if_splits)

lemma classify_with_llm_raises:
  "classify_with_llm rm llm email = Inl e \<Longrightarrow>
     \<exists>store rule_type. rm = Some store \<and> store rule_type = Inl e"
  by (auto simp: classify_with_llm_def get_rules_def Let_def
           split: option.splits sum.splits prod.splits if_splits)

lemma classify_with_llm_no_store:
  "\<exists>l\<in>set labels. classify_with_llm None llm email = Inr l"
  by (auto simp: classify_with_llm_def labels_def Let_def split: option.splits sum.splits)

lemma foldl_best_key:
  "fst (foldl (\<lambda>best y. if snd best < snd y then y else best) x xs) \<in> fst ` set (x # xs)"
  by (induction xs arbitrary: x) auto

lemma max_by_value_key:
  assumes "max_by_value xs = Inr (k, v)"
  shows "k \<in> fst ` set xs"
proof (cases xs)
  case Nil
  with assms show ?thesis by simp
next
  case (Cons x ys)
  with assms have "foldl (\<lambda>best y. if snd best < snd y then y else best) x ys = (k, v)"
    by simp
  then have "k = fst (foldl (\<lambda>best y. if snd best < snd y then y else best) x ys)"
    by simp
  with foldl_best_key [of x ys] Cons show ?thesis by simp
qed

lemma best_category_label:
  "max_by_value (category_scores cols email) = Inr (k, v) \<Longrightarrow> k \<in> set labels"
  by (drule max_by_value_key) (auto simp: category_scores_def labels_def)

text \<open>
  The label half of the classification invariant holds on every path: whatever
  \<open>classify_email\<close> returns, and whatever \<open>process_email\<close> stores, is one of the three
  labels.
\<close>

lemma classify_email_at_label:
  "classify_email_at cfg cols rm llm email = Inr (site, l, c) \<Longrightarrow> l \<in> set labels"
  by (auto simp: classify_email_at_def split: if_splits sum.splits prod.splits
           dest: classify_with_llm_label best_category_label)

lemma process_email_classification_label:
  "fst (process_email_classification cfg cols rm llm email) \<in> set labels"
  by (auto simp: process_email_classification_def labels_def split: sum.splits prod.splits)

text \<open>
  C1.  The claim: for every email, \<open>classify_email\<close> returns a label among ignore, notify
  and respond and a confidence in the closed interval from 0 to 1.  The label part holds
  (lemmas above).  The confidence part fails: a distance above 1 gives a negative
  similarity \<open>1 - d\<close>, and neither \<open>classify_email\<close> nor \<open>process_email\<close> clamps it.
  With one example at distance 1.5 in each pool, the confidence returned by
  \<open>classify_email\<close> and stored by \<open>process_email\<close> is -0.5.
\<close>

theorem confidence_out_of_range:
  "classify_email \<lparr>classification_confidence_threshold = None\<rparr>
     \<lparr>ignore_pool = \<lparr>count_of = Inr 1, query_distances = (\<lambda>t k. Inr (Some [[3 / 2]]))\<rparr>,
      notify_pool = \<lparr>count_of = Inr 1, query_distances = (\<lambda>t k. Inr (Some [[3 / 2]]))\<rparr>,
      respond_pool = \<lparr>count_of = Inr 1, query_distances = (\<lambda>t k. Inr (Some [[3 / 2]]))\<rparr>\<rparr>
     None (\<lambda>p. Inr (Some ''notify''))
     \<lparr>sender = Some ''ops@x'', subject = Some ''Status Update'', body = Some ''All green'',
      email_id = None, stored_classification = None,
      stored_confidence = None\<rparr>
   = Inr (''notify'', - 1 / 2)
   \<and> process_email_classification \<lparr>classification_confidence_threshold = None\<rparr>
     \<lparr>ignore_pool = \<lparr>count_of = Inr 1, query_distances = (\<lambda>t k. Inr (Some [[3 / 2]]))\<rparr>,
      notify_pool = \<lparr>count_of = Inr 1, query_distances = (\<lambda>t k. Inr (Some [[3 / 2]]))\<rparr>,
      respond_pool = \<lparr>count_of = Inr 1, query_distances = (\<lambda>t k. Inr (Some [[3 / 2]]))\<rparr>\<rparr>
     None (\<lambda>p. Inr (Some ''notify''))
     \<lparr>sender = Some ''ops@x'', subject = Some ''Status Update'', body = Some ''All green'',
      email_id = None, stored_classification = None,
      stored_confidence = None\<rparr>
   = (''notify'', - 1 / 2)"
  by (simp add: process_email_classification_def classify_email_def classify_email_at_def
        category_scores_def category_score_def confidence_threshold_def
        classify_with_llm_def py_lower_def py_strip_def is_space_def lower_char_def labels_def)

text \<open>
  C3.  If all three example pools have zero examples, every pool score is 0.0 and
  \<open>classify_email\<close> returns at line 129: the decision is the one of the generative
  fallback, and the confidence is exactly 0.5.  An exception of the fallback (only the
  rules store can raise one) propagates; without a rules store a pair is always returned.
\<close>

theorem no_examples_fallback:
  assumes "count_of (ignore_pool cols) = Inr 0"
    and "count_of (notify_pool cols) = Inr 0"
    and "count_of (respond_pool cols) = Inr 0"
  shows "list_all (\<lambda>(category, score). score = 0) (category_scores cols email)
    \<and> classify_email_at cfg cols rm llm email =
        (case classify_with_llm rm llm email of
           Inl e \<Rightarrow> Inl e | Inr l \<Rightarrow> Inr (No_examples, l, 1 / 2))
    \<and> classify_email cfg cols rm llm email =
        (case classify_with_llm rm llm email of
           Inl e \<Rightarrow> Inl e | Inr l \<Rightarrow> Inr (l, 1 / 2))
    \<and> (rm = None \<longrightarrow> (\<exists>l\<in>set labels. classify_email cfg cols rm llm email = Inr (l, 1 / 2)))"
proof -
  have zero: "list_all (\<lambda>(category, score). score = 0) (category_scores cols email)"
    using assms by (simp add: category_scores_def category_score_def)
  then have at: "classify_email_at cfg cols rm llm email =
        (case classify_with_llm rm llm email of
           Inl e \<Rightarrow> Inl e | Inr l \<Rightarrow> Inr (No_examples, l, 1 / 2))"
    by (simp add: classify_email_at_def)
  then have ce: "classify_email cfg cols rm llm email =
        (case classify_with_llm rm llm email of
           Inl e \<Rightarrow> Inl e | Inr l \<Rightarrow> Inr (l, 1 / 2))"
    by (simp add: classify_email_def split: sum.splits)
  have "rm = None \<longrightarrow> (\<exists>l\<in>set labels. classify_email cfg cols rm llm email = Inr (l, 1 / 2))"
    using classify_with_llm_no_store [of llm email] ce by auto
  with zero at ce show ?thesis by blast
qed

theorem no_examples_fallback_witness:
  "classify_email \<lparr>classification_confidence_threshold = None\<rparr>
     \<lparr>ignore_pool = \<lparr>count_of = Inr 0, query_distances = (\<lambda>t k. Inr None)\<rparr>,
      notify_pool = \<lparr>count_of = Inr 0, query_distances = (\<lambda>t k. Inr None)\<rparr>,
      respond_pool = \<lparr>count_of = Inr 0, query_distances = (\<lambda>t k. Inr None)\<rparr>\<rparr>
     None (\<lambda>p. Inr (Some ''Notify''))
     \<lparr>sender = Some ''ops@x'', subject = Some ''Status Update'', body = Some ''All green'',
      email_id = None, stored_classification = None,
      stored_confidence = None\<rparr>
   = Inr (''notify'', 1 / 2)"
  using no_examples_fallback [of
     "\<lparr>ignore_pool = \<lparr>count_of = Inr 0, query_distances = (\<lambda>t k. Inr None)\<rparr>,
      notify_pool = \<lparr>count_of = Inr 0, query_distances = (\<lambda>t k. Inr None)\<rparr>,
      respond_pool = \<lparr>count_of = Inr 0, query_distances = (\<lambda>t k. Inr None)\<rparr>\<rparr>"
     "\<lparr>sender = Some ''ops@x'', subject = Some ''Status Update'', body = Some ''All green'',
      email_id = None, stored_classification = None,
      stored_confidence = None\<rparr>"
     "\<lparr>classification_confidence_threshold = None\<rparr>" None "(\<lambda>p. Inr (Some ''Notify''))"]
  by (simp add: classify_with_llm_def py_lower_def py_strip_def is_space_def lower_char_def
        labels_def)

text \<open>
  C4.  When some pool scores non-zero and the best pool's average similarity is below the
  configured threshold (0.37 by default), \<open>classify_email\<close> runs the generative fallback:
  an out-of-domain fallback label is discarded and the best pool's label and score are
  returned; otherwise the fallback's label is returned with the best pool's similarity
  score, never with a fallback confidence.
\<close>

theorem low_confidence_fallback:
  assumes "\<not> list_all (\<lambda>(category, score). score = 0) (category_scores cols email)"
    and "max_by_value (category_scores cols email) = Inr (best_category, best_score)"
    and "best_score < confidence_threshold cfg"
  shows "classify_email_at cfg cols rm llm email =
        (case classify_with_llm rm llm email of
           Inl e \<Rightarrow> Inl e
         | Inr l \<Rightarrow> if l \<notin> set labels then Inr (Invalid_llm_kept_best, best_category, best_score)
                    else Inr (Llm_low_confidence, l, best_score))
    \<and> classify_email cfg cols rm llm email =
        (case classify_with_llm rm llm email of
           Inl e \<Rightarrow> Inl e
         | Inr l \<Rightarrow> if l \<notin> set labels then Inr (best_category, best_score)
                    else Inr (l, best_score))"
  using assms by (simp add: classify_email_def classify_email_at_def split: sum.splits)

theorem low_confidence_fallback_witness:
  "confidence_threshold \<lparr>classification_confidence_threshold = None\<rparr> = 37 / 100
   \<and> classify_email \<lparr>classification_confidence_threshold = None\<rparr>
     \<lparr>ignore_pool = \<lparr>count_of = Inr 0, query_distances = (\<lambda>t k. Inr None)\<rparr>,
      notify_pool = \<lparr>count_of = Inr 0, query_distances = (\<lambda>t k. Inr None)\<rparr>,
      respond_pool = \<lparr>count_of = Inr 2, query_distances = (\<lambda>t k. Inr (Some [[3 / 4, 17 / 20]]))\<rparr>\<rparr>
     None (\<lambda>p. Inr (Some ''ignore''))
     \<lparr>sender = Some ''ops@x'', subject = Some ''Status Update'', body = Some ''All green'',
      email_id = None, stored_classification = None,
      stored_confidence = None\<rparr>
   = Inr (''ignore'', 1 / 5)"
  using low_confidence_fallback [of
     "\<lparr>ignore_pool = \<lparr>count_of = Inr 0, query_distances = (\<lambda>t k. Inr None)\<rparr>,
      notify_pool = \<lparr>count_of = Inr 0, query_distances = (\<lambda>t k. Inr None)\<rparr>,
      respond_pool = \<lparr>count_of = Inr 2, query_distances = (\<lambda>t k. Inr (Some [[3 / 4, 17 / 20]]))\<rparr>\<rparr>"
     "\<lparr>sender = Some ''ops@x'', subject = Some ''Status Update'', body = Some ''All green'',
      email_id = None, stored_classification = None,
      stored_confidence = None\<rparr>"
     "''respond''" "1 / 5"
     "\<lparr>classification_confidence_threshold = None\<rparr>" None "(\<lambda>p. Inr (Some ''ignore''))"]
  by (simp add: category_scores_def category_score_def confidence_threshold_def
        classify_with_llm_def py_lower_def py_strip_def is_space_def lower_char_def labels_def)

text \<open>
  C10.  \<open>_classify_with_llm\<close> returns only labels among ignore, notify and respond: the
  only exceptions it lets through are those of the rules store, raised before its \<open>try\<close>;
  a model call that raises, a \<open>None\<close> content and every content that is not a label
  after \<open>strip().lower()\<close> give \<open>'respond'\<close>.  Consequently \<open>classify_email\<close> never
  returns at line 143, the branch that discards an out-of-domain fallback label.
\<close>

theorem llm_fallback_in_domain:
  "(\<forall>l. classify_with_llm rm llm email = Inr l \<longrightarrow> l \<in> set labels)
   \<and> (\<forall>e. classify_with_llm rm llm email = Inl e \<longrightarrow>
         (\<exists>store rule_type. rm = Some store \<and> store rule_type = Inl e))
   \<and> (\<forall>l. (\<forall>p. case llm p of Inl e \<Rightarrow> True | Inr None \<Rightarrow> True
                 | Inr (Some content) \<Rightarrow> py_lower (py_strip content) \<notin> set labels)
         \<longrightarrow> classify_with_llm rm llm email = Inr l \<longrightarrow> l = ''respond'')
   \<and> (\<forall>c s. classify_email_at cfg cols rm llm email \<noteq> Inr (Invalid_llm_kept_best, c, s))"
proof (intro conjI allI impI)
  fix l assume "classify_with_llm rm llm email = Inr l"
  then show "l \<in> set labels" by (rule classify_with_llm_label)
next
  fix e assume "classify_with_llm rm llm email = Inl e"
  then show "\<exists>store rule_type. rm = Some store \<and> store rule_type = Inl e"
    by (rule classify_with_llm_raises)
next
  fix l
  assume bad: "\<forall>p. case llm p of Inl e \<Rightarrow> True | Inr None \<Rightarrow> True
                 | Inr (Some content) \<Rightarrow> py_lower (py_strip content) \<notin> set labels"
    and ret: "classify_with_llm rm llm email = Inr l"
  show "l = ''respond''"
  proof -
    from ret obtain p where
      "(case llm p of Inl e \<Rightarrow> Inr ''respond'' | Inr None \<Rightarrow> Inr ''respond''
        | Inr (Some content) \<Rightarrow>
            (let classification = py_lower (py_strip content)
             in if classification \<in> set labels then Inr classification
                else Inr ''respond'')) = (Inr l :: exn + string)"
      by (auto simp: classify_with_llm_def split: option.splits sum.splits prod.splits)
    with bad [rule_format, of p] show ?thesis
      by (auto simp: Let_def split: option.splits sum.splits if_splits)
  qed
next
  fix c s
  show "classify_email_at cfg cols rm llm email \<noteq> Inr (Invalid_llm_kept_best, c, s)"
    by (auto simp: classify_email_at_def split: if_splits sum.splits prod.splits
           dest: classify_with_llm_label)
qed

theorem llm_fallback_in_domain_witness:
  "classify_with_llm None (\<lambda>p. Inr (Some ''maybe later''))
     \<lparr>sender = Some ''ops@x'', subject = Some ''Status Update'', body = Some ''All green'',
      email_id = None, stored_classification = None,
      stored_confidence = None\<rparr> = Inr ''respond''
   \<and> ''respond'' \<in> set labels"
proof -
  have ret: "classify_with_llm None (\<lambda>p. Inr (Some ''maybe later''))
     \<lparr>sender = Some ''ops@x'', subject = Some ''Status Update'', body = Some ''All green'',
      email_id = None, stored_classification = None,
      stored_confidence = None\<rparr> = Inr ''respond''"
    by (simp add: classify_with_llm_def py_lower_def py_strip_def is_space_def lower_char_def
        labels_def)
  have "\<forall>l. classify_with_llm None (\<lambda>p. Inr (Some ''maybe later''))
     \<lparr>sender = Some ''ops@x'', subject = Some ''Status Update'', body = Some ''All green'',
      email_id = None, stored_classification = None,
      stored_confidence = None\<rparr> = Inr l \<longrightarrow> l \<in> set labels"
    using llm_fallback_in_domain [of None "(\<lambda>p. Inr (Some ''maybe later''))"
     "\<lparr>sender = Some ''ops@x'', subject = Some ''Status Update'', body = Some ''All green'',
      email_id = None, stored_classification = None,
      stored_confidence = None\<rparr>"] by (rule conjunct1)
  with ret show ?thesis by blast
qed

section \<open>Properties of tool execution\<close>

lemma call_write_email_tool_status:
  "call_write_email_tool fmt args = Inr (s, d) \<Longrightarrow> s = success_marker"
  by (auto simp: call_write_email_tool_def write_email_tool_def Let_def
           split: sum.splits list.splits)

lemma call_schedule_meeting_tool_status:
  "call_schedule_meeting_tool fmt args = Inr (s, d) \<Longrightarrow> s = success_marker"
  by (auto simp: call_schedule_meeting_tool_def schedule_meeting_tool_def
           split: sum.splits list.splits)

lemma call_check_calendar_availability_tool_status:
  "call_check_calendar_availability_tool fmt args = Inr (s, d) \<Longrightarrow> s = success_marker"
  by (auto simp: call_check_calendar_availability_tool_def check_calendar_availability_tool_def
           split: sum.splits list.splits)

lemma execute_function_call_returns:
  "\<exists>s d. execute_function_call fmt tools name args = Inr (s, d)"
  by (auto simp: execute_function_call_def split: sum.splits)

lemma tool_contractD:
  "tool_contract tool \<Longrightarrow> tool args = Inr (s, d) \<Longrightarrow> s = success_marker \<or> s = failure_marker"
  unfolding tool_contract_def by blast

lemma execute_function_call_status:
  assumes "tool_contract (search_vector_db tools)"
    and "tool_contract (add_user_info_to_database tools)"
    and "execute_function_call fmt tools name args = Inr (s, d)"
  shows "s = success_marker \<or> s = failure_marker"
  using assms(3) tool_contractD [OF assms(1), of args s d] tool_contractD [OF assms(2), of args s d]
  by (auto simp: execute_function_call_def split: sum.splits if_splits
           dest: call_write_email_tool_status call_schedule_meeting_tool_status
                 call_check_calendar_availability_tool_status)

lemma execute_function_call_raise:
  assumes "underlying_tool fmt tools name = Some tool" and "tool args = Inl e"
  shows "\<exists>d. execute_function_call fmt tools name args = Inr (failure_marker, d) \<and> suffix e d"
  using assms
  by (auto simp: execute_function_call_def underlying_tool_def suffix_def split: if_splits)

text \<open>
  C9.  For every function name, known or unknown, and every argument dict,
  \<open>execute_function_call\<close> propagates no exception: it returns a pair (status, detail).
  The status is the success marker or the failure marker (the two tools outside the
  sources return what the tool contract says); when the underlying tool raises, the
  status is the failure marker and the detail ends with the text of the exception; an
  unknown name gives the failure marker as well.
\<close>

theorem execute_function_call_never_raises:
  "(\<exists>s d. execute_function_call fmt tools name args = Inr (s, d))
   \<and> (tool_contract (search_vector_db tools) \<and> tool_contract (add_user_info_to_database tools) \<longrightarrow>
        (\<forall>s d. execute_function_call fmt tools name args = Inr (s, d) \<longrightarrow>
           s = success_marker \<or> s = failure_marker))
   \<and> (\<forall>tool e. underlying_tool fmt tools name = Some tool \<and> tool args = Inl e \<longrightarrow>
        (\<exists>d. execute_function_call fmt tools name args = Inr (failure_marker, d) \<and> suffix e d))
   \<and> (underlying_tool fmt tools name = None \<longrightarrow>
        execute_function_call fmt tools name args = Inr (failure_marker, ''Unknown function: '' @ name))"
proof (intro conjI allI impI)
  show "\<exists>s d. execute_function_call fmt tools name args = Inr (s, d)"
    by (rule execute_function_call_returns)
next
  fix s d
  assume "tool_contract (search_vector_db tools) \<and> tool_contract (add_user_info_to_database tools)"
    and "execute_function_call fmt tools name args = Inr (s, d)"
  then show "s = success_marker \<or> s = failure_marker"
    using execute_function_call_status by blast
next
  fix tool e
  assume "underlying_tool fmt tools name = Some tool \<and> tool args = Inl e"
  then show "\<exists>d. execute_function_call fmt tools name args = Inr (failure_marker, d) \<and> suffix e d"
    using execute_function_call_raise by blast
next
  assume "underlying_tool fmt tools name = None"
  then show "execute_function_call fmt tools name args = Inr (failure_marker, ''Unknown function: '' @ name)"
    by (auto simp: execute_function_call_def underlying_tool_def split: if_splits)
qed


theorem execute_function_call_never_raises_witness:
  "tool_contract (\<lambda>args. Inl ''db down'')
   \<and> tool_contract (\<lambda>args. Inr (success_marker, ''saved''))
   \<and> execute_function_call (\<lambda>v. case v of JStr s \<Rightarrow> s | _ \<Rightarrow> [])
        \<lparr>search_vector_db = (\<lambda>args. Inl ''db down''),
         add_user_info_to_database = (\<lambda>args. Inr (success_marker, ''saved''))\<rparr>
        ''search_vector_db'' [(''query'', JStr ''budget'')]
      = Inr (failure_marker, ''Error searching VectorDB: db down'')
   \<and> execute_function_call (\<lambda>v. case v of JStr s \<Rightarrow> s | _ \<Rightarrow> [])
        \<lparr>search_vector_db = (\<lambda>args. Inl ''db down''),
         add_user_info_to_database = (\<lambda>args. Inr (success_marker, ''saved''))\<rparr>
        ''send_fax'' [] = Inr (failure_marker, ''Unknown function: send_fax'')"
proof -
  let ?fmt = "\<lambda>v. case v of JStr s \<Rightarrow> s | _ \<Rightarrow> []"
  let ?tools = "\<lparr>search_vector_db = (\<lambda>args. Inl ''db down''),
         add_user_info_to_database = (\<lambda>args. Inr (success_marker, ''saved''))\<rparr>"
  have c1: "tool_contract (\<lambda>args. Inl ''db down'')"
    by (simp add: tool_contract_def)
  have c2: "tool_contract (\<lambda>args. Inr (success_marker, ''saved''))"
    by (simp add: tool_contract_def)
  have tool: "underlying_tool ?fmt ?tools ''search_vector_db'' = Some (\<lambda>args. Inl ''db down'')"
    by (simp add: underlying_tool_def)
  have none: "underlying_tool ?fmt ?tools ''send_fax'' = None"
    by (simp add: underlying_tool_def)
  have unknown: "execute_function_call ?fmt ?tools ''send_fax'' []
      = Inr (failure_marker, ''Unknown function: send_fax'')"
    using execute_function_call_never_raises [of ?fmt ?tools "''send_fax''" "[]"] none
    by simp
  have "execute_function_call ?fmt ?tools ''search_vector_db'' [(''query'', JStr ''budget'')]
      = Inr (failure_marker, ''Error searching VectorDB: db down'')"
    by (simp add: execute_function_call_def)
  with c1 c2 unknown show ?thesis by simp
qed

section \<open>Properties of the token budget\<close>

lemma length_truncation_marker: "length truncation_marker = 38"
  by (simp add: truncation_marker_def)

lemma truncate_memory_short:
  "length m \<le> 2000 \<Longrightarrow> truncate_memory m = m"
  by (simp add: truncate_memory_def)

lemma truncate_memory_long:
  assumes "2000 < length m"
  shows "length (truncate_memory m) < length m"
proof -
  have "length (truncate_memory m)
      = min (length m) (2 * length m div 5) + 38 + (length m - 3 * length m div 5)"
    using assms by (simp add: truncate_memory_def Let_def length_truncation_marker)
  with assms show ?thesis by arith
qed

lemma truncate_memory_length:
  "length (truncate_memory m) \<le> length m"
proof (cases "2000 < length m")
  case True
  then show ?thesis using truncate_memory_long [of m] by simp
next
  case False
  then show ?thesis by (simp add: truncate_memory_short)
qed

lemma summarize_memory_at_fallback:
  "summarize_memory_at c llm k m = (Truncation_fallback, out) \<Longrightarrow> out = Some (truncate_memory m)"
  by (auto simp: summarize_memory_at_def Let_def split: if_splits sum.splits)

text \<open>
  C6.  The claim: for every memory text, the token count of the output of
  \<open>_summarize_memory\<close>, on the model path or on the truncation fallback, is never
  greater than the token count of the input.  On the model path the reply is returned
  unchecked: with the estimate of a quarter of the characters as the counter, the input
  \<open>lunch?\<close> has 1 token and the returned summary has 12.
\<close>

theorem summarize_counterexample:
  "summarize_memory (\<lambda>v. case v of None \<Rightarrow> Inl ''TypeError'' | Some s \<Rightarrow> Inr (length s div 4))
     (\<lambda>p k. Inr (Some ''The two earlier emails were about lunch on Friday.''))
     4000 ''lunch?''
   = Some ''The two earlier emails were about lunch on Friday.''
   \<and> length ''lunch?'' div 4 = 1
   \<and> length ''The two earlier emails were about lunch on Friday.'' div 4 = 12
   \<and> \<not> (length ''The two earlier emails were about lunch on Friday.'' div 4
          \<le> length ''lunch?'' div 4)"
  by (simp add: summarize_memory_def summarize_memory_at_def)

text \<open>
  C6, as amended.  On the truncation fallback, which is taken whenever the model call
  raises, the output is never longer than the input: it is the input up to 2000
  characters and strictly shorter above, so the estimate of a quarter of the characters
  never grows.  On the model path the output is the reply of the model as it is.
\<close>

theorem truncation_never_longer:
  "(\<forall>out. summarize_memory_at count_number_of_tokens llm max_tokens memory_text
            = (Truncation_fallback, out) \<longrightarrow>
        (\<exists>t. out = Some t \<and> length t \<le> length memory_text
            \<and> length t div 4 \<le> length memory_text div 4
            \<and> (length memory_text \<le> 2000 \<longrightarrow> t = memory_text)
            \<and> (2000 < length memory_text \<longrightarrow> length t < length memory_text)))
   \<and> (memory_text \<noteq> [] \<and> (\<forall>p k. \<exists>e. llm p k = Inl e) \<longrightarrow>
        summarize_memory_at count_number_of_tokens llm max_tokens memory_text
          = (Truncation_fallback, Some (truncate_memory memory_text)))
   \<and> (\<forall>out. summarize_memory_at count_number_of_tokens llm max_tokens memory_text
            = (Model_summary, out) \<longrightarrow>
        (\<exists>p k. llm p k = Inr out))"
proof (intro conjI allI impI)
  fix out
  assume "summarize_memory_at count_number_of_tokens llm max_tokens memory_text
            = (Truncation_fallback, out)"
  then have "out = Some (truncate_memory memory_text)"
    by (rule summarize_memory_at_fallback)
  then show "\<exists>t. out = Some t \<and> length t \<le> length memory_text
            \<and> length t div 4 \<le> length memory_text div 4
            \<and> (length memory_text \<le> 2000 \<longrightarrow> t = memory_text)
            \<and> (2000 < length memory_text \<longrightarrow> length t < length memory_text)"
    using truncate_memory_length [of memory_text] truncate_memory_short [of memory_text]
      truncate_memory_long [of memory_text]
    by (simp add: div_le_mono)
next
  assume a: "memory_text \<noteq> [] \<and> (\<forall>p k. \<exists>e. llm p k = Inl e)"
  then obtain e where "llm (summary_prompt (max_tokens div 2)
        (take (min (length memory_text) (max_tokens div 2 * 4)) memory_text)) (max_tokens div 2) = Inl e"
    by blast
  with a show "summarize_memory_at count_number_of_tokens llm max_tokens memory_text
          = (Truncation_fallback, Some (truncate_memory memory_text))"
    by (simp add: summarize_memory_at_def Let_def split: sum.splits)
next
  fix out
  assume "summarize_memory_at count_number_of_tokens llm max_tokens memory_text = (Model_summary, out)"
  then show "\<exists>p k. llm p k = Inr out"
    by (auto simp: summarize_memory_at_def Let_def split: if_splits sum.splits)
qed

theorem truncation_never_longer_witness:
  "summarize_memory_at (\<lambda>v. Inr 0) (\<lambda>p k. Inl ''rate limit'') 4000 (replicate 2005 CHR ''a'')
     = (Truncation_fallback, Some (truncate_memory (replicate 2005 CHR ''a'')))
   \<and> length (truncate_memory (replicate 2005 CHR ''a'')) = 1642
   \<and> (1642::nat) < 2005"
proof -
  have "summarize_memory_at (\<lambda>v. Inr 0) (\<lambda>p k. Inl ''rate limit'') 4000 (replicate 2005 CHR ''a'')
     = (Truncation_fallback, Some (truncate_memory (replicate 2005 CHR ''a'')))"
    using truncation_never_longer [of "\<lambda>v. Inr 0" "\<lambda>p k. Inl ''rate limit''" 4000
        "replicate 2005 CHR ''a''"]
    by simp
  moreover have "length (truncate_memory (replicate 2005 CHR ''a'')) = 1642"
    by (simp add: truncate_memory_def Let_def length_truncation_marker)
  ultimately show ?thesis by simp
qed

section \<open>Properties of the session history\<close>

lemma next_fault_none: "db_faults d = [] \<Longrightarrow> next_fault d = (None, d)"
  by (simp add: next_fault_def)

lemma order_by_timestamp_desc_sorted:
  "sorted_wrt (\<lambda>a b. ts b \<le> ts a) (order_by_timestamp_desc ts rows)"
proof -
  have "sorted (map (\<lambda>r. - int (ts r)) (order_by_timestamp_desc ts rows))"
    unfolding order_by_timestamp_desc_def by (rule sorted_sort_key)
  then have "sorted_wrt (\<lambda>a b. - int (ts a) \<le> - int (ts b)) (order_by_timestamp_desc ts rows)"
    by (simp add: sorted_map)
  then show ?thesis by (rule sorted_wrt_mono_rel [rotated]) simp
qed

lemma order_by_timestamp_desc_stable:
  "filter (\<lambda>r. ts r = k) (order_by_timestamp_desc ts rows) = filter (\<lambda>r. ts r = k) rows"
  using sort_key_stable [of "\<lambda>r. - int (ts r)" "- int k" rows]
  by (simp add: order_by_timestamp_desc_def)

lemma set_order_by_timestamp_desc [simp]:
  "set (order_by_timestamp_desc ts rows) = set rows"
  by (simp add: order_by_timestamp_desc_def)

lemma length_order_by_timestamp_desc [simp]:
  "length (order_by_timestamp_desc ts rows) = length rows"
  by (simp add: order_by_timestamp_desc_def)

lemma sorted_wrt_take_drop:
  assumes "sorted_wrt P xs" and "q \<in> set (take n xs)" and "r \<in> set (drop n xs)"
  shows "P q r"
proof -
  from assms(1) have "sorted_wrt P (take n xs @ drop n xs)" by simp
  with assms(2,3) show ?thesis unfolding sorted_wrt_append by blast
qed

lemma get_latest_email_pairs_no_fault:
  "db_faults (hm_db hm) = [] \<Longrightarrow>
   get_latest_email_pairs hm n =
     (Inr (rev (map (\<lambda>r. (row_email_body r, row_response_text r))
                  (take (n * 2) (order_by_timestamp_desc row_timestamp
                     (filter (\<lambda>r. row_session_id r = hm_session_id hm)
                        (email_history_table (hm_db hm))))))), hm)"
  by (simp add: get_latest_email_pairs_def select_latest_pairs_def next_fault_none)

lemma get_latest_summary_no_fault:
  "db_faults (hm_db hm) = [] \<Longrightarrow> snd (get_latest_summary hm) = hm"
  by (simp add: get_latest_summary_def select_latest_summary_def next_fault_none split: list.splits)

lemma length_latest_pairs:
  assumes "db_faults (hm_db hm) = []" and "fst (get_latest_email_pairs hm n) = Inr pairs"
  shows "length pairs = min (n * 2)
           (length (filter (\<lambda>r. row_session_id r = hm_session_id hm)
              (email_history_table (hm_db hm))))"
  using assms by (auto simp: get_latest_email_pairs_no_fault min_def)

text \<open>
  Which rows the query of \<open>get_latest_email_pairs\<close> returns: the first rows of the
  session in the order that is descending in the timestamp and keeps the order of
  insertion among equal timestamps; no row of the session outside the selection is more
  recent than a selected one; the pairs are listed oldest first.
\<close>

lemma latest_pairs_are_latest:
  assumes "db_faults (hm_db hm) = []" and "fst (get_latest_email_pairs hm n) = Inr pairs"
  shows "\<exists>ordered.
           sorted_wrt (\<lambda>a b. row_timestamp b \<le> row_timestamp a) ordered
         \<and> (\<forall>k. filter (\<lambda>r. row_timestamp r = k) ordered
                 = filter (\<lambda>r. row_timestamp r = k)
                     (filter (\<lambda>r. row_session_id r = hm_session_id hm)
                        (email_history_table (hm_db hm))))
         \<and> pairs = rev (map (\<lambda>r. (row_email_body r, row_response_text r)) (take (n * 2) ordered))
         \<and> (\<forall>r\<in>set (email_history_table (hm_db hm)).
               row_session_id r = hm_session_id hm \<longrightarrow>
               r \<in> set (take (n * 2) ordered)
               \<or> (\<forall>q\<in>set (take (n * 2) ordered). row_timestamp r \<le> row_timestamp q))"
proof -
  let ?rows = "filter (\<lambda>r. row_session_id r = hm_session_id hm) (email_history_table (hm_db hm))"
  let ?ordered = "order_by_timestamp_desc row_timestamp ?rows"
  have srt: "sorted_wrt (\<lambda>a b. row_timestamp b \<le> row_timestamp a) ?ordered"
    by (rule order_by_timestamp_desc_sorted)
  have stable: "\<forall>k. filter (\<lambda>r. row_timestamp r = k) ?ordered
                 = filter (\<lambda>r. row_timestamp r = k) ?rows"
    by (simp add: order_by_timestamp_desc_stable)
  have pairs: "pairs = rev (map (\<lambda>r. (row_email_body r, row_response_text r))
                  (take (n * 2) ?ordered))"
    using assms by (simp add: get_latest_email_pairs_no_fault)
  have latest: "\<forall>r\<in>set (email_history_table (hm_db hm)).
               row_session_id r = hm_session_id hm \<longrightarrow>
               r \<in> set (take (n * 2) ?ordered)
               \<or> (\<forall>q\<in>set (take (n * 2) ?ordered). row_timestamp r \<le> row_timestamp q)"
  proof (intro ballI impI)
    fix r assume "r \<in> set (email_history_table (hm_db hm))"
      and "row_session_id r = hm_session_id hm"
    then have "r \<in> set ?ordered" by simp
    then have "r \<in> set (take (n * 2) ?ordered) \<or> r \<in> set (drop (n * 2) ?ordered)"
      by (metis Un_iff append_take_drop_id set_append)
    then show "r \<in> set (take (n * 2) ?ordered)
               \<or> (\<forall>q\<in>set (take (n * 2) ?ordered). row_timestamp r \<le> row_timestamp q)"
    proof
      assume "r \<in> set (take (n * 2) ?ordered)" then show ?thesis by blast
    next
      assume d: "r \<in> set (drop (n * 2) ?ordered)"
      have "\<forall>q\<in>set (take (n * 2) ?ordered). row_timestamp r \<le> row_timestamp q"
      proof
        fix q assume "q \<in> set (take (n * 2) ?ordered)"
        with srt show "row_timestamp r \<le> row_timestamp q" using d by (rule sorted_wrt_take_drop)
      qed
      then show ?thesis by blast
    qed
  qed
  from srt stable pairs latest show ?thesis by blast
qed

text \<open>
  Which summary \<open>get_latest_summary\<close> returns: a summary of the session with the
  greatest timestamp, the first inserted one among those with that timestamp.
\<close>

lemma latest_summary_is_latest:
  assumes "db_faults (hm_db hm) = []"
  shows "case fst (get_latest_summary hm) of
           Inl e \<Rightarrow> False
         | Inr None \<Rightarrow> (\<forall>r\<in>set (summary_table (hm_db hm)). summary_session_id r \<noteq> hm_session_id hm)
         | Inr (Some t) \<Rightarrow>
             (\<exists>r\<in>set (summary_table (hm_db hm)).
                summary_session_id r = hm_session_id hm \<and> summary_text r = t \<and>
                (\<forall>r'\<in>set (summary_table (hm_db hm)).
                   summary_session_id r' = hm_session_id hm \<longrightarrow>
                   summary_timestamp r' \<le> summary_timestamp r) \<and>
                (\<exists>later. filter (\<lambda>r'. summary_timestamp r' = summary_timestamp r)
                           (filter (\<lambda>r'. summary_session_id r' = hm_session_id hm)
                              (summary_table (hm_db hm))) = r # later))"
proof -
  let ?rows = "filter (\<lambda>r. summary_session_id r = hm_session_id hm) (summary_table (hm_db hm))"
  let ?ordered = "order_by_timestamp_desc summary_timestamp ?rows"
  show ?thesis
  proof (cases ?ordered)
    case Nil
    then have "set ?rows = {}" using set_order_by_timestamp_desc [of summary_timestamp ?rows] by simp
    then have "\<forall>r\<in>set (summary_table (hm_db hm)). summary_session_id r \<noteq> hm_session_id hm"
      by (simp add: filter_empty_conv)
    with Nil assms show ?thesis
      by (simp add: get_latest_summary_def select_latest_summary_def next_fault_none)
  next
    case (Cons r rs)
    have "sorted_wrt (\<lambda>a b. summary_timestamp b \<le> summary_timestamp a) ?ordered"
      by (rule order_by_timestamp_desc_sorted)
    with Cons have le: "\<forall>x\<in>set rs. summary_timestamp x \<le> summary_timestamp r" by simp
    have mem: "set ?ordered = set ?rows" by simp
    from Cons have "r \<in> set ?ordered" by simp
    with mem have rin: "r \<in> set ?rows" by simp
    have mx: "\<forall>r'\<in>set ?rows. summary_timestamp r' \<le> summary_timestamp r"
    proof
      fix r' assume "r' \<in> set ?rows"
      with mem have "r' \<in> set ?ordered" by simp
      with Cons have "r' \<in> set rs \<or> r' = r" by auto
      with le show "summary_timestamp r' \<le> summary_timestamp r" by auto
    qed
    have "filter (\<lambda>r'. summary_timestamp r' = summary_timestamp r) ?ordered
        = filter (\<lambda>r'. summary_timestamp r' = summary_timestamp r) ?rows"
      by (rule order_by_timestamp_desc_stable)
    with Cons have first: "filter (\<lambda>r'. summary_timestamp r' = summary_timestamp r) ?rows
        = r # filter (\<lambda>r'. summary_timestamp r' = summary_timestamp r) rs" by simp
    from rin mx first Cons assms show ?thesis
      by (auto simp: get_latest_summary_def select_latest_summary_def next_fault_none)
  qed
qed

lemma update_email_summary_no_fault:
  assumes nf: "db_faults (hm_db hm) = []"
    and p: "fst (get_latest_email_pairs hm m) = Inr pairs"
    and s: "fst (get_latest_summary hm) = Inr prev"
  shows "update_email_summary env hm m =
      (if hm_pairs_since_last_summary hm < m \<or> length pairs \<le> m then (Inr (), hm)
       else
         (case generate_the_new_summary env pairs prev of
            None \<Rightarrow> (Inr (), hm)
          | Some t \<Rightarrow>
              if t = [] then (Inr (), hm)
              else
                (case hm_user_id hm of
                   None \<Rightarrow> (Inr (), hm\<lparr>hm_pairs_since_last_summary := 0\<rparr>)
                 | Some uid \<Rightarrow>
                     if uid = 0 then (Inr (), hm\<lparr>hm_pairs_since_last_summary := 0\<rparr>)
                     else
                       (Inr (),
                        hm\<lparr>hm_db := (hm_db hm)\<lparr>summary_table := summary_table (hm_db hm) @
                               [\<lparr>summary_user_id = uid, summary_session_id = hm_session_id hm,
                                 summary_text = t,
                                 summary_timestamp = current_timestamp (hm_db hm)\<rparr>]\<rparr>,
                           hm_pairs_since_last_summary := 0\<rparr>))))"
proof -
  from nf p have gp: "get_latest_email_pairs hm m = (Inr pairs, hm)"
    by (simp add: get_latest_email_pairs_no_fault)
  from nf s have gs: "get_latest_summary hm = (Inr prev, hm)"
    using get_latest_summary_no_fault [of hm] by (cases "get_latest_summary hm") simp
  show ?thesis
    using nf
    by (simp add: update_email_summary_def gp gs save_summary_to_db_def insert_summary_def
          next_fault_none split: option.splits)
qed

lemma sublist_in_the_middle:
  "sublist y c \<Longrightarrow> sublist y (a @ b @ c @ d)"
proof -
  assume "sublist y c"
  then obtain ps ss where "c = ps @ y @ ss" by (auto simp: sublist_def)
  then have "a @ b @ c @ d = (a @ b @ ps) @ y @ (ss @ d)" by simp
  then show ?thesis unfolding sublist_def by blast
qed

lemma prompt_contains_previous:
  assumes "prev \<noteq> []"
  shows "sublist prev (new_summary_prompt pairs (Some prev))"
proof -
  have "sublist prev (''Previous summary:\<newline>'' @ prev @ ''\<newline>\<newline>'')"
    by (rule sublist_appendI)
  then have "sublist prev (''Summarize the following email conversations:\<newline>\<newline>'' @ []
     @ (''Previous summary:\<newline>'' @ prev @ ''\<newline>\<newline>'')
     @ (concat (map (\<lambda>(email_body, response).
                   ''Email: '' @ email_body @ ''\<newline>Response: '' @ response @ ''\<newline>\<newline>'') pairs)
       @ ''Provide a concise summary while keeping important details.''))"
    by (rule sublist_in_the_middle)
  with assms show ?thesis by (simp add: new_summary_prompt_def)
qed

lemma concat_contains:
  assumes "x \<in> set xs" and "sublist y (f x)"
  shows "sublist y (concat (map f xs))"
proof -
  from assms(1) obtain a b where "xs = a @ x # b" by (meson split_list)
  then have "concat (map f xs) = concat (map f a) @ f x @ concat (map f b)" by simp
  moreover from assms(2) obtain ps ss where "f x = ps @ y @ ss" by (auto simp: sublist_def)
  ultimately have "concat (map f xs) = (concat (map f a) @ ps) @ y @ (ss @ concat (map f b))"
    by simp
  then show ?thesis unfolding sublist_def by blast
qed

lemma prompt_contains_pair:
  assumes "(b, r) \<in> set pairs"
  shows "sublist b (new_summary_prompt pairs prev) \<and> sublist r (new_summary_prompt pairs prev)"
proof -
  let ?f = "\<lambda>(email_body, response).
                   ''Email: '' @ email_body @ ''\<newline>Response: '' @ response @ ''\<newline>\<newline>''"
  let ?p = "case prev of None \<Rightarrow> []
          | Some prev \<Rightarrow>
              if prev \<noteq> [] then ''Previous summary:\<newline>'' @ prev @ ''\<newline>\<newline>'' else []"
  have "sublist b (''Email: '' @ b @ (''\<newline>Response: '' @ r @ ''\<newline>\<newline>''))"
    by (rule sublist_appendI)
  then have "sublist b (?f (b, r))" by simp
  with assms have b: "sublist b (concat (map ?f pairs))" by (rule concat_contains)
  have "sublist r ((''Email: '' @ b @ ''\<newline>Response: '') @ r @ ''\<newline>\<newline>'')"
    by (rule sublist_appendI)
  then have "sublist r (?f (b, r))" by simp
  with assms have r: "sublist r (concat (map ?f pairs))" by (rule concat_contains)
  have eq: "new_summary_prompt pairs prev =
      ''Summarize the following email conversations:\<newline>\<newline>'' @ ?p @ concat (map ?f pairs)
        @ ''Provide a concise summary while keeping important details.''"
    by (simp add: new_summary_prompt_def)
  from b have "sublist b (new_summary_prompt pairs prev)"
    unfolding eq by (rule sublist_in_the_middle)
  moreover from r have "sublist r (new_summary_prompt pairs prev)"
    unfolding eq by (rule sublist_in_the_middle)
  ultimately show ?thesis by blast
qed


text \<open>
  C7, as amended.  With no fault of the store, \<open>update_email_summary\<close> adds a summary
  record exactly when the number of unsummarized pairs is at least \<open>max_history_pairs\<close>,
  the query for the latest pairs returns more than \<open>max_history_pairs\<close> rows (that is,
  \<open>max_history_pairs\<close> is positive and the session has more stored rows than that), a
  user id is set and the summary model returns a non-empty text; the record holds that
  text and the counter is reset.  The prompt of the new summary folds in the prior latest
  summary, when it is non-empty, and the body and the response of each row the query
  returns: the first \<open>2 * max_history_pairs\<close> rows of the session in the order that is
  descending in the timestamp and keeps the order of insertion among equal timestamps
  (no row of the session outside them is more recent than one of them), listed oldest
  first.  \<open>get_latest_summary\<close> returns the text of a summary of the session with the
  greatest timestamp, the first inserted among those, and \<open>None\<close> when the session has
  no summary.
\<close>

theorem summary_created_exactly_when:
  assumes nf: "db_faults (hm_db hm) = []"
    and p: "fst (get_latest_email_pairs hm m) = Inr pairs"
    and s: "fst (get_latest_summary hm) = Inr prev"
  shows "((summary_table (hm_db (snd (update_email_summary env hm m))) \<noteq> summary_table (hm_db hm)) =
           (m \<le> hm_pairs_since_last_summary hm \<and> m < length pairs \<and>
            (\<exists>uid t. hm_user_id hm = Some uid \<and> uid \<noteq> 0 \<and> t \<noteq> [] \<and>
               he_summary_model env (new_summary_prompt pairs prev) = Inr (Some t))))
    \<and> (\<forall>uid t. m \<le> hm_pairs_since_last_summary hm \<and> m < length pairs \<and>
            hm_user_id hm = Some uid \<and> uid \<noteq> 0 \<and> t \<noteq> [] \<and>
            he_summary_model env (new_summary_prompt pairs prev) = Inr (Some t) \<longrightarrow>
          update_email_summary env hm m =
            (Inr (),
             hm\<lparr>hm_db := (hm_db hm)\<lparr>summary_table := summary_table (hm_db hm) @
                    [\<lparr>summary_user_id = uid, summary_session_id = hm_session_id hm,
                      summary_text = t,
                      summary_timestamp = current_timestamp (hm_db hm)\<rparr>]\<rparr>,
                hm_pairs_since_last_summary := 0\<rparr>))
    \<and> (m < length pairs) =
         (0 < m \<and> m < length (filter (\<lambda>r. row_session_id r = hm_session_id hm)
                              (email_history_table (hm_db hm))))
    \<and> (\<exists>ordered.
           sorted_wrt (\<lambda>a b. row_timestamp b \<le> row_timestamp a) ordered
         \<and> (\<forall>k. filter (\<lambda>r. row_timestamp r = k) ordered
                 = filter (\<lambda>r. row_timestamp r = k)
                     (filter (\<lambda>r. row_session_id r = hm_session_id hm)
                        (email_history_table (hm_db hm))))
         \<and> pairs = rev (map (\<lambda>r. (row_email_body r, row_response_text r)) (take (m * 2) ordered))
         \<and> (\<forall>r\<in>set (email_history_table (hm_db hm)).
               row_session_id r = hm_session_id hm \<longrightarrow>
               r \<in> set (take (m * 2) ordered)
               \<or> (\<forall>q\<in>set (take (m * 2) ordered). row_timestamp r \<le> row_timestamp q)))
    \<and> (\<forall>t. prev = Some t \<and> t \<noteq> [] \<longrightarrow> sublist t (new_summary_prompt pairs prev))
    \<and> (\<forall>b r. (b, r) \<in> set pairs \<longrightarrow>
          sublist b (new_summary_prompt pairs prev) \<and> sublist r (new_summary_prompt pairs prev))
    \<and> (case prev of
          None \<Rightarrow> (\<forall>r\<in>set (summary_table (hm_db hm)). summary_session_id r \<noteq> hm_session_id hm)
        | Some t \<Rightarrow>
            (\<exists>r\<in>set (summary_table (hm_db hm)).
               summary_session_id r = hm_session_id hm \<and> summary_text r = t \<and>
               (\<forall>r'\<in>set (summary_table (hm_db hm)).
                  summary_session_id r' = hm_session_id hm \<longrightarrow>
                  summary_timestamp r' \<le> summary_timestamp r) \<and>
               (\<exists>later. filter (\<lambda>r'. summary_timestamp r' = summary_timestamp r)
                          (filter (\<lambda>r'. summary_session_id r' = hm_session_id hm)
                             (summary_table (hm_db hm))) = r # later)))"
proof (intro conjI)
  note upd = update_email_summary_no_fault [OF nf p s, of env]
  show "(summary_table (hm_db (snd (update_email_summary env hm m))) \<noteq> summary_table (hm_db hm)) =
           (m \<le> hm_pairs_since_last_summary hm \<and> m < length pairs \<and>
            (\<exists>uid t. hm_user_id hm = Some uid \<and> uid \<noteq> 0 \<and> t \<noteq> [] \<and>
               he_summary_model env (new_summary_prompt pairs prev) = Inr (Some t)))"
    unfolding upd
    by (auto simp: generate_the_new_summary_def split: option.splits sum.splits)
  show "\<forall>uid t. m \<le> hm_pairs_since_last_summary hm \<and> m < length pairs \<and>
            hm_user_id hm = Some uid \<and> uid \<noteq> 0 \<and> t \<noteq> [] \<and>
            he_summary_model env (new_summary_prompt pairs prev) = Inr (Some t) \<longrightarrow>
          update_email_summary env hm m =
            (Inr (),
             hm\<lparr>hm_db := (hm_db hm)\<lparr>summary_table := summary_table (hm_db hm) @
                    [\<lparr>summary_user_id = uid, summary_session_id = hm_session_id hm,
                      summary_text = t,
                      summary_timestamp = current_timestamp (hm_db hm)\<rparr>]\<rparr>,
                hm_pairs_since_last_summary := 0\<rparr>)"
    unfolding upd
    by (auto simp: generate_the_new_summary_def split: option.splits sum.splits)
  show "(m < length pairs) =
         (0 < m \<and> m < length (filter (\<lambda>r. row_session_id r = hm_session_id hm)
                              (email_history_table (hm_db hm))))"
    using length_latest_pairs [OF nf p] by auto
  show "\<exists>ordered.
           sorted_wrt (\<lambda>a b. row_timestamp b \<le> row_timestamp a) ordered
         \<and> (\<forall>k. filter (\<lambda>r. row_timestamp r = k) ordered
                 = filter (\<lambda>r. row_timestamp r = k)
                     (filter (\<lambda>r. row_session_id r = hm_session_id hm)
                        (email_history_table (hm_db hm))))
         \<and> pairs = rev (map (\<lambda>r. (row_email_body r, row_response_text r)) (take (m * 2) ordered))
         \<and> (\<forall>r\<in>set (email_history_table (hm_db hm)).
               row_session_id r = hm_session_id hm \<longrightarrow>
               r \<in> set (take (m * 2) ordered)
               \<or> (\<forall>q\<in>set (take (m * 2) ordered). row_timestamp r \<le> row_timestamp q))"
    using nf p by (rule latest_pairs_are_latest)
  show "\<forall>t. prev = Some t \<and> t \<noteq> [] \<longrightarrow> sublist t (new_summary_prompt pairs prev)"
    using prompt_contains_previous by blast
  show "\<forall>b r. (b, r) \<in> set pairs \<longrightarrow>
          sublist b (new_summary_prompt pairs prev) \<and> sublist r (new_summary_prompt pairs prev)"
    using prompt_contains_pair by blast
  show "case prev of
          None \<Rightarrow> (\<forall>r\<in>set (summary_table (hm_db hm)). summary_session_id r \<noteq> hm_session_id hm)
        | Some t \<Rightarrow>
            (\<exists>r\<in>set (summary_table (hm_db hm)).
               summary_session_id r = hm_session_id hm \<and> summary_text r = t \<and>
               (\<forall>r'\<in>set (summary_table (hm_db hm)).
                  summary_session_id r' = hm_session_id hm \<longrightarrow>
                  summary_timestamp r' \<le> summary_timestamp r) \<and>
               (\<exists>later. filter (\<lambda>r'. summary_timestamp r' = summary_timestamp r)
                          (filter (\<lambda>r'. summary_session_id r' = hm_session_id hm)
                             (summary_table (hm_db hm))) = r # later))"
    using latest_summary_is_latest [OF nf] s by simp
qed

theorem summary_created_exactly_when_witness:
  "update_email_summary
     \<lparr>he_count_history_tokens = (\<lambda>h. Inr 0), he_history_model = (\<lambda>h. Inl ''unused''), he_json_loads = (\<lambda>t. Inl ''unused''), he_summary_model = (\<lambda>p. Inr (Some ''Three status mails, all answered.''))\<rparr>
     \<lparr>hm_user_id = Some 1, hm_session_id = ''s1'', hm_max_tokens = 4000,
      hm_email_history =
        [Email_item (\<lparr>sender = Some ''ops@x'', subject = Some ''Status 1'', body = Some ''body 1'', email_id = Some ''m1'', stored_classification = Some ''respond'', stored_confidence = None\<rparr>),
         Response_item (Some ''reply 1''), Email_item (\<lparr>sender = Some ''ops@x'', subject = Some ''Status 2'', body = Some ''body 2'', email_id = Some ''m2'', stored_classification = Some ''respond'', stored_confidence = None\<rparr>),
         Response_item (Some ''reply 2''), Email_item (\<lparr>sender = Some ''ops@x'', subject = Some ''Status 3'', body = Some ''body 3'', email_id = Some ''m3'', stored_classification = Some ''respond'', stored_confidence = None\<rparr>),
         Response_item (Some ''reply 3'')],
      hm_pairs_since_last_summary = 3,
      hm_db = \<lparr>email_history_table =
         [\<lparr>row_user_id = 1, row_email_id = ''m1'', row_sender = ''ops@x'', row_subject = ''Status 1'', row_email_body = ''body 1'', row_response_text = ''reply 1'', row_session_id = ''s1'', row_classification = Some ''respond'', row_classification_confidence = None, row_timestamp = 101\<rparr>,
          \<lparr>row_user_id = 1, row_email_id = ''m2'', row_sender = ''ops@x'', row_subject = ''Status 2'', row_email_body = ''body 2'', row_response_text = ''reply 2'', row_session_id = ''s1'', row_classification = Some ''respond'', row_classification_confidence = None, row_timestamp = 102\<rparr>,
          \<lparr>row_user_id = 1, row_email_id = ''m3'', row_sender = ''ops@x'', row_subject = ''Status 3'', row_email_body = ''body 3'', row_response_text = ''reply 3'', row_session_id = ''s1'', row_classification = Some ''respond'', row_classification_confidence = None, row_timestamp = 103\<rparr>],
        summary_table = [], current_timestamp = 200, db_faults = []\<rparr>\<rparr> 2
   = (Inr (),
      \<lparr>hm_user_id = Some 1, hm_session_id = ''s1'', hm_max_tokens = 4000,
      hm_email_history =
        [Email_item (\<lparr>sender = Some ''ops@x'', subject = Some ''Status 1'', body = Some ''body 1'', email_id = Some ''m1'', stored_classification = Some ''respond'', stored_confidence = None\<rparr>),
         Response_item (Some ''reply 1''), Email_item (\<lparr>sender = Some ''ops@x'', subject = Some ''Status 2'', body = Some ''body 2'', email_id = Some ''m2'', stored_classification = Some ''respond'', stored_confidence = None\<rparr>),
         Response_item (Some ''reply 2''), Email_item (\<lparr>sender = Some ''ops@x'', subject = Some ''Status 3'', body = Some ''body 3'', email_id = Some ''m3'', stored_classification = Some ''respond'', stored_confidence = None\<rparr>),
         Response_item (Some ''reply 3'')],
      hm_pairs_since_last_summary = 3,
      hm_db = \<lparr>email_history_table =
         [\<lparr>row_user_id = 1, row_email_id = ''m1'', row_sender = ''ops@x'', row_subject = ''Status 1'', row_email_body = ''body 1'', row_response_text = ''reply 1'', row_session_id = ''s1'', row_classification = Some ''respond'', row_classification_confidence = None, row_timestamp = 101\<rparr>,
          \<lparr>row_user_id = 1, row_email_id = ''m2'', row_sender = ''ops@x'', row_subject = ''Status 2'', row_email_body = ''body 2'', row_response_text = ''reply 2'', row_session_id = ''s1'', row_classification = Some ''respond'', row_classification_confidence = None, row_timestamp = 102\<rparr>,
          \<lparr>row_user_id = 1, row_email_id = ''m3'', row_sender = ''ops@x'', row_subject = ''Status 3'', row_email_body = ''body 3'', row_response_text = ''reply 3'', row_session_id = ''s1'', row_classification = Some ''respond'', row_classification_confidence = None, row_timestamp = 103\<rparr>],
        summary_table = [], current_timestamp = 200, db_faults = []\<rparr>\<rparr>\<lparr>hm_db := (hm_db \<lparr>hm_user_id = Some 1, hm_session_id = ''s1'', hm_max_tokens = 4000,
      hm_email_history =
        [Email_item (\<lparr>sender = Some ''ops@x'', subject = Some ''Status 1'', body = Some ''body 1'', email_id = Some ''m1'', stored_classification = Some ''respond'', stored_confidence = None\<rparr>),
         Response_item (Some ''reply 1''), Email_item (\<lparr>sender = Some ''ops@x'', subject = Some ''Status 2'', body = Some ''body 2'', email_id = Some ''m2'', stored_classification = Some ''respond'', stored_confidence = None\<rparr>),
         Response_item (Some ''reply 2''), Email_item (\<lparr>sender = Some ''ops@x'', subject = Some ''Status 3'', body = Some ''body 3'', email_id = Some ''m3'', stored_classification = Some ''respond'', stored_confidence = None\<rparr>),
         Response_item (Some ''reply 3'')],
      hm_pairs_since_last_summary = 3,
      hm_db = \<lparr>email_history_table =
         [\<lparr>row_user_id = 1, row_email_id = ''m1'', row_sender = ''ops@x'', row_subject = ''Status 1'', row_email_body = ''body 1'', row_response_text = ''reply 1'', row_session_id = ''s1'', row_classification = Some ''respond'', row_classification_confidence = None, row_timestamp = 101\<rparr>,
          \<lparr>row_user_id = 1, row_email_id = ''m2'', row_sender = ''ops@x'', row_subject = ''Status 2'', row_email_body = ''body 2'', row_response_text = ''reply 2'', row_session_id = ''s1'', row_classification = Some ''respond'', row_classification_confidence = None, row_timestamp = 102\<rparr>,
          \<lparr>row_user_id = 1, row_email_id = ''m3'', row_sender = ''ops@x'', row_subject = ''Status 3'', row_email_body = ''body 3'', row_response_text = ''reply 3'', row_session_id = ''s1'', row_classification = Some ''respond'', row_classification_confidence = None, row_timestamp = 103\<rparr>],
        summary_table = [], current_timestamp = 200, db_faults = []\<rparr>\<rparr>)\<lparr>summary_table :=
              [\<lparr>summary_user_id = 1, summary_session_id = ''s1'',
                summary_text = ''Three status mails, all answered.'',
                summary_timestamp = 200\<rparr>]\<rparr>,
          hm_pairs_since_last_summary := 0\<rparr>)"
proof -
  let ?hm = "\<lparr>hm_user_id = Some 1, hm_session_id = ''s1'', hm_max_tokens = 4000,
      hm_email_history =
        [Email_item (\<lparr>sender = Some ''ops@x'', subject = Some ''Status 1'', body = Some ''body 1'', email_id = Some ''m1'', stored_classification = Some ''respond'', stored_confidence = None\<rparr>),
         Response_item (Some ''reply 1''), Email_item (\<lparr>sender = Some ''ops@x'', subject = Some ''Status 2'', body = Some ''body 2'', email_id = Some ''m2'', stored_classification = Some ''respond'', stored_confidence = None\<rparr>),
         Response_item (Some ''reply 2''), Email_item (\<lparr>sender = Some ''ops@x'', subject = Some ''Status 3'', body = Some ''body 3'', email_id = Some ''m3'', stored_classification = Some ''respond'', stored_confidence = None\<rparr>),
         Response_item (Some ''reply 3'')],
      hm_pairs_since_last_summary = 3,
      hm_db = \<lparr>email_history_table =
         [\<lparr>row_user_id = 1, row_email_id = ''m1'', row_sender = ''ops@x'', row_subject = ''Status 1'', row_email_body = ''body 1'', row_response_text = ''reply 1'', row_session_id = ''s1'', row_classification = Some ''respond'', row_classification_confidence = None, row_timestamp = 101\<rparr>,
          \<lparr>row_user_id = 1, row_email_id = ''m2'', row_sender = ''ops@x'', row_subject = ''Status 2'', row_email_body = ''body 2'', row_response_text = ''reply 2'', row_session_id = ''s1'', row_classification = Some ''respond'', row_classification_confidence = None, row_timestamp = 102\<rparr>,
          \<lparr>row_user_id = 1, row_email_id = ''m3'', row_sender = ''ops@x'', row_subject = ''Status 3'', row_email_body = ''body 3'', row_response_text = ''reply 3'', row_session_id = ''s1'', row_classification = Some ''respond'', row_classification_confidence = None, row_timestamp = 103\<rparr>],
        summary_table = [], current_timestamp = 200, db_faults = []\<rparr>\<rparr>"
  let ?env = "\<lparr>he_count_history_tokens = (\<lambda>h. Inr 0), he_history_model = (\<lambda>h. Inl ''unused''), he_json_loads = (\<lambda>t. Inl ''unused''), he_summary_model = (\<lambda>p. Inr (Some ''Three status mails, all answered.''))\<rparr>"
  have nf: "db_faults (hm_db ?hm) = []" by simp
  have p: "fst (get_latest_email_pairs ?hm 2) = Inr [(''body 1'', ''reply 1''), (''body 2'', ''reply 2''), (''body 3'', ''reply 3'')]"
    by (simp add: get_latest_email_pairs_def select_latest_pairs_def next_fault_def
          order_by_timestamp_desc_def)
  have s: "fst (get_latest_summary ?hm) = Inr None"
    by (simp add: get_latest_summary_def select_latest_summary_def next_fault_def
          order_by_timestamp_desc_def)
  have m: "he_summary_model ?env (new_summary_prompt [(''body 1'', ''reply 1''), (''body 2'', ''reply 2''), (''body 3'', ''reply 3'')] None)
      = Inr (Some ''Three status mails, all answered.'')" by simp
  from summary_created_exactly_when [OF nf p s, of ?env]
  have "\<forall>uid t. 2 \<le> hm_pairs_since_last_summary ?hm \<and> 2 < length [(''body 1'', ''reply 1''), (''body 2'', ''reply 2''), (''body 3'', ''reply 3'')] \<and>
            hm_user_id ?hm = Some uid \<and> uid \<noteq> 0 \<and> t \<noteq> [] \<and>
            he_summary_model ?env (new_summary_prompt [(''body 1'', ''reply 1''), (''body 2'', ''reply 2''), (''body 3'', ''reply 3'')] None) = Inr (Some t) \<longrightarrow>
          update_email_summary ?env ?hm 2 =
            (Inr (),
             ?hm\<lparr>hm_db := (hm_db ?hm)\<lparr>summary_table := summary_table (hm_db ?hm) @
                    [\<lparr>summary_user_id = uid, summary_session_id = hm_session_id ?hm,
                      summary_text = t,
                      summary_timestamp = current_timestamp (hm_db ?hm)\<rparr>]\<rparr>,
                hm_pairs_since_last_summary := 0\<rparr>)"
    by (elim conjE)
  from this [rule_format, of 1 "''Three status mails, all answered.''"] m
  show ?thesis by simp
qed

text \<open>
  C7.  The claim: a summary record is created exactly when the number of unsummarized
  pairs reaches \<open>max_history_pairs\<close>, and the new summary folds in the prior latest
  summary plus the newly unsummarized pairs.  First, in a new session with threshold 2
  the second email brings the counter to 2, and \<open>update_email_summary\<close> creates nothing:
  the session has 2 stored rows, and the guard \<open>len(email_data) <= max_history_pairs\<close>
  skips the summary.  Second, with threshold 1 and two stored pairs the summary model
  times out, so no summary is created and the counter stays at 2; the third email, one
  second later, brings the counter to 3 and the summary is created from the two latest rows only (the model
  answers with its prompt here, so the stored text shows what was folded in): the first
  pair, never summarized, is not in it.
\<close>

theorem summary_not_created_at_threshold:
  "add_to_history
     \<lparr>he_count_history_tokens = (\<lambda>h. Inr 0), he_history_model = (\<lambda>h. Inl ''unused''), he_json_loads = (\<lambda>t. Inl ''unused''), he_summary_model = (\<lambda>p. Inr (Some ''Three status mails, all answered.''))\<rparr>
     \<lparr>hm_user_id = Some 1, hm_session_id = ''s1'', hm_max_tokens = 4000,
      hm_email_history =
        [Email_item (\<lparr>sender = Some ''ops@x'', subject = Some ''Status 1'', body = Some ''body 1'', email_id = Some ''m1'', stored_classification = Some ''respond'', stored_confidence = None\<rparr>),
         Response_item (Some ''reply 1'')],
      hm_pairs_since_last_summary = 1,
      hm_db = \<lparr>email_history_table =
         [\<lparr>row_user_id = 1, row_email_id = ''m1'', row_sender = ''ops@x'', row_subject = ''Status 1'', row_email_body = ''body 1'', row_response_text = ''reply 1'', row_session_id = ''s1'', row_classification = Some ''respond'', row_classification_confidence = None, row_timestamp = 101\<rparr>],
        summary_table = [], current_timestamp = 102, db_faults = []\<rparr>\<rparr>
     \<lparr>sender = Some ''ops@x'', subject = Some ''Status 2'', body = Some ''body 2'', email_id = Some ''m2'', stored_classification = Some ''respond'', stored_confidence = None\<rparr> (Some ''reply 2'') 2
   = (Inr (),
     \<lparr>hm_user_id = Some 1, hm_session_id = ''s1'', hm_max_tokens = 4000,
      hm_email_history =
        [Email_item (\<lparr>sender = Some ''ops@x'', subject = Some ''Status 1'', body = Some ''body 1'', email_id = Some ''m1'', stored_classification = Some ''respond'', stored_confidence = None\<rparr>),
         Response_item (Some ''reply 1''), Email_item (\<lparr>sender = Some ''ops@x'', subject = Some ''Status 2'', body = Some ''body 2'', email_id = Some ''m2'', stored_classification = Some ''respond'', stored_confidence = None\<rparr>),
         Response_item (Some ''reply 2'')],
      hm_pairs_since_last_summary = 2,
      hm_db = \<lparr>email_history_table =
         [\<lparr>row_user_id = 1, row_email_id = ''m1'', row_sender = ''ops@x'', row_subject = ''Status 1'', row_email_body = ''body 1'', row_response_text = ''reply 1'', row_session_id = ''s1'', row_classification = Some ''respond'', row_classification_confidence = None, row_timestamp = 101\<rparr>,
          \<lparr>row_user_id = 1, row_email_id = ''m2'', row_sender = ''ops@x'', row_subject = ''Status 2'', row_email_body = ''body 2'', row_response_text = ''reply 2'', row_session_id = ''s1'', row_classification = Some ''respond'', row_classification_confidence = None, row_timestamp = 102\<rparr>],
        summary_table = [], current_timestamp = 102, db_faults = []\<rparr>\<rparr>)
   \<and> hm_pairs_since_last_summary
     \<lparr>hm_user_id = Some 1, hm_session_id = ''s1'', hm_max_tokens = 4000,
      hm_email_history =
        [Email_item (\<lparr>sender = Some ''ops@x'', subject = Some ''Status 1'', body = Some ''body 1'', email_id = Some ''m1'', stored_classification = Some ''respond'', stored_confidence = None\<rparr>),
         Response_item (Some ''reply 1''), Email_item (\<lparr>sender = Some ''ops@x'', subject = Some ''Status 2'', body = Some ''body 2'', email_id = Some ''m2'', stored_classification = Some ''respond'', stored_confidence = None\<rparr>),
         Response_item (Some ''reply 2'')],
      hm_pairs_since_last_summary = 2,
      hm_db = \<lparr>email_history_table =
         [\<lparr>row_user_id = 1, row_email_id = ''m1'', row_sender = ''ops@x'', row_subject = ''Status 1'', row_email_body = ''body 1'', row_response_text = ''reply 1'', row_session_id = ''s1'', row_classification = Some ''respond'', row_classification_confidence = None, row_timestamp = 101\<rparr>,
          \<lparr>row_user_id = 1, row_email_id = ''m2'', row_sender = ''ops@x'', row_subject = ''Status 2'', row_email_body = ''body 2'', row_response_text = ''reply 2'', row_session_id = ''s1'', row_classification = Some ''respond'', row_classification_confidence = None, row_timestamp = 102\<rparr>],
        summary_table = [], current_timestamp = 102, db_faults = []\<rparr>\<rparr> = 2
   \<and> update_email_summary
     \<lparr>he_count_history_tokens = (\<lambda>h. Inr 0), he_history_model = (\<lambda>h. Inl ''unused''), he_json_loads = (\<lambda>t. Inl ''unused''), he_summary_model = (\<lambda>p. Inr (Some ''Three status mails, all answered.''))\<rparr>
     \<lparr>hm_user_id = Some 1, hm_session_id = ''s1'', hm_max_tokens = 4000,
      hm_email_history =
        [Email_item (\<lparr>sender = Some ''ops@x'', subject = Some ''Status 1'', body = Some ''body 1'', email_id = Some ''m1'', stored_classification = Some ''respond'', stored_confidence = None\<rparr>),
         Response_item (Some ''reply 1''), Email_item (\<lparr>sender = Some ''ops@x'', subject = Some ''Status 2'', body = Some ''body 2'', email_id = Some ''m2'', stored_classification = Some ''respond'', stored_confidence = None\<rparr>),
         Response_item (Some ''reply 2'')],
      hm_pairs_since_last_summary = 2,
      hm_db = \<lparr>email_history_table =
         [\<lparr>row_user_id = 1, row_email_id = ''m1'', row_sender = ''ops@x'', row_subject = ''Status 1'', row_email_body = ''body 1'', row_response_text = ''reply 1'', row_session_id = ''s1'', row_classification = Some ''respond'', row_classification_confidence = None, row_timestamp = 101\<rparr>,
          \<lparr>row_user_id = 1, row_email_id = ''m2'', row_sender = ''ops@x'', row_subject = ''Status 2'', row_email_body = ''body 2'', row_response_text = ''reply 2'', row_session_id = ''s1'', row_classification = Some ''respond'', row_classification_confidence = None, row_timestamp = 102\<rparr>],
        summary_table = [], current_timestamp = 102, db_faults = []\<rparr>\<rparr> 2
   = (Inr (),
     \<lparr>hm_user_id = Some 1, hm_session_id = ''s1'', hm_max_tokens = 4000,
      hm_email_history =
        [Email_item (\<lparr>sender = Some ''ops@x'', subject = Some ''Status 1'', body = Some ''body 1'', email_id = Some ''m1'', stored_classification = Some ''respond'', stored_confidence = None\<rparr>),
         Response_item (Some ''reply 1''), Email_item (\<lparr>sender = Some ''ops@x'', subject = Some ''Status 2'', body = Some ''body 2'', email_id = Some ''m2'', stored_classification = Some ''respond'', stored_confidence = None\<rparr>),
         Response_item (Some ''reply 2'')],
      hm_pairs_since_last_summary = 2,
      hm_db = \<lparr>email_history_table =
         [\<lparr>row_user_id = 1, row_email_id = ''m1'', row_sender = ''ops@x'', row_subject = ''Status 1'', row_email_body = ''body 1'', row_response_text = ''reply 1'', row_session_id = ''s1'', row_classification = Some ''respond'', row_classification_confidence = None, row_timestamp = 101\<rparr>,
          \<lparr>row_user_id = 1, row_email_id = ''m2'', row_sender = ''ops@x'', row_subject = ''Status 2'', row_email_body = ''body 2'', row_response_text = ''reply 2'', row_session_id = ''s1'', row_classification = Some ''respond'', row_classification_confidence = None, row_timestamp = 102\<rparr>],
        summary_table = [], current_timestamp = 102, db_faults = []\<rparr>\<rparr>)
   \<and> update_email_summary
     \<lparr>he_count_history_tokens = (\<lambda>h. Inr 0), he_history_model = (\<lambda>h. Inl ''unused''), he_json_loads = (\<lambda>t. Inl ''unused''),
      he_summary_model = (\<lambda>p. if p = new_summary_prompt [(''body 1'', ''reply 1''), (''body 2'', ''reply 2'')] None
                                then Inl ''timeout'' else Inr (Some p))\<rparr>
     \<lparr>hm_user_id = Some 1, hm_session_id = ''s1'', hm_max_tokens = 4000,
      hm_email_history =
        [Email_item (\<lparr>sender = Some ''ops@x'', subject = Some ''Status 2'', body = Some ''body 2'', email_id = Some ''m2'', stored_classification = Some ''respond'', stored_confidence = None\<rparr>),
         Response_item (Some ''reply 2'')],
      hm_pairs_since_last_summary = 2,
      hm_db = \<lparr>email_history_table =
         [\<lparr>row_user_id = 1, row_email_id = ''m1'', row_sender = ''ops@x'', row_subject = ''Status 1'', row_email_body = ''body 1'', row_response_text = ''reply 1'', row_session_id = ''s1'', row_classification = Some ''respond'', row_classification_confidence = None, row_timestamp = 101\<rparr>,
          \<lparr>row_user_id = 1, row_email_id = ''m2'', row_sender = ''ops@x'', row_subject = ''Status 2'', row_email_body = ''body 2'', row_response_text = ''reply 2'', row_session_id = ''s1'', row_classification = Some ''respond'', row_classification_confidence = None, row_timestamp = 102\<rparr>],
        summary_table = [], current_timestamp = 102, db_faults = []\<rparr>\<rparr> 1
   = (Inr (),
     \<lparr>hm_user_id = Some 1, hm_session_id = ''s1'', hm_max_tokens = 4000,
      hm_email_history =
        [Email_item (\<lparr>sender = Some ''ops@x'', subject = Some ''Status 2'', body = Some ''body 2'', email_id = Some ''m2'', stored_classification = Some ''respond'', stored_confidence = None\<rparr>),
         Response_item (Some ''reply 2'')],
      hm_pairs_since_last_summary = 2,
      hm_db = \<lparr>email_history_table =
         [\<lparr>row_user_id = 1, row_email_id = ''m1'', row_sender = ''ops@x'', row_subject = ''Status 1'', row_email_body = ''body 1'', row_response_text = ''reply 1'', row_session_id = ''s1'', row_classification = Some ''respond'', row_classification_confidence = None, row_timestamp = 101\<rparr>,
          \<lparr>row_user_id = 1, row_email_id = ''m2'', row_sender = ''ops@x'', row_subject = ''Status 2'', row_email_body = ''body 2'', row_response_text = ''reply 2'', row_session_id = ''s1'', row_classification = Some ''respond'', row_classification_confidence = None, row_timestamp = 102\<rparr>],
        summary_table = [], current_timestamp = 102, db_faults = []\<rparr>\<rparr>)
   \<and> add_to_history
     \<lparr>he_count_history_tokens = (\<lambda>h. Inr 0), he_history_model = (\<lambda>h. Inl ''unused''), he_json_loads = (\<lambda>t. Inl ''unused''),
      he_summary_model = (\<lambda>p. if p = new_summary_prompt [(''body 1'', ''reply 1''), (''body 2'', ''reply 2'')] None
                                then Inl ''timeout'' else Inr (Some p))\<rparr>
     \<lparr>hm_user_id = Some 1, hm_session_id = ''s1'', hm_max_tokens = 4000,
      hm_email_history =
        [Email_item (\<lparr>sender = Some ''ops@x'', subject = Some ''Status 2'', body = Some ''body 2'', email_id = Some ''m2'', stored_classification = Some ''respond'', stored_confidence = None\<rparr>),
         Response_item (Some ''reply 2'')],
      hm_pairs_since_last_summary = 2,
      hm_db = \<lparr>email_history_table =
         [\<lparr>row_user_id = 1, row_email_id = ''m1'', row_sender = ''ops@x'', row_subject = ''Status 1'', row_email_body = ''body 1'', row_response_text = ''reply 1'', row_session_id = ''s1'', row_classification = Some ''respond'', row_classification_confidence = None, row_timestamp = 101\<rparr>,
          \<lparr>row_user_id = 1, row_email_id = ''m2'', row_sender = ''ops@x'', row_subject = ''Status 2'', row_email_body = ''body 2'', row_response_text = ''reply 2'', row_session_id = ''s1'', row_classification = Some ''respond'', row_classification_confidence = None, row_timestamp = 102\<rparr>],
        summary_table = [], current_timestamp = 103, db_faults = []\<rparr>\<rparr>
     \<lparr>sender = Some ''ops@x'', subject = Some ''Status 3'', body = Some ''body 3'', email_id = Some ''m3'', stored_classification = Some ''respond'', stored_confidence = None\<rparr> (Some ''reply 3'') 1
   = (Inr (),
     \<lparr>hm_user_id = Some 1, hm_session_id = ''s1'', hm_max_tokens = 4000,
      hm_email_history =
        [Email_item (\<lparr>sender = Some ''ops@x'', subject = Some ''Status 3'', body = Some ''body 3'', email_id = Some ''m3'', stored_classification = Some ''respond'', stored_confidence = None\<rparr>),
         Response_item (Some ''reply 3'')],
      hm_pairs_since_last_summary = 3,
      hm_db = \<lparr>email_history_table =
         [\<lparr>row_user_id = 1, row_email_id = ''m1'', row_sender = ''ops@x'', row_subject = ''Status 1'', row_email_body = ''body 1'', row_response_text = ''reply 1'', row_session_id = ''s1'', row_classification = Some ''respond'', row_classification_confidence = None, row_timestamp = 101\<rparr>,
          \<lparr>row_user_id = 1, row_email_id = ''m2'', row_sender = ''ops@x'', row_subject = ''Status 2'', row_email_body = ''body 2'', row_response_text = ''reply 2'', row_session_id = ''s1'', row_classification = Some ''respond'', row_classification_confidence = None, row_timestamp = 102\<rparr>,
          \<lparr>row_user_id = 1, row_email_id = ''m3'', row_sender = ''ops@x'', row_subject = ''Status 3'', row_email_body = ''body 3'', row_response_text = ''reply 3'', row_session_id = ''s1'', row_classification = Some ''respond'', row_classification_confidence = None, row_timestamp = 103\<rparr>],
        summary_table = [], current_timestamp = 103, db_faults = []\<rparr>\<rparr>)
   \<and> update_email_summary
     \<lparr>he_count_history_tokens = (\<lambda>h. Inr 0), he_history_model = (\<lambda>h. Inl ''unused''), he_json_loads = (\<lambda>t. Inl ''unused''),
      he_summary_model = (\<lambda>p. if p = new_summary_prompt [(''body 1'', ''reply 1''), (''body 2'', ''reply 2'')] None
                                then Inl ''timeout'' else Inr (Some p))\<rparr>
     \<lparr>hm_user_id = Some 1, hm_session_id = ''s1'', hm_max_tokens = 4000,
      hm_email_history =
        [Email_item (\<lparr>sender = Some ''ops@x'', subject = Some ''Status 3'', body = Some ''body 3'', email_id = Some ''m3'', stored_classification = Some ''respond'', stored_confidence = None\<rparr>),
         Response_item (Some ''reply 3'')],
      hm_pairs_since_last_summary = 3,
      hm_db = \<lparr>email_history_table =
         [\<lparr>row_user_id = 1, row_email_id = ''m1'', row_sender = ''ops@x'', row_subject = ''Status 1'', row_email_body = ''body 1'', row_response_text = ''reply 1'', row_session_id = ''s1'', row_classification = Some ''respond'', row_classification_confidence = None, row_timestamp = 101\<rparr>,
          \<lparr>row_user_id = 1, row_email_id = ''m2'', row_sender = ''ops@x'', row_subject = ''Status 2'', row_email_body = ''body 2'', row_response_text = ''reply 2'', row_session_id = ''s1'', row_classification = Some ''respond'', row_classification_confidence = None, row_timestamp = 102\<rparr>,
          \<lparr>row_user_id = 1, row_email_id = ''m3'', row_sender = ''ops@x'', row_subject = ''Status 3'', row_email_body = ''body 3'', row_response_text = ''reply 3'', row_session_id = ''s1'', row_classification = Some ''respond'', row_classification_confidence = None, row_timestamp = 103\<rparr>],
        summary_table = [], current_timestamp = 103, db_faults = []\<rparr>\<rparr> 1
   = (Inr (),
     \<lparr>hm_user_id = Some 1, hm_session_id = ''s1'', hm_max_tokens = 4000,
      hm_email_history =
        [Email_item (\<lparr>sender = Some ''ops@x'', subject = Some ''Status 3'', body = Some ''body 3'', email_id = Some ''m3'', stored_classification = Some ''respond'', stored_confidence = None\<rparr>),
         Response_item (Some ''reply 3'')],
      hm_pairs_since_last_summary = 0,
      hm_db = \<lparr>email_history_table =
         [\<lparr>row_user_id = 1, row_email_id = ''m1'', row_sender = ''ops@x'', row_subject = ''Status 1'', row_email_body = ''body 1'', row_response_text = ''reply 1'', row_session_id = ''s1'', row_classification = Some ''respond'', row_classification_confidence = None, row_timestamp = 101\<rparr>,
          \<lparr>row_user_id = 1, row_email_id = ''m2'', row_sender = ''ops@x'', row_subject = ''Status 2'', row_email_body = ''body 2'', row_response_text = ''reply 2'', row_session_id = ''s1'', row_classification = Some ''respond'', row_classification_confidence = None, row_timestamp = 102\<rparr>,
          \<lparr>row_user_id = 1, row_email_id = ''m3'', row_sender = ''ops@x'', row_subject = ''Status 3'', row_email_body = ''body 3'', row_response_text = ''reply 3'', row_session_id = ''s1'', row_classification = Some ''respond'', row_classification_confidence = None, row_timestamp = 103\<rparr>],
        summary_table = [\<lparr>summary_user_id = 1, summary_session_id = ''s1'',
            summary_text = new_summary_prompt [(''body 2'', ''reply 2''), (''body 3'', ''reply 3'')] None,
            summary_timestamp = 103\<rparr>], current_timestamp = 103, db_faults = []\<rparr>\<rparr>)
   \<and> \<not> py_in ''body 1'' (new_summary_prompt [(''body 2'', ''reply 2''), (''body 3'', ''reply 3'')] None)"
proof (intro conjI)
  show "add_to_history
     \<lparr>he_count_history_tokens = (\<lambda>h. Inr 0), he_history_model = (\<lambda>h. Inl ''unused''), he_json_loads = (\<lambda>t. Inl ''unused''), he_summary_model = (\<lambda>p. Inr (Some ''Three status mails, all answered.''))\<rparr>
     \<lparr>hm_user_id = Some 1, hm_session_id = ''s1'', hm_max_tokens = 4000,
      hm_email_history =
        [Email_item (\<lparr>sender = Some ''ops@x'', subject = Some ''Status 1'', body = Some ''body 1'', email_id = Some ''m1'', stored_classification = Some ''respond'', stored_confidence = None\<rparr>),
         Response_item (Some ''reply 1'')],
      hm_pairs_since_last_summary = 1,
      hm_db = \<lparr>email_history_table =
         [\<lparr>row_user_id = 1, row_email_id = ''m1'', row_sender = ''ops@x'', row_subject = ''Status 1'', row_email_body = ''body 1'', row_response_text = ''reply 1'', row_session_id = ''s1'', row_classification = Some ''respond'', row_classification_confidence = None, row_timestamp = 101\<rparr>],
        summary_table = [], current_timestamp = 102, db_faults = []\<rparr>\<rparr>
     \<lparr>sender = Some ''ops@x'', subject = Some ''Status 2'', body = Some ''body 2'', email_id = Some ''m2'', stored_classification = Some ''respond'', stored_confidence = None\<rparr> (Some ''reply 2'') 2
   = (Inr (),
     \<lparr>hm_user_id = Some 1, hm_session_id = ''s1'', hm_max_tokens = 4000,
      hm_email_history =
        [Email_item (\<lparr>sender = Some ''ops@x'', subject = Some ''Status 1'', body = Some ''body 1'', email_id = Some ''m1'', stored_classification = Some ''respond'', stored_confidence = None\<rparr>),
         Response_item (Some ''reply 1''), Email_item (\<lparr>sender = Some ''ops@x'', subject = Some ''Status 2'', body = Some ''body 2'', email_id = Some ''m2'', stored_classification = Some ''respond'', stored_confidence = None\<rparr>),
         Response_item (Some ''reply 2'')],
      hm_pairs_since_last_summary = 2,
      hm_db = \<lparr>email_history_table =
         [\<lparr>row_user_id = 1, row_email_id = ''m1'', row_sender = ''ops@x'', row_subject = ''Status 1'', row_email_body = ''body 1'', row_response_text = ''reply 1'', row_session_id = ''s1'', row_classification = Some ''respond'', row_classification_confidence = None, row_timestamp = 101\<rparr>,
          \<lparr>row_user_id = 1, row_email_id = ''m2'', row_sender = ''ops@x'', row_subject = ''Status 2'', row_email_body = ''body 2'', row_response_text = ''reply 2'', row_session_id = ''s1'', row_classification = Some ''respond'', row_classification_confidence = None, row_timestamp = 102\<rparr>],
        summary_table = [], current_timestamp = 102, db_faults = []\<rparr>\<rparr>)"
    by (simp add: add_to_history_def trim_history_def save_to_db_def insert_email_history_def
        next_fault_def get_or_empty_def)
  show "hm_pairs_since_last_summary
     \<lparr>hm_user_id = Some 1, hm_session_id = ''s1'', hm_max_tokens = 4000,
      hm_email_history =
        [Email_item (\<lparr>sender = Some ''ops@x'', subject = Some ''Status 1'', body = Some ''body 1'', email_id = Some ''m1'', stored_classification = Some ''respond'', stored_confidence = None\<rparr>),
         Response_item (Some ''reply 1''), Email_item (\<lparr>sender = Some ''ops@x'', subject = Some ''Status 2'', body = Some ''body 2'', email_id = Some ''m2'', stored_classification = Some ''respond'', stored_confidence = None\<rparr>),
         Response_item (Some ''reply 2'')],
      hm_pairs_since_last_summary = 2,
      hm_db = \<lparr>email_history_table =
         [\<lparr>row_user_id = 1, row_email_id = ''m1'', row_sender = ''ops@x'', row_subject = ''Status 1'', row_email_body = ''body 1'', row_response_text = ''reply 1'', row_session_id = ''s1'', row_classification = Some ''respond'', row_classification_confidence = None, row_timestamp = 101\<rparr>,
          \<lparr>row_user_id = 1, row_email_id = ''m2'', row_sender = ''ops@x'', row_subject = ''Status 2'', row_email_body = ''body 2'', row_response_text = ''reply 2'', row_session_id = ''s1'', row_classification = Some ''respond'', row_classification_confidence = None, row_timestamp = 102\<rparr>],
        summary_table = [], current_timestamp = 102, db_faults = []\<rparr>\<rparr> = 2" by simp
  show "update_email_summary
     \<lparr>he_count_history_tokens = (\<lambda>h. Inr 0), he_history_model = (\<lambda>h. Inl ''unused''), he_json_loads = (\<lambda>t. Inl ''unused''), he_summary_model = (\<lambda>p. Inr (Some ''Three status mails, all answered.''))\<rparr>
     \<lparr>hm_user_id = Some 1, hm_session_id = ''s1'', hm_max_tokens = 4000,
      hm_email_history =
        [Email_item (\<lparr>sender = Some ''ops@x'', subject = Some ''Status 1'', body = Some ''body 1'', email_id = Some ''m1'', stored_classification = Some ''respond'', stored_confidence = None\<rparr>),
         Response_item (Some ''reply 1''), Email_item (\<lparr>sender = Some ''ops@x'', subject = Some ''Status 2'', body = Some ''body 2'', email_id = Some ''m2'', stored_classification = Some ''respond'', stored_confidence = None\<rparr>),
         Response_item (Some ''reply 2'')],
      hm_pairs_since_last_summary = 2,
      hm_db = \<lparr>email_history_table =
         [\<lparr>row_user_id = 1, row_email_id = ''m1'', row_sender = ''ops@x'', row_subject = ''Status 1'', row_email_body = ''body 1'', row_response_text = ''reply 1'', row_session_id = ''s1'', row_classification = Some ''respond'', row_classification_confidence = None, row_timestamp = 101\<rparr>,
          \<lparr>row_user_id = 1, row_email_id = ''m2'', row_sender = ''ops@x'', row_subject = ''Status 2'', row_email_body = ''body 2'', row_response_text = ''reply 2'', row_session_id = ''s1'', row_classification = Some ''respond'', row_classification_confidence = None, row_timestamp = 102\<rparr>],
        summary_table = [], current_timestamp = 102, db_faults = []\<rparr>\<rparr> 2
   = (Inr (),
     \<lparr>hm_user_id = Some 1, hm_session_id = ''s1'', hm_max_tokens = 4000,
      hm_email_history =
        [Email_item (\<lparr>sender = Some ''ops@x'', subject = Some ''Status 1'', body = Some ''body 1'', email_id = Some ''m1'', stored_classification = Some ''respond'', stored_confidence = None\<rparr>),
         Response_item (Some ''reply 1''), Email_item (\<lparr>sender = Some ''ops@x'', subject = Some ''Status 2'', body = Some ''body 2'', email_id = Some ''m2'', stored_classification = Some ''respond'', stored_confidence = None\<rparr>),
         Response_item (Some ''reply 2'')],
      hm_pairs_since_last_summary = 2,
      hm_db = \<lparr>email_history_table =
         [\<lparr>row_user_id = 1, row_email_id = ''m1'', row_sender = ''ops@x'', row_subject = ''Status 1'', row_email_body = ''body 1'', row_response_text = ''reply 1'', row_session_id = ''s1'', row_classification = Some ''respond'', row_classification_confidence = None, row_timestamp = 101\<rparr>,
          \<lparr>row_user_id = 1, row_email_id = ''m2'', row_sender = ''ops@x'', row_subject = ''Status 2'', row_email_body = ''body 2'', row_response_text = ''reply 2'', row_session_id = ''s1'', row_classification = Some ''respond'', row_classification_confidence = None, row_timestamp = 102\<rparr>],
        summary_table = [], current_timestamp = 102, db_faults = []\<rparr>\<rparr>)"
    by (simp add: update_email_summary_def get_latest_email_pairs_def select_latest_pairs_def
        get_latest_summary_def select_latest_summary_def next_fault_def
        order_by_timestamp_desc_def)
  show "update_email_summary
     \<lparr>he_count_history_tokens = (\<lambda>h. Inr 0), he_history_model = (\<lambda>h. Inl ''unused''), he_json_loads = (\<lambda>t. Inl ''unused''),
      he_summary_model = (\<lambda>p. if p = new_summary_prompt [(''body 1'', ''reply 1''), (''body 2'', ''reply 2'')] None
                                then Inl ''timeout'' else Inr (Some p))\<rparr>
     \<lparr>hm_user_id = Some 1, hm_session_id = ''s1'', hm_max_tokens = 4000,
      hm_email_history =
        [Email_item (\<lparr>sender = Some ''ops@x'', subject = Some ''Status 2'', body = Some ''body 2'', email_id = Some ''m2'', stored_classification = Some ''respond'', stored_confidence = None\<rparr>),
         Response_item (Some ''reply 2'')],
      hm_pairs_since_last_summary = 2,
      hm_db = \<lparr>email_history_table =
         [\<lparr>row_user_id = 1, row_email_id = ''m1'', row_sender = ''ops@x'', row_subject = ''Status 1'', row_email_body = ''body 1'', row_response_text = ''reply 1'', row_session_id = ''s1'', row_classification = Some ''respond'', row_classification_confidence = None, row_timestamp = 101\<rparr>,
          \<lparr>row_user_id = 1, row_email_id = ''m2'', row_sender = ''ops@x'', row_subject = ''Status 2'', row_email_body = ''body 2'', row_response_text = ''reply 2'', row_session_id = ''s1'', row_classification = Some ''respond'', row_classification_confidence = None, row_timestamp = 102\<rparr>],
        summary_table = [], current_timestamp = 102, db_faults = []\<rparr>\<rparr> 1
   = (Inr (),
     \<lparr>hm_user_id = Some 1, hm_session_id = ''s1'', hm_max_tokens = 4000,
      hm_email_history =
        [Email_item (\<lparr>sender = Some ''ops@x'', subject = Some ''Status 2'', body = Some ''body 2'', email_id = Some ''m2'', stored_classification = Some ''respond'', stored_confidence = None\<rparr>),
         Response_item (Some ''reply 2'')],
      hm_pairs_since_last_summary = 2,
      hm_db = \<lparr>email_history_table =
         [\<lparr>row_user_id = 1, row_email_id = ''m1'', row_sender = ''ops@x'', row_subject = ''Status 1'', row_email_body = ''body 1'', row_response_text = ''reply 1'', row_session_id = ''s1'', row_classification = Some ''respond'', row_classification_confidence = None, row_timestamp = 101\<rparr>,
          \<lparr>row_user_id = 1, row_email_id = ''m2'', row_sender = ''ops@x'', row_subject = ''Status 2'', row_email_body = ''body 2'', row_response_text = ''reply 2'', row_session_id = ''s1'', row_classification = Some ''respond'', row_classification_confidence = None, row_timestamp = 102\<rparr>],
        summary_table = [], current_timestamp = 102, db_faults = []\<rparr>\<rparr>)"
    by (simp add: update_email_summary_def get_latest_email_pairs_def select_latest_pairs_def
        get_latest_summary_def select_latest_summary_def next_fault_def
        order_by_timestamp_desc_def generate_the_new_summary_def)
  show "add_to_history
     \<lparr>he_count_history_tokens = (\<lambda>h. Inr 0), he_history_model = (\<lambda>h. Inl ''unused''), he_json_loads = (\<lambda>t. Inl ''unused''),
      he_summary_model = (\<lambda>p. if p = new_summary_prompt [(''body 1'', ''reply 1''), (''body 2'', ''reply 2'')] None
                                then Inl ''timeout'' else Inr (Some p))\<rparr>
     \<lparr>hm_user_id = Some 1, hm_session_id = ''s1'', hm_max_tokens = 4000,
      hm_email_history =
        [Email_item (\<lparr>sender = Some ''ops@x'', subject = Some ''Status 2'', body = Some ''body 2'', email_id = Some ''m2'', stored_classification = Some ''respond'', stored_confidence = None\<rparr>),
         Response_item (Some ''reply 2'')],
      hm_pairs_since_last_summary = 2,
      hm_db = \<lparr>email_history_table =
         [\<lparr>row_user_id = 1, row_email_id = ''m1'', row_sender = ''ops@x'', row_subject = ''Status 1'', row_email_body = ''body 1'', row_response_text = ''reply 1'', row_session_id = ''s1'', row_classification = Some ''respond'', row_classification_confidence = None, row_timestamp = 101\<rparr>,
          \<lparr>row_user_id = 1, row_email_id = ''m2'', row_sender = ''ops@x'', row_subject = ''Status 2'', row_email_body = ''body 2'', row_response_text = ''reply 2'', row_session_id = ''s1'', row_classification = Some ''respond'', row_classification_confidence = None, row_timestamp = 102\<rparr>],
        summary_table = [], current_timestamp = 103, db_faults = []\<rparr>\<rparr>
     \<lparr>sender = Some ''ops@x'', subject = Some ''Status 3'', body = Some ''body 3'', email_id = Some ''m3'', stored_classification = Some ''respond'', stored_confidence = None\<rparr> (Some ''reply 3'') 1
   = (Inr (),
     \<lparr>hm_user_id = Some 1, hm_session_id = ''s1'', hm_max_tokens = 4000,
      hm_email_history =
        [Email_item (\<lparr>sender = Some ''ops@x'', subject = Some ''Status 3'', body = Some ''body 3'', email_id = Some ''m3'', stored_classification = Some ''respond'', stored_confidence = None\<rparr>),
         Response_item (Some ''reply 3'')],
      hm_pairs_since_last_summary = 3,
      hm_db = \<lparr>email_history_table =
         [\<lparr>row_user_id = 1, row_email_id = ''m1'', row_sender = ''ops@x'', row_subject = ''Status 1'', row_email_body = ''body 1'', row_response_text = ''reply 1'', row_session_id = ''s1'', row_classification = Some ''respond'', row_classification_confidence = None, row_timestamp = 101\<rparr>,
          \<lparr>row_user_id = 1, row_email_id = ''m2'', row_sender = ''ops@x'', row_subject = ''Status 2'', row_email_body = ''body 2'', row_response_text = ''reply 2'', row_session_id = ''s1'', row_classification = Some ''respond'', row_classification_confidence = None, row_timestamp = 102\<rparr>,
          \<lparr>row_user_id = 1, row_email_id = ''m3'', row_sender = ''ops@x'', row_subject = ''Status 3'', row_email_body = ''body 3'', row_response_text = ''reply 3'', row_session_id = ''s1'', row_classification = Some ''respond'', row_classification_confidence = None, row_timestamp = 103\<rparr>],
        summary_table = [], current_timestamp = 103, db_faults = []\<rparr>\<rparr>)"
    by (simp add: add_to_history_def trim_history_def save_to_db_def insert_email_history_def
        next_fault_def get_or_empty_def)
  show "update_email_summary
     \<lparr>he_count_history_tokens = (\<lambda>h. Inr 0), he_history_model = (\<lambda>h. Inl ''unused''), he_json_loads = (\<lambda>t. Inl ''unused''),
      he_summary_model = (\<lambda>p. if p = new_summary_prompt [(''body 1'', ''reply 1''), (''body 2'', ''reply 2'')] None
                                then Inl ''timeout'' else Inr (Some p))\<rparr>
     \<lparr>hm_user_id = Some 1, hm_session_id = ''s1'', hm_max_tokens = 4000,
      hm_email_history =
        [Email_item (\<lparr>sender = Some ''ops@x'', subject = Some ''Status 3'', body = Some ''body 3'', email_id = Some ''m3'', stored_classification = Some ''respond'', stored_confidence = None\<rparr>),
         Response_item (Some ''reply 3'')],
      hm_pairs_since_last_summary = 3,
      hm_db = \<lparr>email_history_table =
         [\<lparr>row_user_id = 1, row_email_id = ''m1'', row_sender = ''ops@x'', row_subject = ''Status 1'', row_email_body = ''body 1'', row_response_text = ''reply 1'', row_session_id = ''s1'', row_classification = Some ''respond'', row_classification_confidence = None, row_timestamp = 101\<rparr>,
          \<lparr>row_user_id = 1, row_email_id = ''m2'', row_sender = ''ops@x'', row_subject = ''Status 2'', row_email_body = ''body 2'', row_response_text = ''reply 2'', row_session_id = ''s1'', row_classification = Some ''respond'', row_classification_confidence = None, row_timestamp = 102\<rparr>,
          \<lparr>row_user_id = 1, row_email_id = ''m3'', row_sender = ''ops@x'', row_subject = ''Status 3'', row_email_body = ''body 3'', row_response_text = ''reply 3'', row_session_id = ''s1'', row_classification = Some ''respond'', row_classification_confidence = None, row_timestamp = 103\<rparr>],
        summary_table = [], current_timestamp = 103, db_faults = []\<rparr>\<rparr> 1
   = (Inr (),
     \<lparr>hm_user_id = Some 1, hm_session_id = ''s1'', hm_max_tokens = 4000,
      hm_email_history =
        [Email_item (\<lparr>sender = Some ''ops@x'', subject = Some ''Status 3'', body = Some ''body 3'', email_id = Some ''m3'', stored_classification = Some ''respond'', stored_confidence = None\<rparr>),
         Response_item (Some ''reply 3'')],
      hm_pairs_since_last_summary = 0,
      hm_db = \<lparr>email_history_table =
         [\<lparr>row_user_id = 1, row_email_id = ''m1'', row_sender = ''ops@x'', row_subject = ''Status 1'', row_email_body = ''body 1'', row_response_text = ''reply 1'', row_session_id = ''s1'', row_classification = Some ''respond'', row_classification_confidence = None, row_timestamp = 101\<rparr>,
          \<lparr>row_user_id = 1, row_email_id = ''m2'', row_sender = ''ops@x'', row_subject = ''Status 2'', row_email_body = ''body 2'', row_response_text = ''reply 2'', row_session_id = ''s1'', row_classification = Some ''respond'', row_classification_confidence = None, row_timestamp = 102\<rparr>,
          \<lparr>row_user_id = 1, row_email_id = ''m3'', row_sender = ''ops@x'', row_subject = ''Status 3'', row_email_body = ''body 3'', row_response_text = ''reply 3'', row_session_id = ''s1'', row_classification = Some ''respond'', row_classification_confidence = None, row_timestamp = 103\<rparr>],
        summary_table = [\<lparr>summary_user_id = 1, summary_session_id = ''s1'',
            summary_text = new_summary_prompt [(''body 2'', ''reply 2''), (''body 3'', ''reply 3'')] None,
            summary_timestamp = 103\<rparr>], current_timestamp = 103, db_faults = []\<rparr>\<rparr>)"
    by (simp add: update_email_summary_def get_latest_email_pairs_def select_latest_pairs_def
        get_latest_summary_def select_latest_summary_def next_fault_def
        order_by_timestamp_desc_def generate_the_new_summary_def new_summary_prompt_def
        save_summary_to_db_def insert_summary_def)
  show "\<not> py_in ''body 1'' (new_summary_prompt [(''body 2'', ''reply 2''), (''body 3'', ''reply 3'')] None)"
    by (simp add: new_summary_prompt_def)
qed

section \<open>Properties of the generation loop\<close>

lemma persist_answer_manager:
  "w_manager (persist_answer env email um answer w)
     = snd (save_to_sql env (w_manager w) email answer)"
  by (simp add: persist_answer_def split: prod.splits)

lemma save_to_sql_vector_independent:
  "save_to_sql (env\<lparr>env_update_vector_db := f, env_refresh_vector_db_client := g\<rparr>) hm email answer
     = save_to_sql env hm email answer"
  by (simp add: save_to_sql_def split: prod.splits sum.splits)

lemma persist_answer_trace:
  "w_trace (persist_answer env email um answer w) =
     w_trace w
       @ [case fst (save_to_sql env (w_manager w) email answer) of
            None \<Rightarrow> Sql_saved | Some e \<Rightarrow> Sql_error e]
       @ [case fst (save_to_vector env (w_vector_db w) (''email: '' @ um @ '', response: '' @ answer)) of
            None \<Rightarrow> Vector_saved | Some e \<Rightarrow> Vector_error e]
       @ (if fst (save_to_sql env (w_manager w) email answer) \<noteq> None
          then [Warning_sql_not_saved] else [])
       @ (if fst (save_to_vector env (w_vector_db w) (''email: '' @ um @ '', response: '' @ answer)) \<noteq> None
          then [Warning_vector_not_saved] else [])"
  by (simp add: persist_answer_def split: prod.splits)

lemma generate_loop_content:
  assumes "email_state ls \<noteq> ''finished''"
    and "loop_top ls = Inr ls1"
    and "prompt_guard env ls1 = (ls2, request)"
    and "answer \<noteq> []"
  shows "generate_loop env (Inr (Message (Some answer) fc) # replies) email um ls w
          = Some (Final_answer answer,
                  persist_answer env email um answer
                    (w\<lparr>w_trace := w_trace w @ [Chat_request request]\<rparr>))"
  using assms by (simp add: truthy_def get_or_empty_def Let_def)

lemma save_to_vector_raises:
  "env_update_vector_db env m v = Inl e \<Longrightarrow> save_to_vector env v m = (Some e, v)"
  by (simp add: save_to_vector_def)

text \<open>
  C8.  When the model replies with content, the answer is returned whatever the two
  writes do.  The write to the structured store and the write to the vector store are
  independent: the state of the history manager after the generation is the one the
  structured write produced, the same for every behaviour of the vector store; a raise of
  the vector write leaves the vector store as it was, is logged with its own line, and
  the outcome of the structured write is logged with its own line too.
\<close>

theorem vector_failure_keeps_answer_and_sql:
  assumes "email_state ls \<noteq> ''finished''"
    and "loop_top ls = Inr ls1"
    and "prompt_guard env ls1 = (ls2, request)"
    and "answer \<noteq> []"
  shows "\<exists>w'. generate_loop env (Inr (Message (Some answer) fc) # replies) email um ls w
               = Some (Final_answer answer, w')
      \<and> w_manager w' = snd (save_to_sql env (w_manager w) email answer)
      \<and> (\<forall>f g. save_to_sql (env\<lparr>env_update_vector_db := f, env_refresh_vector_db_client := g\<rparr>)
                  (w_manager w) email answer
                = save_to_sql env (w_manager w) email answer)
      \<and> (case fst (save_to_sql env (w_manager w) email answer) of
            None \<Rightarrow> Sql_saved \<in> set (w_trace w')
          | Some e \<Rightarrow> Sql_error e \<in> set (w_trace w') \<and> Warning_sql_not_saved \<in> set (w_trace w'))
      \<and> (case fst (save_to_vector env (w_vector_db w) (''email: '' @ um @ '', response: '' @ answer)) of
            None \<Rightarrow> Vector_saved \<in> set (w_trace w')
          | Some e \<Rightarrow> Vector_error e \<in> set (w_trace w') \<and> Warning_vector_not_saved \<in> set (w_trace w'))
      \<and> (\<forall>e. env_update_vector_db env (''email: '' @ um @ '', response: '' @ answer) (w_vector_db w) = Inl e
            \<longrightarrow> Vector_error e \<in> set (w_trace w') \<and> w_vector_db w' = w_vector_db w)"
proof -
  let ?w1 = "w\<lparr>w_trace := w_trace w @ [Chat_request request]\<rparr>"
  let ?w' = "persist_answer env email um answer ?w1"
  let ?m = "''email: '' @ um @ '', response: '' @ answer"
  have run: "generate_loop env (Inr (Message (Some answer) fc) # replies) email um ls w
               = Some (Final_answer answer, ?w')"
    using assms by (rule generate_loop_content)
  have man: "w_manager ?w' = snd (save_to_sql env (w_manager w) email answer)"
    by (simp add: persist_answer_manager)
  have ind: "\<forall>f g. save_to_sql (env\<lparr>env_update_vector_db := f, env_refresh_vector_db_client := g\<rparr>)
                  (w_manager w) email answer
                = save_to_sql env (w_manager w) email answer"
    by (simp add: save_to_sql_vector_independent)
  have tr: "w_trace ?w' = w_trace ?w1
       @ [case fst (save_to_sql env (w_manager w) email answer) of
            None \<Rightarrow> Sql_saved | Some e \<Rightarrow> Sql_error e]
       @ [case fst (save_to_vector env (w_vector_db w) ?m) of
            None \<Rightarrow> Vector_saved | Some e \<Rightarrow> Vector_error e]
       @ (if fst (save_to_sql env (w_manager w) email answer) \<noteq> None
          then [Warning_sql_not_saved] else [])
       @ (if fst (save_to_vector env (w_vector_db w) ?m) \<noteq> None
          then [Warning_vector_not_saved] else [])"
    using persist_answer_trace [of env email um answer ?w1] by simp
  have sql: "case fst (save_to_sql env (w_manager w) email answer) of
            None \<Rightarrow> Sql_saved \<in> set (w_trace ?w')
          | Some e \<Rightarrow> Sql_error e \<in> set (w_trace ?w') \<and> Warning_sql_not_saved \<in> set (w_trace ?w')"
    unfolding tr by (simp split: option.splits)
  have vec: "case fst (save_to_vector env (w_vector_db w) ?m) of
            None \<Rightarrow> Vector_saved \<in> set (w_trace ?w')
          | Some e \<Rightarrow> Vector_error e \<in> set (w_trace ?w') \<and> Warning_vector_not_saved \<in> set (w_trace ?w')"
    unfolding tr by (simp split: option.splits)
  have down: "\<forall>e. env_update_vector_db env ?m (w_vector_db w) = Inl e
            \<longrightarrow> Vector_error e \<in> set (w_trace ?w') \<and> w_vector_db ?w' = w_vector_db w"
  proof (intro allI impI)
    fix e assume "env_update_vector_db env ?m (w_vector_db w) = Inl e"
    then have sv: "save_to_vector env (w_vector_db w) ?m = (Some e, w_vector_db w)"
      by (rule save_to_vector_raises)
    then have "Vector_error e \<in> set (w_trace ?w')" unfolding tr by simp
    moreover from sv have "w_vector_db ?w' = w_vector_db w"
      by (simp add: persist_answer_def split: prod.splits)
    ultimately show "Vector_error e \<in> set (w_trace ?w') \<and> w_vector_db ?w' = w_vector_db w"
      by blast
  qed
  from run man ind sql vec down show ?thesis by blast
qed

text \<open>
  The same on a whole generation: the vector store is down, the answer is returned and
  the row is in the structured store.
\<close>

lemma generate_response_vector_down:
  "generate_response
     \<lparr>env_str = (\<lambda>v. case v of JStr s \<Rightarrow> s | _ \<Rightarrow> []),
      env_tools = \<lparr>search_vector_db = (\<lambda>a. Inl ''offline''),
                   add_user_info_to_database = (\<lambda>a. Inl ''offline'')\<rparr>,
      env_count_tokens = (\<lambda>t. Inr 0),
      env_count_prompt_tokens = (\<lambda>r. Inr 0),
      env_summary_model = (\<lambda>p k. Inl ''offline''),
      env_history = \<lparr>he_count_history_tokens = (\<lambda>h. Inr 0),
                     he_history_model = (\<lambda>h. Inl ''offline''),
                     he_json_loads = (\<lambda>t. Inr (JObj [(''to'', JStr ''bob@x'')])),
                     he_summary_model = (\<lambda>p. Inl ''offline'')\<rparr>,
      env_repr_history = (\<lambda>h. []),
      env_vector_collection = None,
      env_update_vector_db = (\<lambda>m v. Inl ''vector store down''),
      env_refresh_vector_db_client = (\<lambda>v. Inr v),
      env_max_tokens = 4000, env_max_prompt_tokens = None, env_max_history_pairs = 2\<rparr>
     [Inr (Message (Some ''Friday works.'') None)]
     \<lparr>sender = Some ''bob@x'', subject = Some ''Lunch'', body = Some ''Friday?'',
      email_id = Some ''m1'', stored_classification = Some ''respond'',
      stored_confidence = Some (1 / 2)\<rparr>
     \<lparr>w_manager = \<lparr>hm_user_id = Some 1, hm_session_id = ''s1'', hm_max_tokens = 4000,
                     hm_email_history = [], hm_pairs_since_last_summary = 0,
                     hm_db = \<lparr>email_history_table = [], summary_table = [],
                              current_timestamp = 100, db_faults = []\<rparr>\<rparr>,
      w_vector_db = ([] :: string list),
      w_trace = []\<rparr>
   = Some (Final_answer ''Friday works.'',
     \<lparr>w_manager = \<lparr>hm_user_id = Some 1, hm_session_id = ''s1'', hm_max_tokens = 4000,
                     hm_email_history = [Email_item (\<lparr>sender = Some ''bob@x'', subject = Some ''Lunch'', body = Some ''Friday?'',
      email_id = Some ''m1'', stored_classification = Some ''respond'',
      stored_confidence = Some (1 / 2)\<rparr>),
        Response_item (Some ''Friday works.'')], hm_pairs_since_last_summary = 1,
                     hm_db = \<lparr>email_history_table = [\<lparr>row_user_id = 1, row_email_id = ''m1'', row_sender = ''bob@x'',
            row_subject = ''Lunch'', row_email_body = ''Friday?'',
            row_response_text = ''Friday works.'', row_session_id = ''s1'',
            row_classification = Some ''respond'',
            row_classification_confidence = Some (1 / 2), row_timestamp = 100\<rparr>], summary_table = [],
                              current_timestamp = 100, db_faults = []\<rparr>\<rparr>,
      w_vector_db = [],
      w_trace = [Chat_request \<lparr>req_section = No_section, req_history = Some [], req_vectordb_memory = None, req_functions = True\<rparr>,
         Sql_saved, Vector_error ''vector store down'', Warning_vector_not_saved]\<rparr>)"
  by (simp add: generate_response_def assemble_memory_def get_latest_summary_def
        select_latest_summary_def order_by_timestamp_desc_def next_fault_def load_memory_from_vectordb_def
        deduplicate_memory_def check_token_limit_def format_user_message_def
        initial_loop_state_def loop_top_def prompt_guard_def build_request_def
        truthy_def get_or_empty_def persist_answer_def save_to_sql_def save_to_vector_def
        add_to_history_def trim_history_def save_to_db_def insert_email_history_def
        update_email_summary_def)

theorem vector_failure_keeps_answer_and_sql_witness:
  "email_state (initial_loop_state [] []) \<noteq> ''finished''
   \<and> loop_top (initial_loop_state [] []) = Inr (initial_loop_state [] [])
   \<and> (\<exists>w'. generate_loop
         \<lparr>env_str = (\<lambda>v. case v of JStr s \<Rightarrow> s | _ \<Rightarrow> []),
      env_tools = \<lparr>search_vector_db = (\<lambda>a. Inl ''offline''),
                   add_user_info_to_database = (\<lambda>a. Inl ''offline'')\<rparr>,
      env_count_tokens = (\<lambda>t. Inr 0),
      env_count_prompt_tokens = (\<lambda>r. Inr 0),
      env_summary_model = (\<lambda>p k. Inl ''offline''),
      env_history = \<lparr>he_count_history_tokens = (\<lambda>h. Inr 0),
                     he_history_model = (\<lambda>h. Inl ''offline''),
                     he_json_loads = (\<lambda>t. Inr (JObj [(''to'', JStr ''bob@x'')])),
                     he_summary_model = (\<lambda>p. Inl ''offline'')\<rparr>,
      env_repr_history = (\<lambda>h. []),
      env_vector_collection = None,
      env_update_vector_db = (\<lambda>m (v::string list). Inl ''vector store down''),
      env_refresh_vector_db_client = (\<lambda>v. Inr v),
      env_max_tokens = 4000, env_max_prompt_tokens = None, env_max_history_pairs = 2\<rparr>
         [Inr (Message (Some ''Friday works.'') None)]
         \<lparr>sender = Some ''bob@x'', subject = Some ''Lunch'', body = Some ''Friday?'',
      email_id = Some ''m1'', stored_classification = Some ''respond'',
      stored_confidence = Some (1 / 2)\<rparr>
         ''From: bob@x\<newline>Subject: Lunch\<newline>\<newline>Friday?''
         (initial_loop_state [] [])
         \<lparr>w_manager = \<lparr>hm_user_id = Some 1, hm_session_id = ''s1'', hm_max_tokens = 4000,
                     hm_email_history = [], hm_pairs_since_last_summary = 0,
                     hm_db = \<lparr>email_history_table = [], summary_table = [],
                              current_timestamp = 100, db_faults = []\<rparr>\<rparr>,
      w_vector_db = ([] :: string list),
      w_trace = []\<rparr>
        = Some (Final_answer ''Friday works.'', w')
      \<and> Vector_error ''vector store down'' \<in> set (w_trace w')
      \<and> w_vector_db w' = []
      \<and> email_history_table (hm_db (w_manager w')) =
          [\<lparr>row_user_id = 1, row_email_id = ''m1'', row_sender = ''bob@x'',
            row_subject = ''Lunch'', row_email_body = ''Friday?'',
            row_response_text = ''Friday works.'', row_session_id = ''s1'',
            row_classification = Some ''respond'',
            row_classification_confidence = Some (1 / 2), row_timestamp = 100\<rparr>])"
proof -
  let ?env = "\<lparr>env_str = (\<lambda>v. case v of JStr s \<Rightarrow> s | _ \<Rightarrow> []),
      env_tools = \<lparr>search_vector_db = (\<lambda>a. Inl ''offline''),
                   add_user_info_to_database = (\<lambda>a. Inl ''offline'')\<rparr>,
      env_count_tokens = (\<lambda>t. Inr 0),
      env_count_prompt_tokens = (\<lambda>r. Inr 0),
      env_summary_model = (\<lambda>p k. Inl ''offline''),
      env_history = \<lparr>he_count_history_tokens = (\<lambda>h. Inr 0),
                     he_history_model = (\<lambda>h. Inl ''offline''),
                     he_json_loads = (\<lambda>t. Inr (JObj [(''to'', JStr ''bob@x'')])),
                     he_summary_model = (\<lambda>p. Inl ''offline'')\<rparr>,
      env_repr_history = (\<lambda>h. []),
      env_vector_collection = None,
      env_update_vector_db = (\<lambda>m (v::string list). Inl ''vector store down''),
      env_refresh_vector_db_client = (\<lambda>v. Inr v),
      env_max_tokens = 4000, env_max_prompt_tokens = None, env_max_history_pairs = 2\<rparr>"
  let ?email = "\<lparr>sender = Some ''bob@x'', subject = Some ''Lunch'', body = Some ''Friday?'',
      email_id = Some ''m1'', stored_classification = Some ''respond'',
      stored_confidence = Some (1 / 2)\<rparr>"
  let ?w = "\<lparr>w_manager = \<lparr>hm_user_id = Some 1, hm_session_id = ''s1'', hm_max_tokens = 4000,
                     hm_email_history = [], hm_pairs_since_last_summary = 0,
                     hm_db = \<lparr>email_history_table = [], summary_table = [],
                              current_timestamp = 100, db_faults = []\<rparr>\<rparr>,
      w_vector_db = ([] :: string list),
      w_trace = []\<rparr>"
  let ?ls = "initial_loop_state [] []"
  let ?req = "\<lparr>req_section = No_section, req_history = Some [], req_vectordb_memory = None, req_functions = True\<rparr>"
  have h1: "email_state ?ls \<noteq> ''finished''" by (simp add: initial_loop_state_def)
  have h2: "loop_top ?ls = Inr ?ls" by (simp add: initial_loop_state_def loop_top_def)
  have h3: "prompt_guard ?env ?ls = (?ls, ?req)"
    by (simp add: initial_loop_state_def prompt_guard_def build_request_def)
  have h4: "''Friday works.'' \<noteq> []" by simp
  from vector_failure_keeps_answer_and_sql [OF h1 h2 h3 h4, of None "[]" ?email "''From: bob@x\<newline>Subject: Lunch\<newline>\<newline>Friday?''" ?w]
  obtain w' where run: "generate_loop ?env [Inr (Message (Some ''Friday works.'') None)] ?email
        ''From: bob@x\<newline>Subject: Lunch\<newline>\<newline>Friday?'' ?ls ?w
        = Some (Final_answer ''Friday works.'', w')"
    and man: "w_manager w' = snd (save_to_sql ?env (w_manager ?w) ?email ''Friday works.'')"
    and down: "\<forall>e. env_update_vector_db ?env
           (''email: '' @ ''From: bob@x\<newline>Subject: Lunch\<newline>\<newline>Friday?'' @ '', response: '' @ ''Friday works.'') (w_vector_db ?w) = Inl e
            \<longrightarrow> Vector_error e \<in> set (w_trace w') \<and> w_vector_db w' = w_vector_db ?w"
    by (elim exE conjE) (rule that, assumption+)
  from down [rule_format, of "''vector store down''"]
  have v: "Vector_error ''vector store down'' \<in> set (w_trace w') \<and> w_vector_db w' = []"
    by simp
  have "email_history_table (hm_db (snd (save_to_sql ?env (w_manager ?w) ?email ''Friday works.'')))
      = [\<lparr>row_user_id = 1, row_email_id = ''m1'', row_sender = ''bob@x'',
            row_subject = ''Lunch'', row_email_body = ''Friday?'',
            row_response_text = ''Friday works.'', row_session_id = ''s1'',
            row_classification = Some ''respond'',
            row_classification_confidence = Some (1 / 2), row_timestamp = 100\<rparr>]"
    by (simp add: save_to_sql_def add_to_history_def trim_history_def save_to_db_def
          insert_email_history_def next_fault_def update_email_summary_def get_or_empty_def)
  with man have "email_history_table (hm_db (w_manager w')) =
          [\<lparr>row_user_id = 1, row_email_id = ''m1'', row_sender = ''bob@x'',
            row_subject = ''Lunch'', row_email_body = ''Friday?'',
            row_response_text = ''Friday works.'', row_session_id = ''s1'',
            row_classification = Some ''respond'',
            row_classification_confidence = Some (1 / 2), row_timestamp = 100\<rparr>]" by simp
  with h1 h2 run v show ?thesis by blast
qed

lemma generate_loop_finished:
  "email_state ls = ''finished'' \<Longrightarrow>
   generate_loop env replies email um ls w = Some (No_response_generated, w)"
  by (cases replies) simp_all

text \<open>
  Whenever the loop detection fires, the state becomes \<open>finished\<close> and \<open>continue\<close>
  leaves the \<open>while\<close> loop: the generation ends with the value of line 783, whatever
  replies the model would still give.
\<close>

lemma loop_detection_ends_generation:
  assumes "email_state ls \<noteq> ''finished''"
    and "loop_top ls = Inr ls1"
    and "prompt_guard env ls1 = (ls2, request)"
    and "email_state ls2 \<noteq> ''finished''"
    and "he_json_loads (env_history env) arguments = Inr (JObj items)"
    and "(fname, sort_key fst items) \<in> set (function_call_history ls2)"
  shows "generate_loop env (Inr (Message None (Some (fname, arguments))) # replies) email um ls w
       = Some (No_response_generated,
               w\<lparr>w_trace := w_trace w @ [Chat_request request, Loop_detected fname]\<rparr>)"
proof -
  let ?w1 = "w\<lparr>w_trace := w_trace w @ [Chat_request request]\<rparr>"
  obtain ls3 where rf: "request_function env fname arguments ls2 ?w1 =
      (ls3, ?w1\<lparr>w_trace := w_trace ?w1 @ [Loop_detected fname]\<rparr>)"
    and fin: "email_state ls3 = ''finished''"
    using assms(5,6) by (simp add: request_function_def Let_def)
  from fin have "generate_loop env replies email um ls3
        (?w1\<lparr>w_trace := w_trace ?w1 @ [Loop_detected fname]\<rparr>)
      = Some (No_response_generated, ?w1\<lparr>w_trace := w_trace ?w1 @ [Loop_detected fname]\<rparr>)"
    by (rule generate_loop_finished)
  with assms(1-4) rf show ?thesis
    by (simp add: truthy_def Let_def)
qed

text \<open>
  After a successful call the loop detection is not reached: the state is already
  \<open>finished\<close> when the model repeats the request, and the tool-free completion of
  line 686 gives the answer.
\<close>

lemma repeated_successful_call:
  "generate_response
     \<lparr>env_str = (\<lambda>v. case v of JStr s \<Rightarrow> s | _ \<Rightarrow> []),
      env_tools = \<lparr>search_vector_db = (\<lambda>a. Inl ''offline''),
                   add_user_info_to_database = (\<lambda>a. Inl ''offline'')\<rparr>,
      env_count_tokens = (\<lambda>t. Inr 0),
      env_count_prompt_tokens = (\<lambda>r. Inr 0),
      env_summary_model = (\<lambda>p k. Inl ''offline''),
      env_history = \<lparr>he_count_history_tokens = (\<lambda>h. Inr 0),
                     he_history_model = (\<lambda>h. Inl ''offline''),
                     he_json_loads = (\<lambda>t. if t = ''{\"to\": \"bob@x\"}'' then Inr (JObj [(''to'', JStr ''bob@x'')])
                                          else if t = ''{\"day\": \"Monday\"}'' then Inr (JObj [(''day'', JStr ''Monday'')])
                                          else Inl ''Expecting value''),
                     he_summary_model = (\<lambda>p. Inl ''offline'')\<rparr>,
      env_repr_history = (\<lambda>h. []),
      env_vector_collection = None,
      env_update_vector_db = (\<lambda>m (v::string list). Inr (v @ [m])),
      env_refresh_vector_db_client = (\<lambda>v. Inr v),
      env_max_tokens = 4000, env_max_prompt_tokens = None, env_max_history_pairs = 2\<rparr>
     [Inr (Message None (Some (''check_calendar_availability_tool'', ''{\"day\": \"Monday\"}''))),
      Inr (Message None (Some (''check_calendar_availability_tool'', ''{\"day\": \"Monday\"}''))),
      Inr (Message (Some ''Monday at 2 PM works.'') None)]
     \<lparr>sender = Some ''bob@x'', subject = Some ''Lunch'', body = Some ''Friday?'',
      email_id = Some ''m1'', stored_classification = Some ''respond'',
      stored_confidence = Some (1 / 2)\<rparr>
     \<lparr>w_manager = \<lparr>hm_user_id = Some 1, hm_session_id = ''s1'', hm_max_tokens = 4000,
                     hm_email_history = [], hm_pairs_since_last_summary = 0,
                     hm_db = \<lparr>email_history_table = [], summary_table = [],
                              current_timestamp = 100, db_faults = []\<rparr>\<rparr>,
      w_vector_db = ([] :: string list),
      w_trace = []\<rparr>
   = Some (Fallback_answer (Some ''Monday at 2 PM works.''),
     \<lparr>w_manager = \<lparr>hm_user_id = Some 1, hm_session_id = ''s1'', hm_max_tokens = 4000,
                     hm_email_history = [Email_item (\<lparr>sender = Some ''bob@x'', subject = Some ''Lunch'', body = Some ''Friday?'',
      email_id = Some ''m1'', stored_classification = Some ''respond'',
      stored_confidence = Some (1 / 2)\<rparr>),
        Response_item (Some ''Monday at 2 PM works.'')], hm_pairs_since_last_summary = 1,
                     hm_db = \<lparr>email_history_table = [\<lparr>row_user_id = 1, row_email_id = ''m1'', row_sender = ''bob@x'',
            row_subject = ''Lunch'', row_email_body = ''Friday?'',
            row_response_text = ''Monday at 2 PM works.'', row_session_id = ''s1'',
            row_classification = Some ''respond'',
            row_classification_confidence = Some (1 / 2), row_timestamp = 100\<rparr>], summary_table = [],
                              current_timestamp = 100, db_faults = []\<rparr>\<rparr>,
      w_vector_db = [''email: From: bob@x\<newline>Subject: Lunch\<newline>\<newline>Friday?, response: Monday at 2 PM works.''],
      w_trace = [Chat_request \<lparr>req_section = No_section, req_history = Some [], req_vectordb_memory = None, req_functions = True\<rparr>,
         Tool_executed ''check_calendar_availability_tool'' [(''day'', JStr ''Monday'')],
         Chat_request \<lparr>req_section = Function_executed ''check_calendar_availability_tool'' [(''day'', JStr ''Monday'')] ''Function call successful.'' ''Available times on Monday: 9:00 AM, 2:00 PM, 4:00 PM'',
           req_history = Some [], req_vectordb_memory = None, req_functions = True\<rparr>,
         Chat_request \<lparr>req_section = Function_executed ''check_calendar_availability_tool'' [(''day'', JStr ''Monday'')] ''Function call successful.'' ''Available times on Monday: 9:00 AM, 2:00 PM, 4:00 PM'',
           req_history = Some [], req_vectordb_memory = None, req_functions = False\<rparr>,
         Sql_saved, Vector_saved]\<rparr>)"
  by (simp add: generate_response_def assemble_memory_def get_latest_summary_def
        select_latest_summary_def order_by_timestamp_desc_def next_fault_def load_memory_from_vectordb_def
        deduplicate_memory_def check_token_limit_def format_user_message_def
        initial_loop_state_def loop_top_def section_arguments_def prompt_guard_def build_request_def
        truthy_def get_or_empty_def request_function_def execute_function_call_def
        call_check_calendar_availability_tool_def check_calendar_availability_tool_def
        bind_kwargs_def failure_marker_def success_marker_def
        persist_fallback_def save_to_vector_def
        add_to_history_def trim_history_def save_to_db_def insert_email_history_def)

text \<open>
  C2.  The claim: when the model requests the same tool call twice with the same
  signature, the repeated request is intercepted, a repeat-detection note is folded into
  the prompt, one finishing pass is forced and a final answer in natural language is
  returned.  The model asks twice for \<open>write_email_tool\<close> with only the argument
  \<open>to\<close>; the first call fails (two arguments are missing), the second request is
  intercepted and the tool is not executed again, but no request follows the detection:
  the generation returns the value of line 783, \<open>"Error: Response generation completed
  without generating a response. Please try again."\<close>, and the third reply of the model,
  the answer, is never asked for.
\<close>

theorem repeated_failed_call:
  "generate_response
     \<lparr>env_str = (\<lambda>v. case v of JStr s \<Rightarrow> s | _ \<Rightarrow> []),
      env_tools = \<lparr>search_vector_db = (\<lambda>a. Inl ''offline''),
                   add_user_info_to_database = (\<lambda>a. Inl ''offline'')\<rparr>,
      env_count_tokens = (\<lambda>t. Inr 0),
      env_count_prompt_tokens = (\<lambda>r. Inr 0),
      env_summary_model = (\<lambda>p k. Inl ''offline''),
      env_history = \<lparr>he_count_history_tokens = (\<lambda>h. Inr 0),
                     he_history_model = (\<lambda>h. Inl ''offline''),
                     he_json_loads = (\<lambda>t. if t = ''{\"to\": \"bob@x\"}'' then Inr (JObj [(''to'', JStr ''bob@x'')])
                                          else if t = ''{\"day\": \"Monday\"}'' then Inr (JObj [(''day'', JStr ''Monday'')])
                                          else Inl ''Expecting value''),
                     he_summary_model = (\<lambda>p. Inl ''offline'')\<rparr>,
      env_repr_history = (\<lambda>h. []),
      env_vector_collection = None,
      env_update_vector_db = (\<lambda>m (v::string list). Inr (v @ [m])),
      env_refresh_vector_db_client = (\<lambda>v. Inr v),
      env_max_tokens = 4000, env_max_prompt_tokens = None, env_max_history_pairs = 2\<rparr>
     [Inr (Message None (Some (''write_email_tool'', ''{\"to\": \"bob@x\"}''))),
      Inr (Message None (Some (''write_email_tool'', ''{\"to\": \"bob@x\"}''))),
      Inr (Message (Some ''Dear Bob, Friday works.'') None)]
     \<lparr>sender = Some ''bob@x'', subject = Some ''Lunch'', body = Some ''Friday?'',
      email_id = Some ''m1'', stored_classification = Some ''respond'',
      stored_confidence = Some (1 / 2)\<rparr>
     \<lparr>w_manager = \<lparr>hm_user_id = Some 1, hm_session_id = ''s1'', hm_max_tokens = 4000,
                     hm_email_history = [], hm_pairs_since_last_summary = 0,
                     hm_db = \<lparr>email_history_table = [], summary_table = [],
                              current_timestamp = 100, db_faults = []\<rparr>\<rparr>,
      w_vector_db = ([] :: string list),
      w_trace = []\<rparr>
   = Some (No_response_generated,
     \<lparr>w_manager = \<lparr>hm_user_id = Some 1, hm_session_id = ''s1'', hm_max_tokens = 4000,
                     hm_email_history = [], hm_pairs_since_last_summary = 0,
                     hm_db = \<lparr>email_history_table = [], summary_table = [],
                              current_timestamp = 100, db_faults = []\<rparr>\<rparr>,
      w_vector_db = [],
      w_trace = [Chat_request \<lparr>req_section = No_section, req_history = Some [], req_vectordb_memory = None, req_functions = True\<rparr>,
         Tool_executed ''write_email_tool'' [(''to'', JStr ''bob@x'')],
         Chat_request \<lparr>req_section = Function_attempted ''write_email_tool'' [(''to'', JStr ''bob@x'')] ''Function call failed.'' ''Error writing email: EmailTools.write_email_tool() missing required positional arguments'',
           req_history = Some [], req_vectordb_memory = None, req_functions = True\<rparr>,
         Loop_detected ''write_email_tool'']\<rparr>)"
  by (simp add: generate_response_def assemble_memory_def get_latest_summary_def
        select_latest_summary_def order_by_timestamp_desc_def next_fault_def load_memory_from_vectordb_def
        deduplicate_memory_def check_token_limit_def format_user_message_def
        initial_loop_state_def loop_top_def section_arguments_def prompt_guard_def build_request_def
        truthy_def get_or_empty_def request_function_def execute_function_call_def
        call_write_email_tool_def bind_kwargs_def failure_marker_def success_marker_def)

section \<open>Properties of memory deduplication\<close>

lemma sublist_ConsI:
  assumes "sublist a xs"
  shows "sublist a (x # xs)"
proof -
  from assms obtain ps ss where "xs = ps @ a @ ss" by (auto simp: sublist_def)
  then have "x # xs = (x # ps) @ a @ ss" by simp
  then show ?thesis unfolding sublist_def by blast
qed

lemma not_sublist_tail: "\<not> sublist sep (x # xs) \<Longrightarrow> \<not> sublist sep xs"
proof
  assume a: "\<not> sublist sep (x # xs)" and b: "sublist sep xs"
  from b have "sublist sep (x # xs)" by (rule sublist_ConsI)
  with a show False by (rule notE)
qed

lemma not_sublist_prefix: "\<not> sublist sep s \<Longrightarrow> \<not> prefix sep s"
proof
  assume a: "\<not> sublist sep s" and b: "prefix sep s"
  from b have "sublist sep s" by (rule prefix_imp_sublist)
  with a show False by (rule notE)
qed

lemma py_split_aux_else:
  "\<not> prefix sep (x # xs) \<Longrightarrow> py_split_aux sep acc (x # xs) = py_split_aux sep (x # acc) xs"
  by simp

lemma py_split_aux_at_separator:
  assumes "sep \<noteq> []"
  shows "py_split_aux sep acc (sep @ t) = rev acc # py_split_aux sep [] t"
proof -
  from assms obtain a l where al: "sep @ t = a # l" by (cases sep) auto
  have "prefix sep (sep @ t)" by simp
  with al have "prefix sep (a # l)" by simp
  with assms have "py_split_aux sep acc (a # l)
      = rev acc # py_split_aux sep [] (drop (length sep) (a # l))" by simp
  moreover have "drop (length sep) (sep @ t) = t" by simp
  ultimately show ?thesis using al by simp
qed

lemma py_split_aux_no_occurrence:
  "\<not> sublist sep s \<Longrightarrow> py_split_aux sep acc s = [rev acc @ s]"
proof (induction s arbitrary: acc)
  case Nil
  show ?case by simp
next
  case (Cons x xs)
  from Cons.prems have np: "\<not> prefix sep (x # xs)" by (rule not_sublist_prefix)
  from Cons.prems have ns: "\<not> sublist sep xs" by (rule not_sublist_tail)
  have "py_split_aux sep acc (x # xs) = py_split_aux sep (x # acc) xs"
    using np by (rule py_split_aux_else)
  also have "\<dots> = [rev (x # acc) @ xs]" using ns by (rule Cons.IH)
  finally show ?case by simp
qed

lemma prefix_before_newline:
  assumes "c \<notin> set m" and "prefix m (u @ c # r)"
  shows "prefix m u"
proof -
  from assms(2) have "prefix m u \<or> (\<exists>w. m = u @ w \<and> prefix w (c # r))"
    by (simp add: prefix_append)
  then show ?thesis
  proof
    assume "prefix m u" then show ?thesis .
  next
    assume "\<exists>w. m = u @ w \<and> prefix w (c # r)"
    then obtain w where m: "m = u @ w" and w: "prefix w (c # r)" by blast
    from w have "w = [] \<or> (\<exists>w'. w = c # w')" by (cases w) auto
    with m assms(1) show ?thesis by auto
  qed
qed

lemma py_split_aux_section:
  assumes "c \<notin> set sep" and "sep \<noteq> []" and "\<not> sublist sep s"
  shows "py_split_aux sep acc (s @ c # sep @ t) = (rev acc @ s @ [c]) # py_split_aux sep [] t"
  using assms(3)
proof (induction s arbitrary: acc)
  case Nil
  have "\<not> prefix sep (c # sep @ t)"
  proof
    assume "prefix sep (c # sep @ t)"
    then have "prefix sep ([] @ c # sep @ t)" by simp
    with assms(1) have "prefix sep []" by (rule prefix_before_newline)
    with assms(2) show False by simp
  qed
  then have "py_split_aux sep acc (c # sep @ t) = py_split_aux sep (c # acc) (sep @ t)"
    by (rule py_split_aux_else)
  also have "\<dots> = rev (c # acc) # py_split_aux sep [] t"
    using assms(2) by (rule py_split_aux_at_separator)
  finally show ?case by simp
next
  case (Cons x xs)
  have np: "\<not> prefix sep (x # xs @ c # sep @ t)"
  proof
    assume "prefix sep (x # xs @ c # sep @ t)"
    then have "prefix sep ((x # xs) @ c # sep @ t)" by simp
    with assms(1) have "prefix sep (x # xs)" by (rule prefix_before_newline)
    moreover from Cons.prems have "\<not> prefix sep (x # xs)" by (rule not_sublist_prefix)
    ultimately show False by (rule notE [rotated])
  qed
  from Cons.prems have ns: "\<not> sublist sep xs" by (rule not_sublist_tail)
  have "py_split_aux sep acc ((x # xs) @ c # sep @ t)
      = py_split_aux sep (x # acc) (xs @ c # sep @ t)"
    using py_split_aux_else [OF np, of acc] by simp
  also have "\<dots> = (rev (x # acc) @ xs @ [c]) # py_split_aux sep [] t"
    using ns by (rule Cons.IH)
  finally show ?case by simp
qed

lemma sublist_drop_prefix:
  "sublist xs ys \<longleftrightarrow> (\<exists>i. prefix xs (drop i ys))"
proof
  assume "sublist xs ys"
  then obtain ps ss where "ys = ps @ xs @ ss" by (auto simp: sublist_def)
  then have "prefix xs (drop (length ps) ys)" by simp
  then show "\<exists>i. prefix xs (drop i ys)" by blast
next
  assume "\<exists>i. prefix xs (drop i ys)"
  then obtain i zs where "drop i ys = xs @ zs" by (auto simp: prefix_def)
  then have "ys = take i ys @ xs @ zs" by (metis append_take_drop_id)
  then show "sublist xs ys" by (auto simp: sublist_def)
qed

lemma py_split_aux_pieces_free:
  assumes "sep \<noteq> []"
    and "\<forall>i<length acc. \<not> prefix sep (drop i (rev acc @ s))"
    and "p \<in> set (py_split_aux sep acc s)"
  shows "\<not> sublist sep p"
  using assms
proof (induction sep acc s rule: py_split_aux.induct)
  case (1 sep acc)
  then have p: "p = rev acc" by simp
  show ?case
  proof
    assume "sublist sep p"
    then have "\<exists>i. prefix sep (drop i p)" by (simp only: sublist_drop_prefix)
    then obtain i where i: "prefix sep (drop i (rev acc))" using p by auto
    with 1(1) have "i < length acc" by (cases "i < length acc") auto
    with 1(2) i show False by simp
  qed
next
  case (2 sep acc x xs)
  note sep = 2(3)
  note free = 2(4)
  note pin0 = 2(5)
  show ?case
  proof (cases "sep \<noteq> [] \<and> prefix sep (x # xs)")
    case True
    with pin0 have "p = rev acc \<or> p \<in> set (py_split_aux sep [] (drop (length sep) (x # xs)))"
      by simp
    then show ?thesis
    proof
      assume p: "p = rev acc"
      show ?thesis
      proof
        assume "sublist sep p"
        then have "\<exists>i. prefix sep (drop i p)" by (simp only: sublist_drop_prefix)
        then obtain i where i: "prefix sep (drop i (rev acc))" using p by auto
        with True have il: "i < length acc" by (cases "i < length acc") auto
        from i have "prefix sep (drop i (rev acc) @ x # xs)" using prefix_prefix by blast
        with il have "prefix sep (drop i (rev acc @ x # xs))" by simp
        with free il show False by blast
      qed
    next
      assume "p \<in> set (py_split_aux sep [] (drop (length sep) (x # xs)))"
      with 2(1) [OF True sep] show ?thesis by simp
    qed
  next
    case False
    with pin0 have pin: "p \<in> set (py_split_aux sep (x # acc) xs)" by simp
    have "\<forall>i<length (x # acc). \<not> prefix sep (drop i (rev (x # acc) @ xs))"
    proof (intro allI impI)
      fix i assume "i < length (x # acc)"
      then have "i < length acc \<or> i = length acc" by auto
      then show "\<not> prefix sep (drop i (rev (x # acc) @ xs))"
      proof
        assume "i < length acc"
        with free show ?thesis by simp
      next
        assume "i = length acc"
        with False sep show ?thesis by simp
      qed
    qed
    with 2(2) [OF False sep] pin show ?thesis by blast
  qed
qed

lemma py_split_pieces_free:
  "sep \<noteq> [] \<Longrightarrow> p \<in> set (py_split sep s) \<Longrightarrow> \<not> sublist sep p"
  unfolding py_split_def using py_split_aux_pieces_free [of sep "[]" s p] by simp

lemma py_split_aux_chars:
  "p \<in> set (py_split_aux sep acc s) \<Longrightarrow> set p \<subseteq> set acc \<union> set s"
proof (induction sep acc s rule: py_split_aux.induct)
  case (1 sep acc)
  then show ?case by simp
next
  case (2 sep acc x xs)
  show ?case
  proof (cases "sep \<noteq> [] \<and> prefix sep (x # xs)")
    case True
    with 2(3) have "p = rev acc \<or> p \<in> set (py_split_aux sep [] (drop (length sep) (x # xs)))"
      by simp
    then show ?thesis
    proof
      assume "p = rev acc" then show ?thesis by auto
    next
      assume "p \<in> set (py_split_aux sep [] (drop (length sep) (x # xs)))"
      with 2(1) [OF True] have "set p \<subseteq> set (drop (length sep) (x # xs))" by simp
      moreover have "set (drop (length sep) (x # xs)) \<subseteq> set (x # xs)" by (rule set_drop_subset)
      ultimately show ?thesis by blast
    qed
  next
    case False
    with 2(3) have "p \<in> set (py_split_aux sep (x # acc) xs)" by simp
    with 2(2) [OF False] show ?thesis by auto
  qed
qed

lemma py_split_chars: "p \<in> set (py_split sep s) \<Longrightarrow> set p \<subseteq> set s"
  unfolding py_split_def using py_split_aux_chars [of p sep "[]" s] by simp

lemma py_split_lines_free:
  assumes "p \<in> set (py_split [c] s)"
  shows "c \<notin> set p"
proof
  assume "c \<in> set p"
  then obtain a b where "p = a @ [c] @ b" by (metis append_Cons append_Nil split_list)
  then have "sublist [c] p" unfolding sublist_def by blast
  moreover have "\<not> sublist [c] p" using _ assms by (rule py_split_pieces_free) simp
  ultimately show False by (rule notE [rotated])
qed

lemma py_split_aux_trailing:
  "py_split_aux [c] acc (s @ [c]) = py_split_aux [c] acc s @ [[]]"
  by (induction s arbitrary: acc) auto

lemma py_split_trailing: "py_split [c] (s @ [c]) = py_split [c] s @ [[]]"
  by (simp add: py_split_def py_split_aux_trailing)

lemma py_in_before_newline:
  "c \<notin> set v \<Longrightarrow> py_in v (t @ [c]) = py_in v t"
proof (induction t)
  case Nil
  then show ?case by (cases v) auto
next
  case (Cons x t)
  have "prefix v (x # t @ [c]) = prefix v (x # t)"
  proof
    assume "prefix v (x # t @ [c])"
    then have "prefix v ((x # t) @ c # [])" by simp
    with Cons.prems show "prefix v (x # t)" by (rule prefix_before_newline)
  next
    assume "prefix v (x # t)"
    then have "prefix v ((x # t) @ [c])" using prefix_prefix by blast
    then show "prefix v (x # t @ [c])" by simp
  qed
  with Cons show ?case by simp
qed

lemma lower_char_newline: "lower_char (CHR 0x0A) = CHR 0x0A"
  by (simp add: lower_char_def)

lemma py_lower_append_newline: "py_lower (s @ ''\<newline>'') = py_lower s @ ''\<newline>''"
  by (simp add: py_lower_def lower_char_newline)

lemma lower_char_not_newline:
  "c \<noteq> CHR 0x0A \<Longrightarrow> lower_char c \<noteq> CHR 0x0A"
  by (simp add: lower_char_def)

lemma py_lower_newline_free:
  "CHR 0x0A \<notin> set s \<Longrightarrow> CHR 0x0A \<notin> set (py_lower s)"
proof (induction s)
  case Nil
  show ?case by (simp add: py_lower_def)
next
  case (Cons a s)
  then have "a \<noteq> CHR 0x0A" and ih: "CHR 0x0A \<notin> set (py_lower s)" by auto
  then have "lower_char a \<noteq> CHR 0x0A" by (simp add: lower_char_not_newline)
  with ih show ?case by (simp add: py_lower_def)
qed

lemma set_py_strip: "set (py_strip s) \<subseteq> set s"
proof
  fix c assume "c \<in> set (py_strip s)"
  then have "c \<in> set (dropWhile is_space (rev (dropWhile is_space s)))"
    by (simp add: py_strip_def)
  then have "c \<in> set (rev (dropWhile is_space s))" by (rule set_dropWhileD)
  then have "c \<in> set (dropWhile is_space s)" by simp
  then show "c \<in> set s" by (rule set_dropWhileD)
qed

lemma dropWhile_nonempty: "dropWhile P xs \<noteq> [] \<longleftrightarrow> (\<exists>x\<in>set xs. \<not> P x)"
  by (simp add: dropWhile_eq_Nil_conv)

lemma py_strip_nonempty: "py_strip s \<noteq> [] \<longleftrightarrow> (\<exists>c\<in>set s. \<not> is_space c)"
proof
  assume "py_strip s \<noteq> []"
  then obtain c where "c \<in> set (py_strip s)" by (cases "py_strip s") auto
  moreover have "\<exists>c\<in>set (py_strip s). \<not> is_space c"
  proof -
    from \<open>py_strip s \<noteq> []\<close> have "dropWhile is_space (rev (dropWhile is_space s)) \<noteq> []"
      by (simp add: py_strip_def)
    then have "\<not> is_space (hd (dropWhile is_space (rev (dropWhile is_space s))))"
      by (rule hd_dropWhile)
    moreover from \<open>dropWhile is_space (rev (dropWhile is_space s)) \<noteq> []\<close>
    have "hd (dropWhile is_space (rev (dropWhile is_space s))) \<in> set (py_strip s)"
      by (simp add: py_strip_def)
    ultimately show ?thesis by blast
  qed
  then show "\<exists>c\<in>set s. \<not> is_space c" using set_py_strip by blast
next
  assume "\<exists>c\<in>set s. \<not> is_space c"
  then have a: "dropWhile is_space s \<noteq> []" by (simp add: dropWhile_nonempty)
  then have "\<not> is_space (hd (dropWhile is_space s))" by (rule hd_dropWhile)
  moreover from a have "hd (dropWhile is_space s) \<in> set (rev (dropWhile is_space s))" by simp
  ultimately have "\<exists>c\<in>set (rev (dropWhile is_space s)). \<not> is_space c" by blast
  then have "dropWhile is_space (rev (dropWhile is_space s)) \<noteq> []"
    by (simp only: dropWhile_nonempty)
  then show "py_strip s \<noteq> []" by (simp add: py_strip_def)
qed

lemma py_strip_append_newline: "py_strip s \<noteq> [] \<Longrightarrow> py_strip (s @ ''\<newline>'') \<noteq> []"
  by (auto simp: py_strip_nonempty)

lemma py_join_Cons: "ys \<noteq> [] \<Longrightarrow> py_join sep (x # ys) = x @ sep @ py_join sep ys"
  by (cases ys) simp_all

lemma py_join_starts:
  "ss \<noteq> [] \<Longrightarrow> \<exists>t. py_join sep (map ((@) m) ss) = m @ t"
proof (cases ss)
  case Nil
  assume "ss \<noteq> []" with Nil show ?thesis by simp
next
  case (Cons s rest)
  show ?thesis
  proof (cases rest)
    case Nil
    with Cons show ?thesis by simp
  next
    case (Cons s' r)
    with \<open>ss = s # rest\<close> show ?thesis by simp
  qed
qed

lemma py_split_joined_sections:
  assumes "c \<notin> set m" and "m \<noteq> []" and "ss \<noteq> []" and "\<forall>s\<in>set ss. \<not> sublist m s"
  shows "py_split m (py_join [c] (map ((@) m) ss))
       = [] # map (\<lambda>s. s @ [c]) (butlast ss) @ [last ss]"
  using assms(3,4)
proof (induction ss)
  case Nil
  then show ?case by simp
next
  case (Cons s rest)
  from Cons.prems have free: "\<not> sublist m s" by simp
  show ?case
  proof (cases "rest = []")
    case True
    have "py_split_aux m [] (m @ s) = [] # py_split_aux m [] s"
      using assms(2) py_split_aux_at_separator [of m "[]" s] by simp
    also have "py_split_aux m [] s = [s]"
      using free py_split_aux_no_occurrence [of m s "[]"] by simp
    finally show ?thesis using True by (simp add: py_split_def)
  next
    case False
    then obtain t where t: "py_join [c] (map ((@) m) rest) = m @ t"
      using py_join_starts [of rest "[c]" m] by blast
    from False Cons.prems have ih: "py_split m (py_join [c] (map ((@) m) rest))
       = [] # map (\<lambda>s. s @ [c]) (butlast rest) @ [last rest]"
      using Cons.IH by simp
    have "py_split_aux m [] (m @ t) = [] # py_split_aux m [] t"
      using assms(2) py_split_aux_at_separator [of m "[]" t] by simp
    with ih t have x: "py_split_aux m [] t = map (\<lambda>s. s @ [c]) (butlast rest) @ [last rest]"
      by (simp add: py_split_def)
    from False have "py_join [c] (map ((@) m) (s # rest)) = (m @ s) @ [c] @ py_join [c] (map ((@) m) rest)"
      using py_join_Cons [of "map ((@) m) rest" "[c]" "m @ s"] by simp
    with t have j: "py_join [c] (map ((@) m) (s # rest)) = m @ (s @ c # m @ t)" by simp
    have "py_split_aux m [] (m @ (s @ c # m @ t)) = [] # py_split_aux m [] (s @ c # m @ t)"
      using assms(2) py_split_aux_at_separator [of m "[]" "s @ c # m @ t"] by simp
    also have "py_split_aux m [] (s @ c # m @ t) = (s @ [c]) # py_split_aux m [] t"
      using py_split_aux_section [OF assms(1) assms(2) free, of "[]" t] by simp
    finally have "py_split m (py_join [c] (map ((@) m) (s # rest)))
        = [] # (s @ [c]) # map (\<lambda>s. s @ [c]) (butlast rest) @ [last rest]"
      using j x by (simp add: py_split_def)
    with False show ?thesis by simp
  qed
qed

lemma py_join_extended_sections:
  assumes "ss \<noteq> []"
  shows "py_join [c] (map ((@) m) (map (\<lambda>s. s @ [c]) (butlast ss) @ [last ss]))
       = py_join [c, c] (map ((@) m) ss)"
  using assms
proof (induction ss)
  case Nil
  then show ?case by simp
next
  case (Cons s rest)
  show ?case
  proof (cases "rest = []")
    case True
    then show ?thesis by simp
  next
    case False
    let ?l = "map ((@) m) (map (\<lambda>s. s @ [c]) (butlast rest) @ [last rest])"
    have ne: "?l \<noteq> []" by simp
    from False have "py_join [c] (map ((@) m) (map (\<lambda>s. s @ [c]) (butlast (s # rest)) @ [last (s # rest)]))
        = py_join [c] ((m @ s @ [c]) # ?l)" by simp
    also have "\<dots> = (m @ s @ [c]) @ [c] @ py_join [c] ?l"
      using ne by (rule py_join_Cons)
    also have "py_join [c] ?l = py_join [c, c] (map ((@) m) rest)"
      using False by (rule Cons.IH)
    finally have "py_join [c] (map ((@) m) (map (\<lambda>s. s @ [c]) (butlast (s # rest)) @ [last (s # rest)]))
        = (m @ s) @ [c, c] @ py_join [c, c] (map ((@) m) rest)" by simp
    moreover from False have "py_join [c, c] (map ((@) m) (s # rest))
        = (m @ s) @ [c, c] @ py_join [c, c] (map ((@) m) rest)"
      using py_join_Cons [of "map ((@) m) rest" "[c, c]" "m @ s"] by simp
    ultimately show ?thesis by simp
  qed
qed

lemma field_after_newline_free:
  assumes "field_after marker line = Some v"
  shows "CHR 0x0A \<notin> set v"
proof -
  from assms obtain a piece rest first rest' where
    "py_split marker line = a # piece # rest"
    and first: "py_split ''\<newline>'' piece = first # rest'"
    and v: "v = py_strip first"
    by (auto simp: field_after_def split: list.splits)
  from first have "first \<in> set (py_split [CHR 0x0A] piece)" by simp
  then have "CHR 0x0A \<notin> set first" by (rule py_split_lines_free)
  with set_py_strip [of first] v show ?thesis by auto
qed

lemma scan_subject_newline_free:
  "newline_free_scan st \<Longrightarrow> newline_free_scan (scan_subject line st)"
  by (auto simp: scan_subject_def newline_free_scan_def py_lower_newline_free
           dest: field_after_newline_free split: option.splits)

lemma scan_sender_newline_free:
  "newline_free_scan st \<Longrightarrow> newline_free_scan (scan_sender line st)"
  by (auto simp: scan_sender_def newline_free_scan_def py_lower_newline_free Let_def
           dest: field_after_newline_free split: option.splits)

lemma scan_email_prefix_newline_free:
  "newline_free_scan st \<Longrightarrow> newline_free_scan (scan_email_prefix line st)"
  by (auto simp: scan_email_prefix_def newline_free_scan_def split: option.splits)

lemma scan_line_newline_free:
  "newline_free_scan st \<Longrightarrow> newline_free_scan (scan_line st line)"
  unfolding scan_line_def
  by (intro scan_email_prefix_newline_free scan_sender_newline_free scan_subject_newline_free)

lemma foldl_scan_line_newline_free:
  "newline_free_scan st \<Longrightarrow> newline_free_scan (foldl scan_line st ls)"
  by (induction ls arbitrary: st) (simp_all add: scan_line_newline_free)

lemma scan_sql_history_newline_free: "newline_free_scan (scan_sql_history h)"
  unfolding scan_sql_history_def
  by (rule foldl_scan_line_newline_free) (simp add: newline_free_scan_def)

lemma identifier_matches_append_newline:
  assumes "CHR 0x0A \<notin> set i"
  shows "identifier_matches (py_lower (s @ ''\<newline>'')) i = identifier_matches (py_lower s) i"
proof (cases "py_split '':'' i")
  case Nil
  then show ?thesis by (simp add: identifier_matches_def)
next
  case (Cons a rest)
  show ?thesis
  proof (cases rest)
    case Nil
    with Cons show ?thesis by (simp add: identifier_matches_def)
  next
    case (Cons v rest')
    with \<open>py_split '':'' i = a # rest\<close> have split: "py_split '':'' i = a # v # rest'" by simp
    then have "v \<in> set (py_split '':'' i)" by simp
    then have "set v \<subseteq> set i" by (rule py_split_chars)
    with assms have "CHR 0x0A \<notin> set v" by auto
    then have "py_in v (py_lower s @ [CHR 0x0A]) = py_in v (py_lower s)"
      by (rule py_in_before_newline)
    with split show ?thesis by (simp add: identifier_matches_def py_lower_append_newline)
  qed
qed

lemma section_line_empty: "section_line st [] = st"
  by (simp add: section_line_def py_lower_def)

lemma section_fields_append_newline: "section_fields (s @ ''\<newline>'') = section_fields s"
  by (simp add: section_fields_def py_split_trailing section_line_empty)

lemma is_duplicate_append_newline:
  assumes "newline_free_scan scan"
  shows "is_duplicate scan (s @ ''\<newline>'') = is_duplicate scan s"
proof -
  have ids: "list_ex (identifier_matches (py_lower (s @ ''\<newline>''))) (sql_identifiers scan)
           = list_ex (identifier_matches (py_lower s)) (sql_identifiers scan)"
    using assms
    by (auto simp: list_ex_iff newline_free_scan_def list_all_iff identifier_matches_append_newline)
  have cur: "(case (current_subject scan, current_sender scan) of
                (Some a, Some f) \<Rightarrow> py_in a (py_lower (s @ ''\<newline>'')) \<and> py_in f (py_lower (s @ ''\<newline>''))
              | _ \<Rightarrow> False)
           = (case (current_subject scan, current_sender scan) of
                (Some a, Some f) \<Rightarrow> py_in a (py_lower s) \<and> py_in f (py_lower s)
              | _ \<Rightarrow> False)"
    using assms
    by (auto simp: newline_free_scan_def py_lower_append_newline py_in_before_newline
             split: option.splits)
  show ?thesis
    by (simp only: is_duplicate_def Let_def section_fields_append_newline ids cur)
qed

lemma is_space_newline: "is_space (CHR 0x0A)"
  by (simp add: is_space_def)

lemma py_strip_append_newline_iff: "(py_strip (s @ ''\<newline>'') \<noteq> []) = (py_strip s \<noteq> [])"
  by (auto simp: py_strip_nonempty is_space_newline)

lemma length_py_join:
  "length (py_join sep xs) = sum_list (map length xs) + (length xs - 1) * length sep"
  by (induction sep xs rule: py_join.induct) simp_all

lemma filtered_sections_second_pass:
  assumes inv: "newline_free_scan scan" and ne: "filtered_sections scan r \<noteq> []"
  shows "filtered_sections scan (py_join ''\<newline>'' (filtered_sections scan r))
       = map (\<lambda>s. s @ ''\<newline>'') (butlast (filtered_sections scan r))
         @ [last (filtered_sections scan r)]"
proof -
  define P where "P = (\<lambda>section. py_strip section \<noteq> [] \<and> \<not> is_duplicate scan section)"
  define m where "m = ''Relevant Past Email''"
  define ss where "ss = filter P (py_split m r)"
  have fs: "\<And>x. filtered_sections scan x = map ((@) m) (filter P (py_split m x))"
    by (simp add: filtered_sections_def P_def m_def)
  have m: "m \<noteq> []" "CHR 0x0A \<notin> set m" by (simp_all add: m_def)
  from ne have ss: "ss \<noteq> []" by (simp add: fs ss_def)
  have free: "\<forall>s\<in>set ss. \<not> sublist m s"
    using py_split_pieces_free [OF m(1)] by (auto simp: ss_def)
  have Pss: "\<forall>s\<in>set ss. P s" by (simp add: ss_def)
  have Pnl: "\<And>s. P (s @ ''\<newline>'') = P s"
    by (simp add: P_def py_strip_append_newline_iff is_duplicate_append_newline [OF inv])
  have nP: "\<not> P []" by (simp add: P_def py_strip_def)
  have split: "py_split m (py_join [CHR 0x0A] (map ((@) m) ss))
      = [] # map (\<lambda>s. s @ [CHR 0x0A]) (butlast ss) @ [last ss]"
    using m(2) m(1) ss free by (rule py_split_joined_sections)
  have "set (butlast ss) \<subseteq> set ss" by (auto dest: in_set_butlastD)
  with Pss have a: "filter P (map (\<lambda>s. s @ [CHR 0x0A]) (butlast ss))
      = map (\<lambda>s. s @ [CHR 0x0A]) (butlast ss)"
    by (auto simp: filter_id_conv Pnl)
  from ss Pss have b: "P (last ss)" by simp
  have "filter P ([] # map (\<lambda>s. s @ [CHR 0x0A]) (butlast ss) @ [last ss])
      = map (\<lambda>s. s @ [CHR 0x0A]) (butlast ss) @ [last ss]"
    using nP a b by simp
  with split have "filtered_sections scan (py_join [CHR 0x0A] (map ((@) m) ss))
      = map ((@) m) (map (\<lambda>s. s @ [CHR 0x0A]) (butlast ss) @ [last ss])"
    by (simp only: fs)
  also have "\<dots> = map (\<lambda>s. s @ [CHR 0x0A]) (butlast (map ((@) m) ss)) @ [last (map ((@) m) ss)]"
    using ss by (simp add: map_butlast last_map comp_def)
  finally show ?thesis by (simp only: fs [of r] ss_def [symmetric])
qed

lemma py_join_second_pass:
  assumes "K \<noteq> []"
  shows "py_join ''\<newline>'' (map (\<lambda>s. s @ ''\<newline>'') (butlast K) @ [last K]) = py_join ''\<newline>\<newline>'' K"
proof -
  have "(@) ([] :: string) = (\<lambda>s. s)" by (rule ext) simp
  with py_join_extended_sections [OF assms, of "CHR 0x0A" "[]"] show ?thesis
    by (simp add: comp_def)
qed

lemma first_pass_not_blank:
  assumes "filtered_sections scan r \<noteq> []"
  shows "py_join sep (filtered_sections scan r) \<noteq> []
       \<and> py_strip (py_join sep (filtered_sections scan r)) \<noteq> []"
proof -
  have fs: "filtered_sections scan r = map ((@) ''Relevant Past Email'')
      (filter (\<lambda>section. py_strip section \<noteq> [] \<and> \<not> is_duplicate scan section)
          (py_split ''Relevant Past Email'' r))"
    by (simp add: filtered_sections_def)
  from assms obtain t where "py_join sep (filtered_sections scan r) = ''Relevant Past Email'' @ t"
    unfolding fs using py_join_starts by (metis (no_types, lifting) map_is_Nil_conv)
  then have "CHR ''R'' \<in> set (py_join sep (filtered_sections scan r))" by simp
  moreover have "\<not> is_space (CHR ''R'')" by (simp add: is_space_def)
  ultimately have "py_strip (py_join sep (filtered_sections scan r)) \<noteq> []"
    unfolding py_strip_nonempty by blast
  then show ?thesis by (auto simp: py_strip_def)
qed

lemma deduplicate_memory_no_recall:
  "r = [] \<or> py_strip r = [] \<Longrightarrow> deduplicate_memory h r = (h, [])"
  by (simp add: deduplicate_memory_def)

lemma deduplicate_memory_no_history:
  "\<not> (r = [] \<or> py_strip r = []) \<Longrightarrow> h = [] \<or> py_strip h = [] \<Longrightarrow> deduplicate_memory h r = ([], r)"
  by (simp add: deduplicate_memory_def)

lemma deduplicate_memory_filtered:
  "\<not> (r = [] \<or> py_strip r = []) \<Longrightarrow> \<not> (h = [] \<or> py_strip h = []) \<Longrightarrow>
   deduplicate_memory h r = (h, py_join ''\<newline>'' (filtered_sections (scan_sql_history h) r))"
  by (simp add: deduplicate_memory_def Let_def)

lemma filtered_sections_empty: "filtered_sections scan [] = []"
  by (simp add: filtered_sections_def py_split_def py_strip_def)

lemma py_join_lengths_differ:
  assumes "2 \<le> length K"
  shows "py_join ''\<newline>\<newline>'' K \<noteq> py_join ''\<newline>'' K"
proof
  assume "py_join ''\<newline>\<newline>'' K = py_join ''\<newline>'' K"
  then have "length (py_join ''\<newline>\<newline>'' K) = length (py_join ''\<newline>'' K)" by simp
  with assms show False by (simp add: length_py_join)
qed

lemma py_join_single: "length K \<le> 1 \<Longrightarrow> py_join sep' K = py_join sep K"
proof (cases K)
  case Nil
  then show ?thesis by simp
next
  case (Cons a rest)
  assume "length K \<le> 1"
  with Cons have "rest = []" by simp
  with Cons show ?thesis by simp
qed

text \<open>
  C5.  The claim: for every history and recall, applying the deduplication a second
  time, to the history and the filtered recall of the first application, yields the
  same filtered recall as the first application.  The kept sections are joined with a
  line break and the second pass splits on the section marker only, so every kept
  section but the last comes back with one more line break at its end: with two
  sections kept, neither the returned text nor the kept sections of the second pass
  are those of the first.
\<close>

theorem second_pass_changes_the_recall:
  "deduplicate_memory ''From: ops@x\<newline>Subject: Status Update''
     ''Relevant Past Email 1:\<newline>lunch\<newline>\<newline>Relevant Past Email 2:\<newline>budget\<newline>''
   = (''From: ops@x\<newline>Subject: Status Update'',
      ''Relevant Past Email 1:\<newline>lunch\<newline>\<newline>\<newline>Relevant Past Email 2:\<newline>budget\<newline>'')
   \<and> deduplicate_memory ''From: ops@x\<newline>Subject: Status Update''
     ''Relevant Past Email 1:\<newline>lunch\<newline>\<newline>\<newline>Relevant Past Email 2:\<newline>budget\<newline>''
   = (''From: ops@x\<newline>Subject: Status Update'',
      ''Relevant Past Email 1:\<newline>lunch\<newline>\<newline>\<newline>\<newline>Relevant Past Email 2:\<newline>budget\<newline>'')
   \<and> filtered_sections (scan_sql_history ''From: ops@x\<newline>Subject: Status Update'')
     ''Relevant Past Email 1:\<newline>lunch\<newline>\<newline>Relevant Past Email 2:\<newline>budget\<newline>''
   = [''Relevant Past Email 1:\<newline>lunch\<newline>\<newline>'', ''Relevant Past Email 2:\<newline>budget\<newline>'']
   \<and> filtered_sections (scan_sql_history ''From: ops@x\<newline>Subject: Status Update'')
     ''Relevant Past Email 1:\<newline>lunch\<newline>\<newline>\<newline>Relevant Past Email 2:\<newline>budget\<newline>''
   = [''Relevant Past Email 1:\<newline>lunch\<newline>\<newline>\<newline>'', ''Relevant Past Email 2:\<newline>budget\<newline>'']"
  by code_simp

lemma second_pass_same_history:
  "deduplicate_memory (fst (deduplicate_memory h r)) (snd (deduplicate_memory h r))
   = deduplicate_memory h (snd (deduplicate_memory h r))"
proof (cases "r = [] \<or> py_strip r = []")
  case True
  then have "deduplicate_memory h r = (h, [])" by (rule deduplicate_memory_no_recall)
  then show ?thesis by simp
next
  case recall: False
  show ?thesis
  proof (cases "h = [] \<or> py_strip h = []")
    case True
    with recall have "deduplicate_memory h r = ([], r)" by (rule deduplicate_memory_no_history)
    moreover from recall True have "deduplicate_memory [] r = ([], r)"
      by (simp add: deduplicate_memory_no_history)
    ultimately show ?thesis by simp
  next
    case False
    with recall have "fst (deduplicate_memory h r) = h"
      by (simp add: deduplicate_memory_filtered)
    then show ?thesis by simp
  qed
qed

lemma second_pass_recall:
  "fst (deduplicate_memory h (snd (deduplicate_memory h r))) = fst (deduplicate_memory h r)
   \<and> (if r = [] \<or> py_strip r = [] \<or> h = [] \<or> py_strip h = []
       then deduplicate_memory h (snd (deduplicate_memory h r)) = deduplicate_memory h r
       else snd (deduplicate_memory h r)
              = py_join ''\<newline>'' (filtered_sections (scan_sql_history h) r)
          \<and> filtered_sections (scan_sql_history h) (snd (deduplicate_memory h r))
              = map (\<lambda>s. s @ ''\<newline>'') (butlast (filtered_sections (scan_sql_history h) r))
                @ (if filtered_sections (scan_sql_history h) r = [] then []
                   else [last (filtered_sections (scan_sql_history h) r)])
          \<and> snd (deduplicate_memory h (snd (deduplicate_memory h r)))
              = py_join ''\<newline>\<newline>'' (filtered_sections (scan_sql_history h) r)
          \<and> (deduplicate_memory h (snd (deduplicate_memory h r)) = deduplicate_memory h r)
              = (length (filtered_sections (scan_sql_history h) r) \<le> 1))"
proof (cases "r = [] \<or> py_strip r = []")
  case True
  then have "deduplicate_memory h r = (h, [])" by (rule deduplicate_memory_no_recall)
  moreover have "deduplicate_memory h [] = (h, [])" by (simp add: deduplicate_memory_no_recall)
  moreover from True have "r = [] \<or> py_strip r = [] \<or> h = [] \<or> py_strip h = []" by blast
  ultimately show ?thesis by (simp only: if_P fst_conv snd_conv simp_thms)
next
  case recall: False
  show ?thesis
  proof (cases "h = [] \<or> py_strip h = []")
    case True
    with recall have "deduplicate_memory h r = ([], r)" by (rule deduplicate_memory_no_history)
    moreover from True have "r = [] \<or> py_strip r = [] \<or> h = [] \<or> py_strip h = []" by blast
    ultimately show ?thesis by (simp only: if_P fst_conv snd_conv simp_thms)
  next
    case history: False
    define K where "K = filtered_sections (scan_sql_history h) r"
    have inv: "newline_free_scan (scan_sql_history h)" by (rule scan_sql_history_newline_free)
    from recall history have first: "deduplicate_memory h r = (h, py_join ''\<newline>'' K)"
      unfolding K_def by (rule deduplicate_memory_filtered)
    have kept: "filtered_sections (scan_sql_history h) (py_join ''\<newline>'' K)
        = map (\<lambda>s. s @ ''\<newline>'') (butlast K) @ (if K = [] then [] else [last K])"
    proof (cases "K = []")
      case True
      then show ?thesis by (simp add: filtered_sections_empty)
    next
      case False
      then show ?thesis
        unfolding K_def using filtered_sections_second_pass [OF inv, of r] by simp
    qed
    have second: "deduplicate_memory h (py_join ''\<newline>'' K) = (h, py_join ''\<newline>\<newline>'' K)"
    proof (cases "K = []")
      case True
      then show ?thesis by (simp add: deduplicate_memory_no_recall)
    next
      case False
      then have "py_join ''\<newline>'' K \<noteq> [] \<and> py_strip (py_join ''\<newline>'' K) \<noteq> []"
        unfolding K_def by (rule first_pass_not_blank)
      then have "\<not> (py_join ''\<newline>'' K = [] \<or> py_strip (py_join ''\<newline>'' K) = [])" by simp
      then have "deduplicate_memory h (py_join ''\<newline>'' K)
          = (h, py_join ''\<newline>'' (filtered_sections (scan_sql_history h) (py_join ''\<newline>'' K)))"
        using history by (rule deduplicate_memory_filtered)
      also have "filtered_sections (scan_sql_history h) (py_join ''\<newline>'' K)
          = map (\<lambda>s. s @ ''\<newline>'') (butlast K) @ [last K]"
        using False by (simp add: kept)
      also have "py_join ''\<newline>'' (map (\<lambda>s. s @ ''\<newline>'') (butlast K) @ [last K])
          = py_join ''\<newline>\<newline>'' K"
        using False by (rule py_join_second_pass)
      finally show ?thesis .
    qed
    have same: "(py_join ''\<newline>\<newline>'' K = py_join ''\<newline>'' K) = (length K \<le> 1)"
    proof (cases "length K \<le> 1")
      case True
      then show ?thesis using py_join_single [of K "''\<newline>\<newline>''" "''\<newline>''"] by simp
    next
      case False
      then have "2 \<le> length K" by simp
      then have "py_join ''\<newline>\<newline>'' K \<noteq> py_join ''\<newline>'' K" by (rule py_join_lengths_differ)
      with False show ?thesis by simp
    qed
    from recall history have c: "\<not> (r = [] \<or> py_strip r = [] \<or> h = [] \<or> py_strip h = [])" by simp
    show ?thesis
      unfolding if_not_P [OF c] first snd_conv fst_conv second kept K_def [symmetric]
      using same by simp
  qed
qed

text \<open>
  C5, as amended.  A second pass drops no section that the first pass kept and adds
  none: its kept sections are those of the first pass in the same order, each but the
  last with one line break appended, so its filtered recall is the kept sections of the
  first pass joined with two line breaks instead of one.  The two passes return the same
  result exactly when the first pass kept at most one section; with a blank recall or a
  blank history they always do.  The history returned is the same in both passes, and
  it makes no difference whether the second pass is given the history as it was or as
  the first pass returned it.
\<close>

theorem second_pass_keeps_the_kept_sections:
  "deduplicate_memory (fst (deduplicate_memory h r)) (snd (deduplicate_memory h r))
   = deduplicate_memory h (snd (deduplicate_memory h r))
   \<and> fst (deduplicate_memory h (snd (deduplicate_memory h r))) = fst (deduplicate_memory h r)
   \<and> (if r = [] \<or> py_strip r = [] \<or> h = [] \<or> py_strip h = []
       then deduplicate_memory h (snd (deduplicate_memory h r)) = deduplicate_memory h r
       else snd (deduplicate_memory h r)
              = py_join ''\<newline>'' (filtered_sections (scan_sql_history h) r)
          \<and> filtered_sections (scan_sql_history h) (snd (deduplicate_memory h r))
              = map (\<lambda>s. s @ ''\<newline>'') (butlast (filtered_sections (scan_sql_history h) r))
                @ (if filtered_sections (scan_sql_history h) r = [] then []
                   else [last (filtered_sections (scan_sql_history h) r)])
          \<and> snd (deduplicate_memory h (snd (deduplicate_memory h r)))
              = py_join ''\<newline>\<newline>'' (filtered_sections (scan_sql_history h) r)
          \<and> (deduplicate_memory h (snd (deduplicate_memory h r)) = deduplicate_memory h r)
              = (length (filtered_sections (scan_sql_history h) r) \<le> 1))"
  using second_pass_same_history [of h r] second_pass_recall [of h r] by (rule conjI)

text \<open>
  The amended statement at a recall of three sections, of which the second repeats the
  subject of the history and is dropped: the second pass returns the two kept sections
  with four line breaks between them, where the first pass returned three.
\<close>

theorem second_pass_keeps_the_kept_sections_witness:
  "snd (deduplicate_memory ''From: ops@x\<newline>Subject: Status Update''
     (snd (deduplicate_memory ''From: ops@x\<newline>Subject: Status Update''
        ''Relevant Past Email 1:\<newline>lunch\<newline>\<newline>Relevant Past Email 2:\<newline>Status Update again\<newline>\<newline>Relevant Past Email 3:\<newline>budget\<newline>'')))
   = ''Relevant Past Email 1:\<newline>lunch\<newline>\<newline>\<newline>\<newline>Relevant Past Email 3:\<newline>budget\<newline>''"
proof -
  let ?h = "''From: ops@x\<newline>Subject: Status Update''"
  let ?r = "''Relevant Past Email 1:\<newline>lunch\<newline>\<newline>Relevant Past Email 2:\<newline>Status Update again\<newline>\<newline>Relevant Past Email 3:\<newline>budget\<newline>''"
  have c: "\<not> (?r = [] \<or> py_strip ?r = [] \<or> ?h = [] \<or> py_strip ?h = [])" by code_simp
  have k: "filtered_sections (scan_sql_history ?h) ?r
      = [''Relevant Past Email 1:\<newline>lunch\<newline>\<newline>'', ''Relevant Past Email 3:\<newline>budget\<newline>'']"
    by code_simp
  have "if ?r = [] \<or> py_strip ?r = [] \<or> ?h = [] \<or> py_strip ?h = []
       then deduplicate_memory ?h (snd (deduplicate_memory ?h ?r)) = deduplicate_memory ?h ?r
       else snd (deduplicate_memory ?h ?r)
              = py_join ''\<newline>'' (filtered_sections (scan_sql_history ?h) ?r)
          \<and> filtered_sections (scan_sql_history ?h) (snd (deduplicate_memory ?h ?r))
              = map (\<lambda>s. s @ ''\<newline>'') (butlast (filtered_sections (scan_sql_history ?h) ?r))
                @ (if filtered_sections (scan_sql_history ?h) ?r = [] then []
                   else [last (filtered_sections (scan_sql_history ?h) ?r)])
          \<and> snd (deduplicate_memory ?h (snd (deduplicate_memory ?h ?r)))
              = py_join ''\<newline>\<newline>'' (filtered_sections (scan_sql_history ?h) ?r)
          \<and> (deduplicate_memory ?h (snd (deduplicate_memory ?h ?r)) = deduplicate_memory ?h ?r)
              = (length (filtered_sections (scan_sql_history ?h) ?r) \<le> 1)"
    using second_pass_keeps_the_kept_sections [of ?h ?r] by (elim conjE)
  then have "snd (deduplicate_memory ?h (snd (deduplicate_memory ?h ?r)))
              = py_join ''\<newline>\<newline>'' (filtered_sections (scan_sql_history ?h) ?r)"
    unfolding if_not_P [OF c] by (elim conjE)
  then show ?thesis unfolding k by simp
qed

end
